theory Spec2Isabelle
  imports Complex_Main
begin

section \<open>Python values, errors and slicing\<close>

text \<open>
  The loader of \<^verbatim>\<open>UCTB/dataset/data_loader.py\<close> is modelled as a function from its
  constructor arguments and the raw dataset to either an error or the record of the
  attributes it sets. A float is modelled by the real number it denotes, with the
  rounding of every float operation of the sources written out (see below); Python
  integers by \<open>int\<close>, row and column counts by \<open>nat\<close>.
\<close>

datatype error =
    AssertionError
  | ValueError string
  | TypeError string
  | AttributeError string
  | ZeroDivisionError
  | IndexError
  | ConfigError string

fun thenE :: "error + 'a \<Rightarrow> ('a \<Rightarrow> error + 'b) \<Rightarrow> error + 'b" where
  "thenE (Inl e) f = Inl e"
| "thenE (Inr x) f = f x"

text \<open>Python's \<^verbatim>\<open>int(x)\<close> on a float truncates towards zero.\<close>

definition py_int :: "real \<Rightarrow> int" where
  "py_int x = (if 0 \<le> x then \<lfloor>x\<rfloor> else \<lceil>x\<rceil>)"

text \<open>Python's \<^verbatim>\<open>round(x)\<close> rounds to the nearest integer, ties to the even one.\<close>

definition py_round :: "real \<Rightarrow> int" where
  "py_round x =
     (let f = \<lfloor>x\<rfloor>; d = x - of_int f
      in if d < 1 / 2 then f
         else if 1 / 2 < d then f + 1
         else if even f then f else f + 1)"

text \<open>
  Floating-point arithmetic. A finite binary floating-point number is the real number it
  denotes, and an operation on floats is the exact operation followed by rounding to
  the nearest number with \<open>p\<close> significant bits, ties to the one with an even last
  bit: \<open>p = 53\<close> for Python floats and float64 arrays, \<open>p = 24\<close> for a cast to
  float32. \<open>binade x\<close> is the exponent \<open>e\<close> with \<open>2\<^sup>e \<le> |x| < 2\<^sup>e\<^sup>+\<^sup>1\<close>. The range of
  the exponent is not bounded: overflow, subnormal numbers and infinities are outside
  the model.
\<close>

definition binade :: "real \<Rightarrow> int" where
  "binade x = \<lfloor>log 2 \<bar>x\<bar>\<rfloor>"

definition round_to :: "nat \<Rightarrow> real \<Rightarrow> real" where
  "round_to p x =
     (if x = 0 then 0
      else of_int (py_round (x / 2 powr of_int (binade x - int p + 1)))
             * 2 powr of_int (binade x - int p + 1))"

definition float64 :: "real \<Rightarrow> real" where
  "float64 x = round_to 53 x"

definition float32 :: "real \<Rightarrow> real" where
  "float32 x = round_to 24 x"

text \<open>
  A slice bound \<^verbatim>\<open>i\<close> on a sequence of length \<^verbatim>\<open>n\<close>: a negative bound counts from the
  end, and every bound is clamped to \<^verbatim>\<open>[0, n]\<close>.
\<close>

definition slice_bound :: "nat \<Rightarrow> int \<Rightarrow> nat" where
  "slice_bound n i = (if i < 0 then nat (max 0 (int n + i)) else min n (nat i))"

text \<open>\<^verbatim>\<open>xs[lo:hi]\<close>, either bound possibly omitted (\<open>None\<close>).\<close>

definition py_slice :: "int option \<Rightarrow> int option \<Rightarrow> 'a list \<Rightarrow> 'a list" where
  "py_slice lo hi xs =
     (let n = length xs;
          a = (case lo of None \<Rightarrow> 0 | Some i \<Rightarrow> slice_bound n i);
          b = (case hi of None \<Rightarrow> n | Some j \<Rightarrow> slice_bound n j)
      in take (b - a) (drop a xs))"

text \<open>The last \<open>k\<close> elements of a list (all of it when it has fewer).\<close>

definition last_rows :: "nat \<Rightarrow> 'a list \<Rightarrow> 'a list" where
  "last_rows k xs = drop (length xs - k) xs"

section \<open>Arrays\<close>

text \<open>
  A two-dimensional ndarray of shape \<open>[length (rws m), ncols m]\<close>. The column count is
  kept apart from the rows because an array without rows still has one.
\<close>

record matrix =
  ncols :: nat
  rws :: "real list list"

definition wf_matrix :: "matrix \<Rightarrow> bool" where
  "wf_matrix m = list_all (\<lambda>r. length r = ncols m) (rws m)"

definition len_m :: "matrix \<Rightarrow> nat" where
  "len_m m = length (rws m)"

definition shape_m :: "matrix \<Rightarrow> nat \<times> nat" where
  "shape_m m = (length (rws m), ncols m)"

definition slice_m :: "int option \<Rightarrow> int option \<Rightarrow> matrix \<Rightarrow> matrix" where
  "slice_m lo hi m = m\<lparr>rws := py_slice lo hi (rws m)\<rparr>"

text \<open>\<^verbatim>\<open>a.astype(np.float32)\<close>\<close>

definition astype_float32 :: "matrix \<Rightarrow> matrix" where
  "astype_float32 m = m\<lparr>rws := map (map float32) (rws m)\<rparr>"

text \<open>\<^verbatim>\<open>np.vstack([a, b])\<close> of two 2-D arrays: the column counts must agree.\<close>

definition vstack_m :: "matrix \<Rightarrow> matrix \<Rightarrow> error + matrix" where
  "vstack_m a b =
     (if ncols a = ncols b then Inr \<lparr>ncols = ncols a, rws = rws a @ rws b\<rparr>
      else Inl (ValueError ''all the input array dimensions must match''))"

text \<open>
  The external feature array: \<open>NoExt\<close> is \<^verbatim>\<open>np.array([])\<close>, the one-dimensional empty
  array of shape \<open>(0,)\<close> that the constructor builds when no feature block is enabled;
  \<open>Ext m\<close> is a two-dimensional array.
\<close>

datatype ext_array = NoExt | Ext matrix

fun len_e :: "ext_array \<Rightarrow> nat" where
  "len_e NoExt = 0"
| "len_e (Ext m) = len_m m"

fun slice_e :: "int option \<Rightarrow> int option \<Rightarrow> ext_array \<Rightarrow> ext_array" where
  "slice_e lo hi NoExt = NoExt"
| "slice_e lo hi (Ext m) = Ext (slice_m lo hi m)"

text \<open>
  \<^verbatim>\<open>np.vstack\<close> first makes every argument at least two-dimensional: the empty
  one-dimensional array becomes one row without columns.
\<close>

fun atleast_2d :: "ext_array \<Rightarrow> matrix" where
  "atleast_2d NoExt = \<lparr>ncols = 0, rws = [[]]\<rparr>"
| "atleast_2d (Ext m) = m"

definition vstack_e :: "ext_array \<Rightarrow> ext_array \<Rightarrow> error + ext_array" where
  "vstack_e a b = thenE (vstack_m (atleast_2d a) (atleast_2d b)) (\<lambda>m. Inr (Ext m))"

section \<open>The raw dataset and the constructor arguments\<close>

text \<open>
  The fields of the \<^verbatim>\<open>DataSet\<close> object that the modelled code reads.
  \<^verbatim>\<open>node_station_info\<close> is kept as the list of \<open>(lat, lng)\<close> pairs that
  \<^verbatim>\<open>build_graph\<close> extracts from it; \<^verbatim>\<open>node_monthly_interaction\<close> is the list of
  its monthly matrices.
\<close>

record DataSet =
  node_traffic :: matrix
  time_fitness :: real
  node_station_info :: "(real \<times> real) list"
  node_monthly_interaction :: "matrix list"
  graph_neighbors :: matrix
  graph_lines :: matrix
  graph_transfer :: matrix

text \<open>
  \<^verbatim>\<open>data_range\<close> is \<^verbatim>\<open>'all'\<close>, a float (or a string starting with \<^verbatim>\<open>0.\<close>, which
  the constructor converts to a float), or a list of two day numbers.
\<close>

datatype data_range = Range_all | Range_ratio real | Range_days real real

text \<open>
  \<^verbatim>\<open>train_data_length\<close> is a string: \<open>Length_all\<close> stands for one whose lower case
  is \<^verbatim>\<open>'all'\<close>, \<open>Length_days d\<close> for one that \<^verbatim>\<open>int()\<close> parses to \<open>d\<close>.
\<close>

datatype train_length = Length_all | Length_days int

text \<open>
  The names that \<^verbatim>\<open>build_graph\<close> compares \<^verbatim>\<open>graph_name.lower()\<close> with;
  \<open>Unrecognised\<close> is any other string.
\<close>

datatype graph_name =
  Distance | Interaction | Correlation | Neighbor | Line | Transfer | Unrecognised

text \<open>
  The constructor arguments. The three history lengths are the values after
  \<^verbatim>\<open>int(...)\<close>; \<open>arg_external_lstm_len = None\<close> is Python's \<^verbatim>\<open>None\<close>.
  \<open>arg_graph\<close> is \<^verbatim>\<open>graph.split('-')\<close>.
\<close>

record config =
  arg_data_range :: data_range
  arg_train_data_length :: train_length
  arg_test_ratio :: real
  arg_closeness_len :: int
  arg_period_len :: int
  arg_trend_len :: int
  arg_external_lstm_len :: "int option"
  arg_target_length :: int
  arg_graph :: "graph_name list"
  arg_threshold_distance :: real
  arg_threshold_correlation :: real
  arg_threshold_interaction :: real
  arg_normalize :: bool
  arg_with_lm :: bool
  arg_with_tpe :: bool

section \<open>Node filtering and the selected range\<close>

text \<open>
  \<^verbatim>\<open>self.daily_slots = 24 * 60 / self.dataset.time_fitness\<close>, a float division.
\<close>

definition slots_per_day :: "DataSet \<Rightarrow> real" where
  "slots_per_day ds = float64 (24 * 60 / time_fitness ds)"

definition daily_slots_of :: "DataSet \<Rightarrow> error + real" where
  "daily_slots_of ds =
     (if time_fitness ds = 0 then Inl ZeroDivisionError else Inr (slots_per_day ds))"

text \<open>
  The rewriting of \<^verbatim>\<open>data_range\<close> into a pair of slot indices, lines 117 to 124:
  \<^verbatim>\<open>int(...)\<close> of a float product.
\<close>

fun resolve_data_range :: "data_range \<Rightarrow> real \<Rightarrow> nat \<Rightarrow> int \<times> int" where
  "resolve_data_range Range_all slots n = (0, int n)"
| "resolve_data_range (Range_ratio f) slots n = (0, py_int (float64 (f * real n)))"
| "resolve_data_range (Range_days a b) slots n =
     (py_int (float64 (a * slots)), py_int (float64 (b * slots)))"

definition column :: "matrix \<Rightarrow> nat \<Rightarrow> real list" where
  "column m j = map (\<lambda>r. r ! j) (rws m)"

text \<open>
  \<^verbatim>\<open>np.mean(a, axis=0)[j]\<close> of a float64 array: numpy adds the rows one after the
  other in float64 and divides the sum by the number of rows. On an array without rows it
  yields \<^verbatim>\<open>nan\<close>, which compares false with everything; \<open>None\<close> stands for it.
\<close>

definition float_sum :: "real list \<Rightarrow> real" where
  "float_sum xs = foldl (\<lambda>a x. float64 (a + x)) 0 xs"

definition mean_axis0 :: "matrix \<Rightarrow> nat \<Rightarrow> real option" where
  "mean_axis0 m j =
     (if rws m = [] then None
      else Some (float64 (float_sum (column m j) / real (length (rws m)))))"

definition is_active :: "matrix \<Rightarrow> real \<Rightarrow> nat \<Rightarrow> bool" where
  "is_active m slots j =
     (case mean_axis0 m j of None \<Rightarrow> False | Some a \<Rightarrow> float64 (a * slots) > 1)"

text \<open>
  \<^verbatim>\<open>np.where(np.mean(self.dataset.node_traffic, axis=0) * self.daily_slots > 1)[0]\<close>:
  the positions that satisfy the test, in increasing order.
\<close>

definition traffic_index :: "matrix \<Rightarrow> real \<Rightarrow> nat list" where
  "traffic_index m slots = filter (is_active m slots) [0..<ncols m]"

text \<open>
  \<^verbatim>\<open>a[lo:hi, idx].astype(np.float32)\<close>, lines 131 and 132: a row slice together
  with a selection of columns by an index array, every entry cast to float32. The
  result has one column for each entry of \<open>idx\<close>, also when no row is left. numpy
  raises IndexError for an index that is not a column.
\<close>

definition select_rows_cols :: "matrix \<Rightarrow> int \<Rightarrow> int \<Rightarrow> nat list \<Rightarrow> error + matrix" where
  "select_rows_cols m lo hi idx =
     (if list_all (\<lambda>j. j < ncols m) idx
      then Inr \<lparr>ncols = length idx,
                rws = map (\<lambda>r. map (\<lambda>j. float32 (r ! j)) idx)
                        (py_slice (Some lo) (Some hi) (rws m))\<rparr>
      else Inl IndexError)"

section \<open>Collaborators that are not part of the sources\<close>

text \<open>
  Modelled from the spec: \<^verbatim>\<open>SplitData.split_data\<close> (spec 4.2), which is imported from
  \<^verbatim>\<open>..preprocess\<close> and not among the sources. It returns contiguous partitions in
  order, of lengths \<^verbatim>\<open>round(len * ratio)\<close>, the last one taking what remains, and
  fails with a ConfigError when a ratio is negative, when the ratios do not sum to 1 or
  when the array is shorter than the number of partitions. The ratios the loader passes
  are \<^verbatim>\<open>[1 - test_ratio, test_ratio]\<close>, whose sum is 1 in exact arithmetic.
\<close>

fun partitions :: "nat \<Rightarrow> 'a list \<Rightarrow> real list \<Rightarrow> 'a list list" where
  "partitions n xs [] = []"
| "partitions n xs [r] = [xs]"
| "partitions n xs (r # rs) =
     (let k = nat (py_round (real n * r)) in take k xs # partitions n (drop k xs) rs)"

definition split_data :: "'a list \<Rightarrow> real list \<Rightarrow> error + 'a list list" where
  "split_data xs ratios =
     (if \<not> list_all (\<lambda>r. 0 \<le> r) ratios then Inl (ConfigError ''negative ratio'')
      else if sum_list ratios \<noteq> 1 then Inl (ConfigError ''ratios do not sum to 1'')
      else if length xs < length ratios then Inl (ConfigError ''array shorter than partitions'')
      else Inr (partitions (length xs) xs ratios))"

text \<open>
  The tuple assignment \<^verbatim>\<open>a, b = SplitData.split_data(x, ratios)\<close> of the loader, which
  raises ValueError unless exactly two partitions come back.
\<close>

definition unpack2 :: "'a list \<Rightarrow> error + ('a \<times> 'a)" where
  "unpack2 ps = (case ps of [a, b] \<Rightarrow> Inr (a, b) | _ \<Rightarrow> Inl (ValueError ''unpack''))"

definition split_m :: "matrix \<Rightarrow> real list \<Rightarrow> error + (matrix \<times> matrix)" where
  "split_m m ratios =
     thenE (split_data (rws m) ratios) (\<lambda>ps.
     thenE (unpack2 ps) (\<lambda>(a, b).
       Inr (\<lparr>ncols = ncols m, rws = a\<rparr>, \<lparr>ncols = ncols m, rws = b\<rparr>)))"

fun split_e :: "ext_array \<Rightarrow> real list \<Rightarrow> error + (ext_array \<times> ext_array)" where
  "split_e NoExt ratios =
     thenE (split_data ([] :: real list) ratios) (\<lambda>ps.
     thenE (unpack2 ps) (\<lambda>(a, b). Inr (NoExt, NoExt)))"
| "split_e (Ext m) ratios = thenE (split_m m ratios) (\<lambda>(a, b). Inr (Ext a, Ext b))"

text \<open>
  Modelled from the spec: \<^verbatim>\<open>Normalizer\<close> (spec 4.1), imported from \<^verbatim>\<open>..preprocess\<close>
  and not among the sources. Fitting records the minimum and the maximum of every
  channel (column); \<^verbatim>\<open>min_max_normal\<close> maps \<open>x\<close> to
  \<open>(x - min) / (max - min + \<epsilon>)\<close>. The spec fixes neither \<open>\<epsilon>\<close> nor the statistics
  of an array without rows; the model takes \<open>10\<^sup>-\<^sup>8\<close> and 0.
\<close>

record minmax =
  n_min :: "real list"
  n_max :: "real list"

definition epsilon :: real where
  "epsilon = 1 / 100000000"

definition list_min :: "real list \<Rightarrow> real" where
  "list_min xs = (case xs of [] \<Rightarrow> 0 | x # ys \<Rightarrow> fold min ys x)"

definition list_max :: "real list \<Rightarrow> real" where
  "list_max xs = (case xs of [] \<Rightarrow> 0 | x # ys \<Rightarrow> fold max ys x)"

definition Normalizer :: "matrix \<Rightarrow> minmax" where
  "Normalizer m =
     \<lparr>n_min = map (\<lambda>j. list_min (column m j)) [0..<ncols m],
      n_max = map (\<lambda>j. list_max (column m j)) [0..<ncols m]\<rparr>"

definition min_max_normal :: "minmax \<Rightarrow> matrix \<Rightarrow> matrix" where
  "min_max_normal nz m =
     m\<lparr>rws := map (\<lambda>r. map (\<lambda>j. (r ! j - n_min nz ! j) / (n_max nz ! j - n_min nz ! j + epsilon))
                           [0..<length r]) (rws m)\<rparr>"

type_synonym tensor3 = "real list list list"
type_synonym tensor4 = "real list list list list"

text \<open>
  Modelled from the spec: \<^verbatim>\<open>ST_MoveSample\<close> (spec 4.3), imported from
  \<^verbatim>\<open>..preprocess\<close> and not among the sources. For every current index \<open>i\<close> from
  \<open>max_lookback\<close> to \<open>T - target_length\<close> it yields the closeness window
  \<open>data[i - closeness_len : i]\<close>, the period window \<open>data[i - k * daily_slots]\<close> for
  \<open>k = period_len, \<dots>, 1\<close>, the trend window \<open>data[i - k * 7 * daily_slots]\<close> for
  \<open>k = trend_len, \<dots>, 1\<close> and the target \<open>data[i : i + target_length]\<close>. A window
  array has shape \<open>[rows, nodes, length, 1]\<close>, the target \<open>[rows, nodes, target_length]\<close>;
  a length of 0 gives an array without rows; all three lengths 0 is a ConfigError.
  \<open>max_lookback\<close> is \<open>max(closeness_len, period_len * daily_slots,
  trend_len * 7 * daily_slots)\<close>, a real number, since the loader passes its float
  \<^verbatim>\<open>daily_slots\<close>. The spec does not say what an index that is not a whole number
  denotes: the candidate indices are the integers from \<open>max_lookback\<close> on, and a row is
  read at the integer part of its index.
\<close>

record sampler =
  s_closeness_len :: int
  s_period_len :: int
  s_trend_len :: int
  s_target_length :: int
  s_daily_slots :: real

definition ST_MoveSample :: "int \<Rightarrow> int \<Rightarrow> int \<Rightarrow> int \<Rightarrow> real \<Rightarrow> sampler" where
  "ST_MoveSample c p t target slots =
     \<lparr>s_closeness_len = c, s_period_len = p, s_trend_len = t,
      s_target_length = target, s_daily_slots = slots\<rparr>"

definition max_lookback :: "sampler \<Rightarrow> real" where
  "max_lookback s =
     max (of_int (s_closeness_len s))
       (max (of_int (s_period_len s) * s_daily_slots s)
            (of_int (s_trend_len s) * 7 * s_daily_slots s))"

definition current_indices :: "sampler \<Rightarrow> matrix \<Rightarrow> int list" where
  "current_indices s m = [\<lceil>max_lookback s\<rceil> .. int (length (rws m)) - s_target_length s]"

definition entry :: "matrix \<Rightarrow> real \<Rightarrow> nat \<Rightarrow> real" where
  "entry m i n = rws m ! nat \<lfloor>i\<rfloor> ! n"

definition closeness_window :: "sampler \<Rightarrow> matrix \<Rightarrow> int \<Rightarrow> real list list list" where
  "closeness_window s m i =
     map (\<lambda>n. map (\<lambda>k. [entry m (of_int (i - s_closeness_len s + int k)) n])
                  [0..<nat (s_closeness_len s)]) [0..<ncols m]"

definition period_window :: "sampler \<Rightarrow> matrix \<Rightarrow> int \<Rightarrow> real list list list" where
  "period_window s m i =
     map (\<lambda>n. map (\<lambda>k. [entry m (of_int i - of_int (s_period_len s - int k) * s_daily_slots s) n])
                  [0..<nat (s_period_len s)]) [0..<ncols m]"

definition trend_window :: "sampler \<Rightarrow> matrix \<Rightarrow> int \<Rightarrow> real list list list" where
  "trend_window s m i =
     map (\<lambda>n. map (\<lambda>k. [entry m (of_int i - of_int (s_trend_len s - int k) * 7 * s_daily_slots s) n])
                  [0..<nat (s_trend_len s)]) [0..<ncols m]"

definition target_window :: "sampler \<Rightarrow> matrix \<Rightarrow> int \<Rightarrow> real list list" where
  "target_window s m i =
     map (\<lambda>n. map (\<lambda>k. entry m (of_int (i + int k)) n) [0..<nat (s_target_length s)]) [0..<ncols m]"

definition move_sample ::
  "sampler \<Rightarrow> matrix \<Rightarrow> error + (tensor4 \<times> tensor4 \<times> tensor4 \<times> tensor3)" where
  "move_sample s m =
     (if s_closeness_len s = 0 \<and> s_period_len s = 0 \<and> s_trend_len s = 0
      then Inl (ConfigError ''nothing to sample'')
      else Inr
        (if 0 < s_closeness_len s then map (closeness_window s m) (current_indices s m) else [],
         if 0 < s_period_len s then map (period_window s m) (current_indices s m) else [],
         if 0 < s_trend_len s then map (trend_window s m) (current_indices s m) else [],
         if 0 < s_target_length s then map (target_window s m) (current_indices s m) else []))"

section \<open>The steps of the constructor\<close>

text \<open>
  \<^verbatim>\<open>np.concatenate(external_feature, axis=-1)\<close> over the list of feature blocks: the
  blocks must have the same number of rows.
\<close>

definition hstack2 :: "matrix \<Rightarrow> matrix \<Rightarrow> error + matrix" where
  "hstack2 a b =
     (if length (rws a) = length (rws b)
      then Inr \<lparr>ncols = ncols a + ncols b, rws = map2 (@) (rws a) (rws b)\<rparr>
      else Inl (ValueError ''all the input array dimensions must match''))"

fun concatenate_last :: "matrix list \<Rightarrow> error + matrix" where
  "concatenate_last [] = Inl (ValueError ''need at least one array to concatenate'')"
| "concatenate_last [m] = Inr m"
| "concatenate_last (m # ms) = thenE (concatenate_last ms) (hstack2 m)"

text \<open>
  Lines 209 to 215. The argument is the list \<^verbatim>\<open>external_feature\<close> of the blocks that
  lines 134 to 207 collect from the weather, holiday and temporal-position sources
  (with \<^verbatim>\<open>dateutil\<close>, \<^verbatim>\<open>workday_parser\<close> and \<^verbatim>\<open>one_hot\<close>, which are outside the
  sources). The result is the array, cast to float32, and \<^verbatim>\<open>external_dim\<close>.
\<close>

definition assemble_external :: "matrix list \<Rightarrow> error + (ext_array \<times> nat)" where
  "assemble_external blocks =
     (if 0 < length blocks
      then thenE (concatenate_last blocks) (\<lambda>m. Inr (Ext (astype_float32 m), ncols m))
      else Inr (NoExt, 0))"

text \<open>Lines 227 to 230: the normalizer is built from the train partition.\<close>

record normalized =
  fitted :: "minmax option"
  norm_train :: matrix
  norm_test :: matrix

definition normalize_step :: "bool \<Rightarrow> matrix \<Rightarrow> matrix \<Rightarrow> normalized" where
  "normalize_step flag train test =
     (if flag
      then (let nz = Normalizer train
            in \<lparr>fitted = Some nz, norm_train = min_max_normal nz train,
                norm_test = min_max_normal nz test\<rparr>)
      else \<lparr>fitted = None, norm_train = train, norm_test = test\<rparr>)"

text \<open>
  Lines 232 to 235: the slice \<^verbatim>\<open>[-int(train_day_length * self.daily_slots):]\<close> of both
  train partitions.
\<close>

fun truncate_train :: "train_length \<Rightarrow> real \<Rightarrow> matrix \<Rightarrow> ext_array \<Rightarrow> matrix \<times> ext_array" where
  "truncate_train Length_all slots train ef = (train, ef)"
| "truncate_train (Length_days d) slots train ef =
     (slice_m (Some (- py_int (float64 (of_int d * slots)))) None train,
      slice_e (Some (- py_int (float64 (of_int d * slots)))) None ef)"

text \<open>
  Lines 237 to 244. The number of rows to borrow is
  \<^verbatim>\<open>max(int(daily_slots * period_len), int(daily_slots * 7 * trend_len), closeness_len)\<close>,
  every product a float product.
\<close>

definition expand_count :: "real \<Rightarrow> int \<Rightarrow> int \<Rightarrow> int \<Rightarrow> int" where
  "expand_count slots c p t =
     max (py_int (float64 (slots * of_int p)))
       (max (py_int (float64 (float64 (slots * 7) * of_int t))) c)"

definition expand_test ::
  "int \<Rightarrow> matrix \<Rightarrow> matrix \<Rightarrow> ext_array \<Rightarrow> ext_array \<Rightarrow> error + (matrix \<times> ext_array)" where
  "expand_test count train test train_ef test_ef =
     (let expand_start_index = int (len_m train) - count
      in thenE (vstack_m (slice_m (Some expand_start_index) None train) test) (\<lambda>test'.
         thenE (vstack_e (slice_e (Some expand_start_index) None train_ef) test_ef) (\<lambda>test_ef'.
           Inr (test', test_ef'))))"

text \<open>
  Lines 281 to 311. The eight attributes start as \<^verbatim>\<open>None\<close>. When the external
  feature array has rows, it is sampled with \<^verbatim>\<open>target_length=0\<close>, then with a
  closeness-only sampler when \<^verbatim>\<open>external_lstm_len\<close> is positive; after that the raw
  partitions and the two \<^verbatim>\<open>lstm\<close> arrays are sliced, the latter whether or not they
  were assigned. Subscripting \<^verbatim>\<open>None\<close> raises TypeError.
\<close>

record ext_result =
  r_train_ef :: ext_array
  r_test_ef :: ext_array
  r_train_ef_closeness :: "tensor4 option"
  r_train_ef_period :: "tensor4 option"
  r_train_ef_trend :: "tensor4 option"
  r_train_lstm_ef :: "tensor4 option"
  r_test_ef_closeness :: "tensor4 option"
  r_test_ef_period :: "tensor4 option"
  r_test_ef_trend :: "tensor4 option"
  r_test_lstm_ef :: "tensor4 option"

text \<open>The sampler on an external array; the empty one-dimensional array has no slots.\<close>

fun time_major :: "ext_array \<Rightarrow> matrix" where
  "time_major NoExt = \<lparr>ncols = 0, rws = []\<rparr>"
| "time_major (Ext m) = m"

definition subscript_slice :: "int \<Rightarrow> int \<Rightarrow> 'a list option \<Rightarrow> error + 'a list option" where
  "subscript_slice lo hi v =
     (case v of
        None \<Rightarrow> Inl (TypeError ''NoneType object is not subscriptable'')
      | Some xs \<Rightarrow> Inr (Some (py_slice (Some lo) (Some hi) xs)))"

definition lstm_sample ::
  "int \<Rightarrow> real \<Rightarrow> ext_array \<Rightarrow> ext_array \<Rightarrow> error + (tensor4 option \<times> tensor4 option)" where
  "lstm_sample lstm_len slots train_ef test_ef =
     (if 0 < lstm_len
      then thenE (move_sample (ST_MoveSample lstm_len 0 0 0 slots) (time_major train_ef))
             (\<lambda>(train_lstm, _, _, _).
           thenE (move_sample (ST_MoveSample lstm_len 0 0 0 slots) (time_major test_ef))
             (\<lambda>(test_lstm, _, _, _). Inr (Some train_lstm, Some test_lstm)))
      else Inr (None, None))"

definition external_step ::
  "ext_array \<Rightarrow> int \<Rightarrow> int \<Rightarrow> int \<Rightarrow> int \<Rightarrow> int \<Rightarrow> real \<Rightarrow> nat \<Rightarrow> nat
     \<Rightarrow> ext_array \<Rightarrow> ext_array \<Rightarrow> error + ext_result" where
  "external_step external_feature c p t lstm_len target slots train_seq test_seq train_ef test_ef =
     (if 0 < len_e external_feature
      then
        thenE (move_sample (ST_MoveSample c p t 0 slots) (time_major train_ef))
          (\<lambda>(train_c, train_p, train_t, _).
        thenE (move_sample (ST_MoveSample c p t 0 slots) (time_major test_ef))
          (\<lambda>(test_c, test_p, test_t, _).
        thenE (lstm_sample lstm_len slots train_ef test_ef)
          (\<lambda>(train_lstm, test_lstm).
        thenE (subscript_slice (- int train_seq - target) (- target) train_lstm)
          (\<lambda>train_lstm'.
        thenE (subscript_slice (- int test_seq - target) (- target) test_lstm)
          (\<lambda>test_lstm'.
          Inr \<lparr>r_train_ef = slice_e (Some (- int train_seq - target)) (Some (- target)) train_ef,
               r_test_ef = slice_e (Some (- int test_seq - target)) (Some (- target)) test_ef,
               r_train_ef_closeness = Some train_c,
               r_train_ef_period = Some train_p,
               r_train_ef_trend = Some train_t,
               r_train_lstm_ef = train_lstm',
               r_test_ef_closeness = Some test_c,
               r_test_ef_period = Some test_p,
               r_test_ef_trend = Some test_t,
               r_test_lstm_ef = test_lstm'\<rparr>)))))
      else
        Inr \<lparr>r_train_ef = train_ef, r_test_ef = test_ef,
             r_train_ef_closeness = None, r_train_ef_period = None,
             r_train_ef_trend = None, r_train_lstm_ef = None,
             r_test_ef_closeness = None, r_test_ef_period = None,
             r_test_ef_trend = None, r_test_lstm_ef = None\<rparr>)"

text \<open>
  Lines 321 to 359, the time position embedding. \<^verbatim>\<open>range(start, stop, step)\<close> raises
  ValueError for a step of 0; \<^verbatim>\<open>np.concatenate\<close> along the last axis needs arrays
  of the same number of dimensions and equal shapes on the other axes. For a history
  length of 0 the window array is the empty array of one dimension, which cannot be
  joined with the four-dimensional embedding.
\<close>

definition py_range :: "int \<Rightarrow> int \<Rightarrow> int \<Rightarrow> error + int list" where
  "py_range start stop step =
     (if step = 0 then Inl (ValueError ''range() arg 3 must not be zero'')
      else if 0 < step
        then Inr (map (\<lambda>k. start + int k * step) [0..<nat ((stop - start + step - 1) div step)])
        else Inr (map (\<lambda>k. start + int k * step) [0..<nat ((start - stop - step - 1) div (- step))]))"

definition tile_tpe :: "int list \<Rightarrow> nat \<Rightarrow> nat \<Rightarrow> tensor4" where
  "tile_tpe tpe n nodes = replicate n (replicate nodes (map (\<lambda>v. [of_int v]) tpe))"

fun zipE :: "('a \<Rightarrow> 'b \<Rightarrow> error + 'c) \<Rightarrow> 'a list \<Rightarrow> 'b list \<Rightarrow> error + 'c list" where
  "zipE f [] [] = Inr []"
| "zipE f (x # xs) (y # ys) =
     thenE (f x y) (\<lambda>z. thenE (zipE f xs ys) (\<lambda>zs. Inr (z # zs)))"
| "zipE f xs ys = Inl (ValueError ''all the input array dimensions must match'')"

definition concatenate_last4 :: "tensor4 \<Rightarrow> tensor4 \<Rightarrow> error + tensor4" where
  "concatenate_last4 a b = zipE (zipE (zipE (\<lambda>x y. Inr (x @ y)))) a b"

definition attach_tpe :: "int \<Rightarrow> int list \<Rightarrow> nat \<Rightarrow> tensor4 \<Rightarrow> error + tensor4" where
  "attach_tpe len tpe nodes a =
     (if len = 0
      then Inl (ValueError ''all the input arrays must have same number of dimensions'')
      else concatenate_last4 a (tile_tpe tpe (length a) nodes))"

section \<open>Graphs\<close>

text \<open>
  Modelled from the spec: \<^verbatim>\<open>GraphBuilder\<close> (spec 4.4), imported from
  \<^verbatim>\<open>..model_unit\<close> and not among the sources. An adjacency matrix has one row and
  one column for every node it is given, with entries 0 and 1;
  \<^verbatim>\<open>adjacent_to_laplacian\<close> is \<open>D\<^sup>-\<^sup>1\<^sup>/\<^sup>2 A D\<^sup>-\<^sup>1\<^sup>/\<^sup>2\<close> and keeps the shape of
  its argument. The spec gives no formula for the great-circle distance and the
  correlation; the model takes the haversine formula on a sphere of radius 6371 km and
  the sample Pearson coefficient, and the comparison directions of the loader's
  docstring for the two thresholds the spec leaves open.
\<close>

definition great_circle :: "real \<times> real \<Rightarrow> real \<times> real \<Rightarrow> real" where
  "great_circle a b =
     (let la1 = fst a * pi / 180; lo1 = snd a * pi / 180;
          la2 = fst b * pi / 180; lo2 = snd b * pi / 180;
          h = (sin ((la2 - la1) / 2))\<^sup>2 + cos la1 * cos la2 * (sin ((lo2 - lo1) / 2))\<^sup>2
      in 2 * 6371000 * arcsin (sqrt h))"

definition distance_adjacent :: "(real \<times> real) list \<Rightarrow> real \<Rightarrow> matrix" where
  "distance_adjacent coords threshold =
     \<lparr>ncols = length coords,
      rws = map (\<lambda>a. map (\<lambda>b. if great_circle a b \<le> threshold then 1 else 0) coords) coords\<rparr>"

definition pearson :: "real list \<Rightarrow> real list \<Rightarrow> real" where
  "pearson xs ys =
     (let mx = sum_list xs / real (length xs); my = sum_list ys / real (length ys);
          sxy = sum_list (map2 (\<lambda>x y. (x - mx) * (y - my)) xs ys);
          sxx = sum_list (map (\<lambda>x. (x - mx)\<^sup>2) xs);
          syy = sum_list (map (\<lambda>y. (y - my)\<^sup>2) ys)
      in sxy / (sqrt sxx * sqrt syy))"

definition correlation_adjacent :: "matrix \<Rightarrow> real \<Rightarrow> matrix" where
  "correlation_adjacent m threshold =
     \<lparr>ncols = ncols m,
      rws = map (\<lambda>i. map (\<lambda>j. if pearson (column m i) (column m j) > threshold then 1 else 0)
                          [0..<ncols m]) [0..<ncols m]\<rparr>"

definition transpose_m :: "matrix \<Rightarrow> matrix" where
  "transpose_m m = \<lparr>ncols = length (rws m), rws = map (column m) [0..<ncols m]\<rparr>"

text \<open>Elementwise sum of two arrays of the same shape (broadcasting is not modelled).\<close>

definition add_m :: "matrix \<Rightarrow> matrix \<Rightarrow> error + matrix" where
  "add_m a b =
     (if shape_m a = shape_m b
      then Inr \<lparr>ncols = ncols a, rws = map2 (map2 (+)) (rws a) (rws b)\<rparr>
      else Inl (ValueError ''operands could not be broadcast together''))"

definition interaction_adjacent :: "matrix \<Rightarrow> real \<Rightarrow> error + matrix" where
  "interaction_adjacent counts threshold =
     thenE (add_m counts (transpose_m counts)) (\<lambda>sym.
       Inr (sym\<lparr>rws := map (map (\<lambda>x. if x > threshold then 1 else 0)) (rws sym)\<rparr>))"

definition degree :: "matrix \<Rightarrow> nat \<Rightarrow> real" where
  "degree a i = (if i < length (rws a) then sum_list (rws a ! i) else 0)"

definition adjacent_to_laplacian :: "matrix \<Rightarrow> matrix" where
  "adjacent_to_laplacian a =
     a\<lparr>rws := map (\<lambda>i. map (\<lambda>j. rws a ! i ! j / (sqrt (degree a i) * sqrt (degree a j)))
                          [0..<length (rws a ! i)]) [0..<length (rws a)]\<rparr>"

text \<open>Selection of rows, or of columns, by an index array.\<close>

definition take_rows :: "matrix \<Rightarrow> nat list \<Rightarrow> error + matrix" where
  "take_rows m idx =
     (if list_all (\<lambda>i. i < length (rws m)) idx
      then Inr (m\<lparr>rws := map (\<lambda>i. rws m ! i) idx\<rparr>)
      else Inl IndexError)"

definition take_cols :: "matrix \<Rightarrow> nat list \<Rightarrow> error + matrix" where
  "take_cols m idx =
     (if list_all (\<lambda>j. j < ncols m) idx
      then Inr \<lparr>ncols = length idx, rws = map (\<lambda>r. map (\<lambda>j. r ! j) idx) (rws m)\<rparr>
      else Inl IndexError)"

definition take_items :: "'a list \<Rightarrow> nat list \<Rightarrow> error + 'a list" where
  "take_items xs idx =
     (if list_all (\<lambda>i. i < length xs) idx then Inr (map (\<lambda>i. xs ! i) idx) else Inl IndexError)"

fun mapE :: "('a \<Rightarrow> error + 'b) \<Rightarrow> 'a list \<Rightarrow> error + 'b list" where
  "mapE f [] = Inr []"
| "mapE f (x # xs) = thenE (f x) (\<lambda>y. thenE (mapE f xs) (\<lambda>ys. Inr (y # ys)))"

text \<open>\<^verbatim>\<open>np.sum(months, axis=0)\<close> over matrices of shape \<open>[k, k]\<close>.\<close>

definition sum_axis0 :: "nat \<Rightarrow> matrix list \<Rightarrow> matrix" where
  "sum_axis0 k months =
     \<lparr>ncols = k,
      rws = fold (\<lambda>m acc. map2 (map2 (+)) acc (rws m)) months (replicate k (replicate k 0))\<rparr>"

section \<open>The loader\<close>

text \<open>
  The attributes of a \<^verbatim>\<open>NodeTrafficLoader\<close>. An attribute that the constructor
  leaves as \<^verbatim>\<open>None\<close>, or assigns only under \<^verbatim>\<open>with_lm\<close>, is an option. The
  attributes of the points-of-interest block, which reads a pickle file, are left out.
\<close>

record loader =
  dataset :: DataSet
  daily_slots :: real
  closeness_len :: int
  period_len :: int
  trend_len :: int
  external_lstm_len :: int
  traffic_data_index :: "nat list"
  traffic_data :: matrix
  external_dim :: nat
  station_number :: nat
  train_test_ratio :: "real list"
  normalizer :: "minmax option"
  train_data :: matrix
  test_data :: matrix
  train_ef :: ext_array
  test_ef :: ext_array
  train_closeness :: tensor4
  train_period :: tensor4
  train_trend :: tensor4
  train_y :: tensor3
  test_closeness :: tensor4
  test_period :: tensor4
  test_trend :: tensor4
  test_y :: tensor3
  train_sequence_len :: nat
  test_sequence_len :: nat
  train_ef_closeness :: "tensor4 option"
  train_ef_period :: "tensor4 option"
  train_ef_trend :: "tensor4 option"
  train_lstm_ef :: "tensor4 option"
  test_ef_closeness :: "tensor4 option"
  test_ef_period :: "tensor4 option"
  test_ef_trend :: "tensor4 option"
  test_lstm_ef :: "tensor4 option"
  tpe_dim :: "nat option"
  threshold_distance :: "real option"
  threshold_correlation :: "real option"
  threshold_interaction :: "real option"
  AM :: "matrix list option"
  LM :: "matrix list option"

text \<open>Reading an attribute that was never assigned raises AttributeError.\<close>

definition attr :: "'a option \<Rightarrow> error + 'a" where
  "attr v = (case v of None \<Rightarrow> Inl (AttributeError ''no such attribute'') | Some x \<Rightarrow> Inr x)"

text \<open>\<^verbatim>\<open>build_graph\<close>, lines 377 to 415: the adjacency matrix and the Laplacian.\<close>

fun build_graph :: "loader \<Rightarrow> graph_name \<Rightarrow> error + (matrix option \<times> matrix option)" where
  "build_graph l Distance =
     thenE (take_items (node_station_info (dataset l)) (traffic_data_index l)) (\<lambda>coords.
     thenE (attr (threshold_distance l)) (\<lambda>threshold.
       let a = distance_adjacent coords threshold
       in Inr (Some a, Some (adjacent_to_laplacian a))))"
| "build_graph l Interaction =
     thenE (mapE (\<lambda>m. take_rows m (traffic_data_index l))
              (node_monthly_interaction (dataset l))) (\<lambda>by_rows.
     thenE (mapE (\<lambda>m. take_cols m (traffic_data_index l)) by_rows) (\<lambda>months.
     thenE (split_data months (train_test_ratio l)) (\<lambda>ps.
     thenE (unpack2 ps) (\<lambda>(monthly_interaction, _).
       let annually =
             sum_axis0 (length (traffic_data_index l)) (py_slice (Some (- 12)) None monthly_interaction)
       in thenE (add_m annually (transpose_m annually)) (\<lambda>annually_interaction.
          thenE (attr (threshold_interaction l)) (\<lambda>threshold.
          thenE (interaction_adjacent annually_interaction threshold) (\<lambda>a.
            Inr (Some a, Some (adjacent_to_laplacian a)))))))))"
| "build_graph l Correlation =
     thenE (attr (threshold_correlation l)) (\<lambda>threshold.
       let a = correlation_adjacent
                 (slice_m (Some (- 30 * py_int (daily_slots l))) None (train_data l)) threshold
       in Inr (Some a, Some (adjacent_to_laplacian a)))"
| "build_graph l Neighbor =
     Inr (None, Some (adjacent_to_laplacian (graph_neighbors (dataset l))))"
| "build_graph l Line =
     thenE (take_cols (adjacent_to_laplacian (graph_lines (dataset l))) (traffic_data_index l))
       (\<lambda>by_cols.
     thenE (take_rows by_cols (traffic_data_index l)) (\<lambda>lm. Inr (None, Some lm)))"
| "build_graph l Transfer =
     Inr (None, Some (adjacent_to_laplacian (graph_transfer (dataset l))))"
| "build_graph l Unrecognised = Inr (None, None)"

text \<open>The loop of lines 368 to 373 and the conversion of line 375.\<close>

definition append_some :: "'a option \<Rightarrow> 'a list \<Rightarrow> 'a list" where
  "append_some v xs = (case v of None \<Rightarrow> xs | Some x \<Rightarrow> xs @ [x])"

fun graph_loop ::
  "loader \<Rightarrow> graph_name list \<Rightarrow> matrix list \<times> matrix list \<Rightarrow> error + (matrix list \<times> matrix list)" where
  "graph_loop l [] acc = Inr acc"
| "graph_loop l (g # gs) acc =
     thenE (build_graph l g) (\<lambda>(a, lm).
       graph_loop l gs (append_some a (fst acc), append_some lm (snd acc)))"

text \<open>
  \<^verbatim>\<open>np.array(self.LM, dtype=np.float32)\<close> needs matrices of one shape; with different
  shapes numpy raises ValueError.
\<close>

definition np_array :: "matrix list \<Rightarrow> error + matrix list" where
  "np_array ms =
     (if list_all (\<lambda>m. shape_m m = shape_m (hd ms)) ms then Inr ms
      else Inl (ValueError ''setting an array element with a sequence''))"

definition lm_step :: "config \<Rightarrow> loader \<Rightarrow> error + loader" where
  "lm_step cfg l =
     (if arg_with_lm cfg
      then (let l' = l\<lparr>AM := Some [], LM := Some [],
                        threshold_distance := Some (arg_threshold_distance cfg),
                        threshold_correlation := Some (arg_threshold_correlation cfg),
                        threshold_interaction := Some (arg_threshold_interaction cfg)\<rparr>
            in thenE (graph_loop l' (arg_graph cfg) ([], [])) (\<lambda>(ams, lms).
               thenE (np_array lms) (\<lambda>stacked.
                 Inr (l'\<lparr>AM := Some ams, LM := Some stacked\<rparr>))))
      else Inr l)"

text \<open>Lines 321 to 359.\<close>

definition tpe_step :: "config \<Rightarrow> loader \<Rightarrow> error + loader" where
  "tpe_step cfg l =
     (if arg_with_tpe cfg
      then
        (let closeness_tpe = [1 .. closeness_len l];
             nodes = length (traffic_data_index l)
         in thenE (py_range (py_int (daily_slots l))
                     (period_len l * py_int (daily_slots l) + 1) (py_int (daily_slots l)))
              (\<lambda>period_tpe.
            thenE (py_range (py_int (daily_slots l) * 7)
                     (trend_len l * py_int (daily_slots l) * 7 + 1) (py_int (daily_slots l) * 7))
              (\<lambda>trend_tpe.
            thenE (attach_tpe (closeness_len l) closeness_tpe nodes (train_closeness l)) (\<lambda>train_c.
            thenE (attach_tpe (period_len l) period_tpe nodes (train_period l)) (\<lambda>train_p.
            thenE (attach_tpe (trend_len l) trend_tpe nodes (train_trend l)) (\<lambda>train_t.
            thenE (attach_tpe (closeness_len l) closeness_tpe nodes (test_closeness l)) (\<lambda>test_c.
            thenE (attach_tpe (period_len l) period_tpe nodes (test_period l)) (\<lambda>test_p.
            thenE (attach_tpe (trend_len l) trend_tpe nodes (test_trend l)) (\<lambda>test_t.
              Inr (l\<lparr>tpe_dim := Some 1,
                     train_closeness := train_c, train_period := train_p, train_trend := train_t,
                     test_closeness := test_c, test_period := test_p,
                     test_trend := test_t\<rparr>))))))))))
      else Inr (l\<lparr>tpe_dim := None\<rparr>))"

text \<open>
  \<^verbatim>\<open>NodeTrafficLoader.__init__\<close> up to line 311. \<open>blocks\<close> is the list of external
  feature blocks (see \<open>assemble_external\<close>). Every \<^verbatim>\<open>raise\<close>, failed \<^verbatim>\<open>assert\<close>
  and exception of a callee ends the construction with \<open>Inl\<close>, in the order of the
  source.
\<close>

definition int_of_arg :: "int option \<Rightarrow> error + int" where
  "int_of_arg v =
     (case v of
        None \<Rightarrow> Inl (TypeError ''int() argument must be a string or a number'')
      | Some i \<Rightarrow> Inr i)"

definition init_core :: "config \<Rightarrow> DataSet \<Rightarrow> matrix list \<Rightarrow> error + loader" where
  "init_core cfg ds blocks =
     thenE (daily_slots_of ds) (\<lambda>slots.
     thenE (int_of_arg (arg_external_lstm_len cfg)) (\<lambda>lstm_len.
     if \<not> 0 \<le> arg_closeness_len cfg then Inl AssertionError
     else if \<not> 0 \<le> arg_period_len cfg then Inl AssertionError
     else if \<not> 0 \<le> arg_trend_len cfg then Inl AssertionError
     else
       let c = arg_closeness_len cfg; p = arg_period_len cfg; t = arg_trend_len cfg;
           rng = resolve_data_range (arg_data_range cfg) slots (len_m (node_traffic ds));
           idx = traffic_index (node_traffic ds) slots
       in
       thenE (select_rows_cols (node_traffic ds) (fst rng) (snd rng) idx) (\<lambda>traffic.
       thenE (assemble_external blocks) (\<lambda>(external_feature, ext_dim).
       if arg_test_ratio cfg > 1 \<or> arg_test_ratio cfg < 0 then Inl (ValueError ''test_ratio '')
       else
         let ratio = [1 - arg_test_ratio cfg, arg_test_ratio cfg] in
         thenE (split_m traffic ratio) (\<lambda>(train0, test0).
         thenE (split_e external_feature ratio) (\<lambda>(train_ef0, test_ef0).
           let nrm = normalize_step (arg_normalize cfg) train0 test0;
               cut = truncate_train (arg_train_data_length cfg) slots (norm_train nrm) train_ef0
           in
           thenE (expand_test (expand_count slots c p t) (fst cut) (norm_test nrm) (snd cut) test_ef0)
             (\<lambda>(test1, test_ef1).
           thenE (move_sample (ST_MoveSample c p t 1 slots) (fst cut))
             (\<lambda>(train_c, train_p, train_t, train_target).
           thenE (move_sample (ST_MoveSample c p t 1 slots) test1)
             (\<lambda>(test_c, test_p, test_t, test_target).
             let train_seq = max (length train_c) (max (length train_p) (length train_t));
                 test_seq = max (length test_c) (max (length test_p) (length test_t))
             in
             thenE (external_step external_feature c p t lstm_len (arg_target_length cfg) slots
                      train_seq test_seq (snd cut) test_ef1) (\<lambda>x.
               Inr \<lparr>dataset = ds, daily_slots = slots,
                    closeness_len = c, period_len = p, trend_len = t,
                    external_lstm_len = lstm_len,
                    traffic_data_index = idx, traffic_data = traffic,
                    external_dim = ext_dim, station_number = ncols traffic,
                    train_test_ratio = ratio, normalizer = fitted nrm,
                    train_data = fst cut, test_data = test1,
                    train_ef = r_train_ef x, test_ef = r_test_ef x,
                    train_closeness = train_c, train_period = train_p, train_trend = train_t,
                    train_y = train_target,
                    test_closeness = test_c, test_period = test_p, test_trend = test_t,
                    test_y = test_target,
                    train_sequence_len = train_seq, test_sequence_len = test_seq,
                    train_ef_closeness = r_train_ef_closeness x,
                    train_ef_period = r_train_ef_period x,
                    train_ef_trend = r_train_ef_trend x,
                    train_lstm_ef = r_train_lstm_ef x,
                    test_ef_closeness = r_test_ef_closeness x,
                    test_ef_period = r_test_ef_period x,
                    test_ef_trend = r_test_ef_trend x,
                    test_lstm_ef = r_test_lstm_ef x,
                    tpe_dim = None,
                    threshold_distance = None, threshold_correlation = None,
                    threshold_interaction = None, AM = None, LM = None\<rparr>))))))))))"

text \<open>The whole constructor.\<close>

definition init :: "config \<Rightarrow> DataSet \<Rightarrow> matrix list \<Rightarrow> error + loader" where
  "init cfg ds blocks =
     thenE (init_core cfg ds blocks) (\<lambda>l. thenE (tpe_step cfg l) (lm_step cfg))"

section \<open>Concatenating the windows\<close>

text \<open>
  \<^verbatim>\<open>make_concat\<close>, lines 475 to 517. \<^verbatim>\<open>node\<close> is \<^verbatim>\<open>'all'\<close> or an integer.
  \<^verbatim>\<open>xs[i]\<close> accepts \<open>- len \<le> i < len\<close> and raises IndexError otherwise;
  \<^verbatim>\<open>a[:, node, k, -1]\<close> is the series over the rows of a four-dimensional array (an
  array without rows has lost its other dimensions in this representation, and the
  series is empty). Assigning a series to \<^verbatim>\<open>history[:, i, pos]\<close> needs as many
  entries as \<^verbatim>\<open>history\<close> has rows, or a single one, which is broadcast.
\<close>

datatype node_arg = All_nodes | Node int

definition item :: "'a list \<Rightarrow> int \<Rightarrow> error + 'a" where
  "item xs i =
     (let n = int (length xs)
      in if - n \<le> i \<and> i < n then Inr (xs ! nat (if i < 0 then n + i else i))
         else Inl IndexError)"

definition series :: "tensor4 \<Rightarrow> int \<Rightarrow> int \<Rightarrow> error + real list" where
  "series a node k =
     mapE (\<lambda>row. thenE (item row node) (\<lambda>w. thenE (item w k) (\<lambda>channels. item channels (- 1)))) a"

definition broadcast :: "nat \<Rightarrow> real list \<Rightarrow> error + real list" where
  "broadcast n v =
     (if length v = n then Inr v
      else if length v = 1 then Inr (replicate n (hd v))
      else Inl (ValueError ''could not broadcast input array''))"

text \<open>
  The history of one selected node is kept as the list of its columns
  \<^verbatim>\<open>history[:, i, pos]\<close>, each a series over the rows.
\<close>

definition set_column :: "nat \<Rightarrow> real list list \<Rightarrow> int \<Rightarrow> real list \<Rightarrow> error + real list list" where
  "set_column n h pos v =
     (let w = int (length h)
      in if - w \<le> pos \<and> pos < w
         then thenE (broadcast n v) (\<lambda>b. Inr (h[nat (if pos < 0 then w + pos else pos) := b]))
         else Inl IndexError)"

fun assign_loop ::
  "nat \<Rightarrow> (nat \<Rightarrow> error + real list) \<Rightarrow> int \<Rightarrow> nat list \<Rightarrow> real list list \<Rightarrow> error + real list list" where
  "assign_loop n src off [] h = Inr h"
| "assign_loop n src off (k # ks) h =
     thenE (src k) (\<lambda>v. thenE (set_column n h (off + int k) v) (assign_loop n src off ks))"

definition node_history ::
  "nat \<Rightarrow> int \<Rightarrow> int \<Rightarrow> int \<Rightarrow> tensor4 \<Rightarrow> tensor4 \<Rightarrow> tensor4 \<Rightarrow> int \<Rightarrow> error + real list list" where
  "node_history n c p t closeness period trend node =
     thenE (assign_loop n (\<lambda>k. series closeness node (int k)) 0 [0..<nat c]
              (replicate (nat (c + p + t)) (replicate n 0))) (\<lambda>h1.
     thenE (assign_loop n (\<lambda>k. series period node (int k)) c [0..<nat p] h1) (\<lambda>h2.
       assign_loop n (\<lambda>k. series trend node (int k)) (c + p) [0..<nat t] h2))"

definition make_concat :: "loader \<Rightarrow> node_arg \<Rightarrow> bool \<Rightarrow> error + tensor4" where
  "make_concat l node is_train =
     (let n = (if is_train then length (train_y l) else length (test_y l));
          closeness = (if is_train then train_closeness l else test_closeness l);
          period = (if is_train then train_period l else test_period l);
          trend = (if is_train then train_trend l else test_trend l);
          nodes = (case node of All_nodes \<Rightarrow> map int [0..<station_number l] | Node k \<Rightarrow> [k])
      in if closeness_len l + period_len l + trend_len l < 0
         then Inl (ValueError ''negative dimensions are not allowed'')
         else thenE (mapE (node_history n (closeness_len l) (period_len l) (trend_len l)
                             closeness period trend) nodes) (\<lambda>history.
                Inr (map (\<lambda>r. map (\<lambda>h. map (\<lambda>col. [col ! r]) h) history) [0..<n])))"

section \<open>Example inputs\<close>

text \<open>Small arrays on which the theorems below are instantiated.\<close>

definition ex_train :: matrix where
  "ex_train = \<lparr>ncols = 1, rws = [[1], [2], [3], [4]]\<rparr>"

definition ex_test :: matrix where
  "ex_test = \<lparr>ncols = 1, rws = [[5], [6]]\<rparr>"

definition ex_ds :: DataSet where
  "ex_ds = \<lparr>node_traffic = \<lparr>ncols = 2, rws = [[1,0],[2,0],[3,0],[4,0],[5,0],[6,0],[7,0],[8,0],[9,0],[10,0]]\<rparr>,
     time_fitness = 720, node_station_info = [(0,0),(1,1)], node_monthly_interaction = [],
     graph_neighbors = \<lparr>ncols = 2, rws = [[0,1],[1,0]]\<rparr>,
     graph_lines = \<lparr>ncols = 2, rws = [[0,1],[1,0]]\<rparr>,
     graph_transfer = \<lparr>ncols = 2, rws = [[0,1],[1,0]]\<rparr>\<rparr>"

definition ex_cfg :: config where
  "ex_cfg = \<lparr>arg_data_range = Range_all, arg_train_data_length = Length_all, arg_test_ratio = 1/5,
     arg_closeness_len = 2, arg_period_len = 1, arg_trend_len = 0, arg_external_lstm_len = Some 1,
     arg_target_length = 1, arg_graph = [Line], arg_threshold_distance = 1000,
     arg_threshold_correlation = 0, arg_threshold_interaction = 500, arg_normalize = True,
     arg_with_lm = False, arg_with_tpe = False\<rparr>"

definition ex_blocks :: "matrix list" where
  "ex_blocks = [\<lparr>ncols = 1, rws = [[1],[2],[3],[4],[5],[6],[7],[8],[9],[10]]\<rparr>]"

definition ex_ds_late :: DataSet where
  "ex_ds_late = ex_ds\<lparr>node_traffic :=
      \<lparr>ncols = 2, rws = [[1,0],[2,0],[3,0],[4,0],[5,0],[6,0],[7,0],[8,0],[9,0],[10,100]]\<rparr>\<rparr>"

definition ex_cfg_half :: config where
  "ex_cfg_half = ex_cfg\<lparr>arg_data_range := Range_ratio (1/2), arg_test_ratio := 2/5\<rparr>"

definition ex_cfg_no_lstm :: config where
  "ex_cfg_no_lstm = ex_cfg\<lparr>arg_external_lstm_len := Some 0\<rparr>"

definition ex_cfg_bad_ratio :: config where
  "ex_cfg_bad_ratio = ex_cfg\<lparr>arg_test_ratio := 2\<rparr>"

text \<open>
  The rows of the raw \<^verbatim>\<open>node_traffic\<close> that the range selection of line 131 keeps, and
  the number of them that the split of line 223 gives to the train partition.
\<close>

definition selected_slots :: "config \<Rightarrow> DataSet \<Rightarrow> real list list" where
  "selected_slots cfg ds =
     py_slice
       (Some (fst (resolve_data_range (arg_data_range cfg) (slots_per_day ds)
                     (len_m (node_traffic ds)))))
       (Some (snd (resolve_data_range (arg_data_range cfg) (slots_per_day ds)
                     (len_m (node_traffic ds)))))
       (rws (node_traffic ds))"

definition train_count :: "config \<Rightarrow> DataSet \<Rightarrow> nat" where
  "train_count cfg ds =
     nat (py_round (real (length (selected_slots cfg ds)) * (1 - arg_test_ratio cfg)))"

definition ex_ds_other_test :: DataSet where
  "ex_ds_other_test = ex_ds\<lparr>node_traffic :=
      \<lparr>ncols = 2, rws = [[1,0],[2,0],[3,0],[4,0],[5,0],[6,0],[7,0],[8,0],[9,0],[11,0]]\<rparr>\<rparr>"

text \<open>
  A window array of shape \<open>[n, s, k, channels]\<close> with at least one channel, as nested
  lists.
\<close>

definition has_shape :: "tensor4 \<Rightarrow> nat \<Rightarrow> nat \<Rightarrow> nat \<Rightarrow> bool" where
  "has_shape a n s k =
     (length a = n \<and>
      list_all (\<lambda>row. length row = s \<and>
         list_all (\<lambda>w. length w = k \<and> list_all (\<lambda>channels. channels \<noteq> []) w) row) a)"

text \<open>The position that Python's index \<open>i\<close> denotes in a sequence of length \<open>n\<close>.\<close>

definition position :: "nat \<Rightarrow> int \<Rightarrow> nat" where
  "position n i = nat (if i < 0 then int n + i else i)"

text \<open>
  The entry that the documentation of \<^verbatim>\<open>make_concat\<close> places at position \<open>j\<close> of the
  history of a node: the closeness entries first, then the period entries, then the
  trend entries, each the last channel of the window array at the same row and node.
\<close>

definition concat_entry ::
  "tensor4 \<Rightarrow> tensor4 \<Rightarrow> tensor4 \<Rightarrow> nat \<Rightarrow> nat \<Rightarrow> nat \<Rightarrow> nat \<Rightarrow> nat \<Rightarrow> real" where
  "concat_entry closeness period trend c p r node j =
     (if j < c then last (closeness ! r ! node ! j)
      else if j < c + p then last (period ! r ! node ! (j - c))
      else last (trend ! r ! node ! (j - c - p)))"

text \<open>
  A dataset with a count that is a float64 number and not a float32 number, and one
  whose first column has a mean of \<open>17.875 / 18\<close> with 1430 minutes in a slot: the
  exact product of the mean and \<open>24 * 60 / 1430\<close> is 1.
\<close>

definition ex_ds_large :: DataSet where
  "ex_ds_large = ex_ds\<lparr>node_traffic :=
      \<lparr>ncols = 2, rws = [[16777217,0],[3,0],[0,0],[0,0],[0,0],[0,0],[0,0],[0,0],[0,0],[0,0]]\<rparr>\<rparr>"

definition ex_ds_boundary :: DataSet where
  "ex_ds_boundary = ex_ds\<lparr>node_traffic :=
      \<lparr>ncols = 1, rws = [[143 / 8],[0],[0],[0],[0],[0],[0],[0],[0],[0],[0],[0],[0],[0],[0],[0],[0],[0]]\<rparr>,
      time_fitness := 1430\<rparr>"

definition ex_blocks18 :: "matrix list" where
  "ex_blocks18 = [\<lparr>ncols = 1, rws = [[1],[2],[3],[4],[5],[6],[7],[8],[9],[10],[11],[12],[13],[14],
                                        [15],[16],[17],[18]]\<rparr>]"

text \<open>
  Slots of 960 minutes, which make 1.5 slots a day, and a period history of three days.
\<close>

definition ex_ds_960 :: DataSet where
  "ex_ds_960 = ex_ds\<lparr>time_fitness := 960\<rparr>"

definition ex_cfg_period3 :: config where
  "ex_cfg_period3 = ex_cfg\<lparr>arg_period_len := 3\<rparr>"


definition ex_cfg_zero_days :: config where
  "ex_cfg_zero_days = ex_cfg\<lparr>arg_train_data_length := Length_days 0\<rparr>"

section \<open>Basic facts\<close>

lemma thenE_Inr_iff: "thenE m f = Inr y \<longleftrightarrow> (\<exists>x. m = Inr x \<and> f x = Inr y)"
  by (cases m) auto

lemma thenE_Inl_iff: "thenE m f = Inl e \<longleftrightarrow> m = Inl e \<or> (\<exists>x. m = Inr x \<and> f x = Inl e)"
  by (cases m) auto

lemma py_slice_from: "py_slice (Some i) None xs = drop (slice_bound (length xs) i) xs"
  by (simp add: py_slice_def)

lemma slice_bound_tail:
  "0 \<le> k \<Longrightarrow> k \<le> int n \<Longrightarrow> slice_bound n (int n - k) = n - nat k"
  by (auto simp: slice_bound_def)

lemma slice_bound_neg: "1 \<le> k \<Longrightarrow> slice_bound n (- k) = n - nat k"
  by (auto simp: slice_bound_def)

lemma slice_bound_beyond: "int n \<le> i \<Longrightarrow> slice_bound n i = n"
  by (auto simp: slice_bound_def)

lemma py_slice_last_rows:
  "k \<le> int (length xs) \<Longrightarrow> py_slice (Some (int (length xs) - k)) None xs = last_rows (nat k) xs"
  by (cases "0 \<le> k") (auto simp: py_slice_from slice_bound_tail slice_bound_beyond last_rows_def)

lemma py_slice_neg_last_rows:
  "1 \<le> k \<Longrightarrow> py_slice (Some (- k)) None xs = last_rows (nat k) xs"
  by (simp add: py_slice_from slice_bound_neg last_rows_def)

section \<open>Facts about rounding\<close>

lemma py_round_of_int: "py_round (of_int z) = z"
  by (simp add: py_round_def)

lemma binade_eq:
  assumes "2 powr of_int e \<le> \<bar>x\<bar>" "\<bar>x\<bar> < 2 powr of_int (e + 1)"
  shows "binade x = e"
proof -
  have pos: "0 < \<bar>x\<bar>"
    using assms(1) by (smt (verit) powr_gt_zero)
  have "of_int e \<le> log 2 \<bar>x\<bar>"
    using assms(1) pos by (simp add: le_log_iff)
  moreover have "log 2 \<bar>x\<bar> < of_int (e + 1)"
    using assms(2) pos by (simp add: log_less_iff)
  ultimately show ?thesis
    unfolding binade_def by (simp add: floor_eq_iff)
qed

lemma round_to_dyadic:
  assumes "\<bar>m\<bar> < 2 ^ p"
  shows "round_to p (of_int m / 2 ^ j) = of_int m / 2 ^ j"
proof (cases "m = 0")
  case True
  then show ?thesis by (simp add: round_to_def)
next
  case False
  define x :: real where "x = of_int m / 2 ^ j"
  have x0: "x \<noteq> 0" using False by (simp add: x_def)
  have ax: "\<bar>x\<bar> = of_int \<bar>m\<bar> / 2 ^ j"
    by (simp add: x_def abs_divide)
  have m1: "1 \<le> \<bar>m\<bar>" using False by simp
  have "real_of_int \<bar>m\<bar> < 2 ^ p"
    using assms by (metis of_int_less_iff of_int_numeral of_int_power)
  then have "\<bar>x\<bar> < 2 ^ p / 2 ^ j"
    unfolding ax by (simp add: divide_strict_right_mono)
  also have "\<dots> = 2 powr (of_int (int p - int j))"
    by (simp add: powr_diff powr_realpow)
  finally have up: "\<bar>x\<bar> < 2 powr (of_int (int p - int j))" .
  have pos: "0 < \<bar>x\<bar>" using x0 by simp
  have "log 2 \<bar>x\<bar> < of_int (int p - int j)"
    using up pos by (simp add: log_less_iff)
  then have "binade x < int p - int j"
    unfolding binade_def by (simp add: floor_less_iff)
  then have k: "binade x - int p + 1 \<le> - int j" by simp
  define e where "e = binade x - int p + 1"
  define d where "d = nat (- int j - e)"
  have d: "e = - int j - int d"
    using k by (simp add: d_def e_def)
  have u: "(2::real) powr of_int e = 1 / (2 ^ j * 2 ^ d)"
    unfolding d by (simp add: powr_diff powr_minus powr_realpow field_simps)
  have q: "x / 2 powr of_int e = of_int (m * 2 ^ d)"
    unfolding u x_def by simp
  have "round_to p x = of_int (py_round (x / 2 powr of_int e)) * 2 powr of_int e"
    unfolding round_to_def e_def using x0 by simp
  also have "\<dots> = of_int (py_round (of_int (m * 2 ^ d))) * 2 powr of_int e"
    by (subst q) (rule refl)
  also have "\<dots> = of_int (m * 2 ^ d) * (1 / (2 ^ j * 2 ^ d))"
    by (simp only: py_round_of_int u)
  also have "\<dots> = x"
    by (simp add: x_def)
  finally show ?thesis by (simp add: x_def)
qed

lemma round_to_int:
  assumes "\<bar>m\<bar> < 2 ^ p"
  shows "round_to p (of_int m) = of_int m"
  using round_to_dyadic [OF assms, of 0] by simp

lemma float64_int: "\<bar>m\<bar> < 2 ^ 53 \<Longrightarrow> float64 (of_int m) = of_int m"
  unfolding float64_def by (rule round_to_int)

lemma float32_int: "\<bar>m\<bar> < 2 ^ 24 \<Longrightarrow> float32 (of_int m) = of_int m"
  unfolding float32_def by (rule round_to_int)

lemma float64_dyadic: "\<bar>m\<bar> < 2 ^ 53 \<Longrightarrow> float64 (of_int m / 2 ^ j) = of_int m / 2 ^ j"
  unfolding float64_def by (rule round_to_dyadic)

lemma float64_numeral: "numeral k < (2::int) ^ 53 \<Longrightarrow> float64 (numeral k) = numeral k"
  using float64_int [of "numeral k"] by simp

lemma float32_numeral: "numeral k < (2::int) ^ 24 \<Longrightarrow> float32 (numeral k) = numeral k"
  using float32_int [of "numeral k"] by simp

lemma float64_0: "float64 0 = 0" by (simp add: float64_def round_to_def)
lemma float32_0: "float32 0 = 0" by (simp add: float32_def round_to_def)
lemma float64_1: "float64 1 = 1" using float64_int [of 1] by simp
lemma float32_1: "float32 1 = 1" using float32_int [of 1] by simp

lemma round_to_eval:
  assumes "2 powr of_int e \<le> \<bar>x\<bar>" "\<bar>x\<bar> < 2 powr of_int (e + 1)"
  shows "round_to p x = of_int (py_round (x / 2 powr of_int (e - int p + 1)))
                          * 2 powr of_int (e - int p + 1)"
proof -
  have "binade x = e" using assms by (rule binade_eq)
  moreover have "x \<noteq> 0" using assms(1) by (smt (verit) powr_gt_zero)
  ultimately show ?thesis by (simp add: round_to_def)
qed

lemma float64_dyadic_numeral:
  "numeral k < (2::int) ^ 53 \<Longrightarrow> float64 (numeral k / 2 ^ j) = numeral k / 2 ^ j"
  using float64_dyadic [of "numeral k" j] by simp

section \<open>Facts about the constructor\<close>

lemma zipE_length: "zipE f xs ys = Inr zs \<Longrightarrow> length zs = length xs"
  by (induction f xs ys arbitrary: zs rule: zipE.induct) (auto simp: thenE_Inr_iff)

lemma attach_tpe_length: "attach_tpe len tpe nodes a = Inr b \<Longrightarrow> length b = length a"
  by (auto simp: attach_tpe_def concatenate_last4_def dest: zipE_length split: if_splits)

lemma tpe_step_keeps:
  assumes "tpe_step cfg l = Inr l'"
  shows "dataset l' = dataset l \<and> daily_slots l' = daily_slots l
       \<and> closeness_len l' = closeness_len l \<and> period_len l' = period_len l
       \<and> trend_len l' = trend_len l \<and> external_lstm_len l' = external_lstm_len l
       \<and> traffic_data_index l' = traffic_data_index l \<and> traffic_data l' = traffic_data l
       \<and> station_number l' = station_number l \<and> train_test_ratio l' = train_test_ratio l
       \<and> normalizer l' = normalizer l
       \<and> train_data l' = train_data l \<and> test_data l' = test_data l
       \<and> train_ef l' = train_ef l \<and> test_ef l' = test_ef l
       \<and> train_y l' = train_y l \<and> test_y l' = test_y l
       \<and> train_sequence_len l' = train_sequence_len l
       \<and> test_sequence_len l' = test_sequence_len l
       \<and> length (train_closeness l') = length (train_closeness l)
       \<and> length (train_period l') = length (train_period l)
       \<and> length (train_trend l') = length (train_trend l)
       \<and> length (test_closeness l') = length (test_closeness l)
       \<and> length (test_period l') = length (test_period l)
       \<and> length (test_trend l') = length (test_trend l)
       \<and> AM l' = AM l \<and> LM l' = LM l"
  using assms
  by (auto simp: tpe_step_def thenE_Inr_iff Let_def attach_tpe_length split: if_splits)

lemma lm_step_keeps:
  assumes "lm_step cfg l = Inr l'"
  shows "dataset l' = dataset l \<and> daily_slots l' = daily_slots l
       \<and> closeness_len l' = closeness_len l \<and> period_len l' = period_len l
       \<and> trend_len l' = trend_len l \<and> external_lstm_len l' = external_lstm_len l
       \<and> traffic_data_index l' = traffic_data_index l \<and> traffic_data l' = traffic_data l
       \<and> station_number l' = station_number l \<and> train_test_ratio l' = train_test_ratio l
       \<and> normalizer l' = normalizer l
       \<and> train_data l' = train_data l \<and> test_data l' = test_data l
       \<and> train_ef l' = train_ef l \<and> test_ef l' = test_ef l
       \<and> train_y l' = train_y l \<and> test_y l' = test_y l
       \<and> train_sequence_len l' = train_sequence_len l
       \<and> test_sequence_len l' = test_sequence_len l
       \<and> train_closeness l' = train_closeness l
       \<and> train_period l' = train_period l
       \<and> train_trend l' = train_trend l
       \<and> test_closeness l' = test_closeness l
       \<and> test_period l' = test_period l
       \<and> test_trend l' = test_trend l"
  using assms
  by (auto simp: lm_step_def thenE_Inr_iff Let_def split: if_splits prod.splits)

lemma init_Inr_steps:
  assumes "init cfg ds blocks = Inr l"
  obtains l0 l1 where "init_core cfg ds blocks = Inr l0" "tpe_step cfg l0 = Inr l1"
    "lm_step cfg l1 = Inr l"
  using assms by (auto simp: init_def thenE_Inr_iff)

lemma init_core_index:
  assumes "init_core cfg ds blocks = Inr l"
  shows "daily_slots_of ds = Inr (daily_slots l)
          \<and> dataset l = ds
          \<and> traffic_data_index l = traffic_index (node_traffic ds) (daily_slots l)
          \<and> select_rows_cols (node_traffic ds)
                (fst (resolve_data_range (arg_data_range cfg) (daily_slots l) (len_m (node_traffic ds))))
                (snd (resolve_data_range (arg_data_range cfg) (daily_slots l) (len_m (node_traffic ds))))
                (traffic_data_index l) = Inr (traffic_data l)
          \<and> station_number l = ncols (traffic_data l)"
  using assms
  by (auto simp: init_core_def thenE_Inr_iff Let_def split: if_splits prod.splits)

lemma init_index:
  assumes "init cfg ds blocks = Inr l"
  shows "daily_slots_of ds = Inr (daily_slots l)
          \<and> dataset l = ds
          \<and> traffic_data_index l = traffic_index (node_traffic ds) (daily_slots l)
          \<and> select_rows_cols (node_traffic ds)
                (fst (resolve_data_range (arg_data_range cfg) (daily_slots l) (len_m (node_traffic ds))))
                (snd (resolve_data_range (arg_data_range cfg) (daily_slots l) (len_m (node_traffic ds))))
                (traffic_data_index l) = Inr (traffic_data l)
          \<and> station_number l = ncols (traffic_data l)"
proof -
  from assms obtain l0 l1 where c: "init_core cfg ds blocks = Inr l0"
    and t: "tpe_step cfg l0 = Inr l1" and m: "lm_step cfg l1 = Inr l"
    by (rule init_Inr_steps)
  from init_core_index [OF c] tpe_step_keeps [OF t] lm_step_keeps [OF m]
  show ?thesis by auto
qed

lemma select_rows_cols_index:
  "select_rows_cols m lo hi (traffic_index m s) =
     Inr \<lparr>ncols = length (traffic_index m s),
          rws = map (\<lambda>r. map (\<lambda>j. float32 (r ! j)) (traffic_index m s)) (py_slice (Some lo) (Some hi) (rws m))\<rparr>"
  by (simp add: select_rows_cols_def traffic_index_def list_all_iff)

lemma split_data_two:
  assumes "0 \<le> r" "r \<le> 1" "2 \<le> length xs"
  shows "split_data xs [1 - r, r] =
           Inr [take (nat (py_round (real (length xs) * (1 - r)))) xs,
                drop (nat (py_round (real (length xs) * (1 - r)))) xs]"
  using assms by (simp add: split_data_def Let_def)

lemma split_m_two:
  assumes "0 \<le> r" "r \<le> 1" "2 \<le> length (rws m)"
  shows "split_m m [1 - r, r] =
           Inr (\<lparr>ncols = ncols m, rws = take (nat (py_round (real (length (rws m)) * (1 - r)))) (rws m)\<rparr>,
                \<lparr>ncols = ncols m, rws = drop (nat (py_round (real (length (rws m)) * (1 - r)))) (rws m)\<rparr>)"
  using assms by (simp add: split_m_def split_data_two unpack2_def)

lemma split_m_Inr:
  assumes "split_m m [1 - r, r] = Inr (a, b)"
  shows "a = \<lparr>ncols = ncols m, rws = take (nat (py_round (real (length (rws m)) * (1 - r)))) (rws m)\<rparr>
       \<and> b = \<lparr>ncols = ncols m, rws = drop (nat (py_round (real (length (rws m)) * (1 - r)))) (rws m)\<rparr>"
  using assms
  by (auto simp: split_m_def split_data_def unpack2_def thenE_Inr_iff Let_def split: if_splits)

lemma move_sample_Inr:
  assumes "\<not> (c = 0 \<and> p = 0 \<and> t = 0)"
  shows "\<exists>w. move_sample (ST_MoveSample c p t g slots) m = Inr w"
  using assms by (auto simp: move_sample_def ST_MoveSample_def)

lemma normalize_step_ncols:
  "ncols (norm_train (normalize_step f a b)) = ncols a \<and> ncols (norm_test (normalize_step f a b)) = ncols b"
  by (simp add: normalize_step_def min_max_normal_def Let_def)

lemma truncate_train_shape:
  "ncols (fst (truncate_train len slots a e)) = ncols a
   \<and> (\<forall>m. e = Ext m \<longrightarrow> (\<exists>m'. snd (truncate_train len slots a e) = Ext m' \<and> ncols m' = ncols m))"
  by (cases len) (auto simp: slice_m_def)

lemma expand_test_Inr:
  assumes "ncols a = ncols b" "ncols x = ncols y"
  shows "\<exists>u v. expand_test n a b (Ext x) (Ext y) = Inr (u, Ext v)"
  using assms by (simp add: expand_test_def vstack_m_def vstack_e_def slice_m_def Let_def)

lemma external_step_Inr:
  assumes "\<not> (c = 0 \<and> p = 0 \<and> t = 0)" "0 < k"
  shows "\<exists>x. external_step ext c p t k g slots n1 n2 a b = Inr x"
proof -
  obtain w1 where w1: "move_sample (ST_MoveSample c p t 0 slots) (time_major a) = Inr w1"
    using move_sample_Inr [OF assms(1)] by blast
  obtain w2 where w2: "move_sample (ST_MoveSample c p t 0 slots) (time_major b) = Inr w2"
    using move_sample_Inr [OF assms(1)] by blast
  have k: "\<not> (k = 0 \<and> (0::int) = 0 \<and> (0::int) = 0)" using assms(2) by simp
  obtain w3 where w3: "move_sample (ST_MoveSample k 0 0 0 slots) (time_major a) = Inr w3"
    using move_sample_Inr [OF k] by blast
  obtain w4 where w4: "move_sample (ST_MoveSample k 0 0 0 slots) (time_major b) = Inr w4"
    using move_sample_Inr [OF k] by blast
  show ?thesis
    using assms(2)
    by (simp add: external_step_def lstm_sample_def subscript_slice_def w1 w2 w3 w4
        split: prod.splits)
qed

lemma init_core_completes:
  assumes tf: "time_fitness ds \<noteq> 0"
      and lstm: "arg_external_lstm_len cfg = Some k" "0 < k"
      and lens: "0 \<le> arg_closeness_len cfg" "0 \<le> arg_period_len cfg" "0 \<le> arg_trend_len cfg"
      and some: "\<not> (arg_closeness_len cfg = 0 \<and> arg_period_len cfg = 0 \<and> arg_trend_len cfg = 0)"
      and ext: "assemble_external blocks = Inr (Ext m, d)"
      and ratio: "0 \<le> arg_test_ratio cfg" "arg_test_ratio cfg \<le> 1"
      and rows: "2 \<le> length (py_slice
          (Some (fst (resolve_data_range (arg_data_range cfg) (slots_per_day ds) (len_m (node_traffic ds)))))
          (Some (snd (resolve_data_range (arg_data_range cfg) (slots_per_day ds) (len_m (node_traffic ds)))))
          (rws (node_traffic ds)))"
      and erows: "2 \<le> len_m m"
  shows "\<exists>l. init_core cfg ds blocks = Inr l"
proof -
  define slots where "slots = slots_per_day ds"
  have dsl: "daily_slots_of ds = Inr slots"
    using tf by (simp add: daily_slots_of_def slots_def)
  let ?c = "arg_closeness_len cfg" and ?p = "arg_period_len cfg" and ?t = "arg_trend_len cfg"
  let ?r = "arg_test_ratio cfg"
  let ?rng = "resolve_data_range (arg_data_range cfg) slots (len_m (node_traffic ds))"
  let ?idx = "traffic_index (node_traffic ds) slots"
  define traffic where "traffic = \<lparr>ncols = length ?idx,
          rws = map (\<lambda>r. map (\<lambda>j. float32 (r ! j)) ?idx) (py_slice (Some (fst ?rng)) (Some (snd ?rng)) (rws (node_traffic ds)))\<rparr>"
  have sel: "select_rows_cols (node_traffic ds) (fst ?rng) (snd ?rng) ?idx = Inr traffic"
    by (simp add: select_rows_cols_index traffic_def)
  have "2 \<le> length (rws traffic)" using rows by (simp add: traffic_def slots_def)
  from split_m_two [OF ratio this] obtain train0 test0 where
    sp: "split_m traffic [1 - ?r, ?r] = Inr (train0, test0)" and
    nc: "ncols train0 = ncols test0" by auto
  have "2 \<le> length (rws m)" using erows by (simp add: len_m_def)
  from split_m_two [OF ratio this] obtain e1 e2 where
    spe: "split_m m [1 - ?r, ?r] = Inr (e1, e2)" and
    nce: "ncols e1 = ncols e2" by auto
  let ?nrm = "normalize_step (arg_normalize cfg) train0 test0"
  let ?cut = "truncate_train (arg_train_data_length cfg) slots (norm_train ?nrm) (Ext e1)"
  obtain e1' where cut2: "snd ?cut = Ext e1'" and nce': "ncols e1' = ncols e1"
    using truncate_train_shape by blast
  have n1: "ncols (fst ?cut) = ncols (norm_test ?nrm)"
    using nc by (simp add: truncate_train_shape normalize_step_ncols)
  have n2: "ncols e1' = ncols e2"
    using nce nce' by simp
  have "\<exists>u v. expand_test (expand_count slots ?c ?p ?t) (fst ?cut) (norm_test ?nrm) (Ext e1') (Ext e2)
           = Inr (u, Ext v)"
    using n1 n2 by (rule expand_test_Inr)
  then obtain test1 ef1 where
    ex: "expand_test (expand_count slots ?c ?p ?t) (fst ?cut) (norm_test ?nrm) (snd ?cut) (Ext e2)
           = Inr (test1, Ext ef1)"
    unfolding cut2 by blast
  obtain w1 where w1: "move_sample (ST_MoveSample ?c ?p ?t 1 slots) (fst ?cut) = Inr w1"
    using move_sample_Inr [OF some] by blast
  obtain w2 where w2: "move_sample (ST_MoveSample ?c ?p ?t 1 slots) test1 = Inr w2"
    using move_sample_Inr [OF some] by blast
  have xs: "\<And>n1 n2. \<exists>x. external_step (Ext m) ?c ?p ?t k (arg_target_length cfg) slots n1 n2
              (snd ?cut) (Ext ef1) = Inr x"
    using external_step_Inr [OF some lstm(2)] by blast
  obtain c1 c2 c3 c4 where w1': "w1 = (c1, c2, c3, c4)"
    by (cases w1) auto
  obtain d1 d2 d3 d4 where w2': "w2 = (d1, d2, d3, d4)"
    by (cases w2) auto
  obtain x where x: "external_step (Ext m) ?c ?p ?t k (arg_target_length cfg) slots
      (max (length c1) (max (length c2) (length c3)))
      (max (length d1) (max (length d2) (length d3))) (snd ?cut) (Ext ef1) = Inr x"
    using xs by blast
  show ?thesis
    using lstm lens ratio
    by (simp add: init_core_def dsl int_of_arg_def sel ext sp spe ex w1 w2 w1' w2' x Let_def)
qed

lemma ex_slots: "slots_per_day ex_ds = 2"
  by (simp add: slots_per_day_def ex_ds_def float64_numeral)

lemma ex_assemble: "assemble_external ex_blocks = Inr (Ext (hd ex_blocks), 1)"
  by (simp add: assemble_external_def ex_blocks_def astype_float32_def float32_numeral float32_1)

lemma float64_11_2: "float64 (11 / 2) = 11 / 2"
  using float64_dyadic [of 11 1] by simp

lemma ex_index: "traffic_index (node_traffic ex_ds) 2 = [0]"
  by (simp add: traffic_index_def is_active_def mean_axis0_def float_sum_def column_def ex_ds_def
      upt_conv_Cons float64_numeral float64_0 float64_1 float64_11_2)

lemma ex_late_index: "traffic_index (node_traffic ex_ds_late) 2 = [0, 1]"
  by (simp add: traffic_index_def is_active_def mean_axis0_def float_sum_def column_def ex_ds_def
      ex_ds_late_def upt_conv_Cons float64_numeral float64_0 float64_1 float64_11_2)

lemma ex_other_index: "traffic_index (node_traffic ex_ds_other_test) 2 = [0]"
proof -
  have a: "float64 (28 / 5) = 3152519739159347 / 562949953421312"
    unfolding float64_def
    by (subst round_to_eval [where e = 2])
       (simp_all add: py_round_def Let_def powr_neg_numeral powr_numeral)
  have b: "float64 (3152519739159347 / 281474976710656) = 3152519739159347 / 281474976710656"
    using float64_dyadic [of 3152519739159347 48] by simp
  show ?thesis
    by (simp add: traffic_index_def is_active_def mean_axis0_def float_sum_def column_def ex_ds_def
      ex_ds_other_test_def upt_conv_Cons float64_numeral float64_0 float64_1 a b)
qed

lemma ex_late_slots: "slots_per_day ex_ds_late = 2"
  by (simp add: slots_per_day_def ex_ds_late_def ex_ds_def float64_numeral)

lemma ex_other_slots: "slots_per_day ex_ds_other_test = 2"
  by (simp add: slots_per_day_def ex_ds_other_test_def ex_ds_def float64_numeral)

lemma init_completes:
  assumes "\<exists>l. init_core cfg ds blocks = Inr l" "\<not> arg_with_tpe cfg" "\<not> arg_with_lm cfg"
  shows "\<exists>l. init cfg ds blocks = Inr l"
  using assms by (auto simp: init_def tpe_step_def lm_step_def)

lemma ex_cfg_completes:
  assumes "time_fitness ds \<noteq> 0" "2 \<le> length (rws (node_traffic ds))"
      and "assemble_external blocks = Inr (Ext m, d)" "2 \<le> len_m m"
  shows "\<exists>l. init ex_cfg ds blocks = Inr l"
proof (rule init_completes)
  show "\<exists>l. init_core ex_cfg ds blocks = Inr l"
  proof (rule init_core_completes)
    show "time_fitness ds \<noteq> 0" by (rule assms(1))
    show "arg_external_lstm_len ex_cfg = Some 1" by (simp add: ex_cfg_def)
    show "(0::int) < 1" by simp
    show "0 \<le> arg_closeness_len ex_cfg" "0 \<le> arg_period_len ex_cfg" "0 \<le> arg_trend_len ex_cfg"
      by (simp_all add: ex_cfg_def)
    show "\<not> (arg_closeness_len ex_cfg = 0 \<and> arg_period_len ex_cfg = 0 \<and> arg_trend_len ex_cfg = 0)"
      by (simp add: ex_cfg_def)
    show "assemble_external blocks = Inr (Ext m, d)" by (rule assms(3))
    show "0 \<le> arg_test_ratio ex_cfg" "arg_test_ratio ex_cfg \<le> 1"
      by (simp_all add: ex_cfg_def)
    show "2 \<le> length (py_slice
          (Some (fst (resolve_data_range (arg_data_range ex_cfg) (slots_per_day ds) (len_m (node_traffic ds)))))
          (Some (snd (resolve_data_range (arg_data_range ex_cfg) (slots_per_day ds) (len_m (node_traffic ds)))))
          (rws (node_traffic ds)))"
      using assms(2) by (simp add: ex_cfg_def len_m_def py_slice_def slice_bound_def)
    show "2 \<le> len_m m" by (rule assms(4))
  qed
  show "\<not> arg_with_tpe ex_cfg" "\<not> arg_with_lm ex_cfg" by (simp_all add: ex_cfg_def)
qed

lemma ex_init: "\<exists>l. init ex_cfg ex_ds ex_blocks = Inr l"
proof (rule init_completes)
  show "\<exists>l. init_core ex_cfg ex_ds ex_blocks = Inr l"
  proof (rule init_core_completes)
    show "time_fitness ex_ds \<noteq> 0" by (simp add: ex_ds_def)
    show "arg_external_lstm_len ex_cfg = Some 1" by (simp add: ex_cfg_def)
    show "(0::int) < 1" by simp
    show "0 \<le> arg_closeness_len ex_cfg" "0 \<le> arg_period_len ex_cfg" "0 \<le> arg_trend_len ex_cfg"
      by (simp_all add: ex_cfg_def)
    show "\<not> (arg_closeness_len ex_cfg = 0 \<and> arg_period_len ex_cfg = 0 \<and> arg_trend_len ex_cfg = 0)"
      by (simp add: ex_cfg_def)
    show "assemble_external ex_blocks = Inr (Ext (hd ex_blocks), 1)"
      by (rule ex_assemble)
    show "0 \<le> arg_test_ratio ex_cfg" "arg_test_ratio ex_cfg \<le> 1"
      by (simp_all add: ex_cfg_def)
    show "2 \<le> length (py_slice
          (Some (fst (resolve_data_range (arg_data_range ex_cfg) (slots_per_day ex_ds) (len_m (node_traffic ex_ds)))))
          (Some (snd (resolve_data_range (arg_data_range ex_cfg) (slots_per_day ex_ds) (len_m (node_traffic ex_ds)))))
          (rws (node_traffic ex_ds)))"
      by (simp add: ex_cfg_def ex_ds_def len_m_def py_slice_def slice_bound_def)
    show "2 \<le> len_m (hd ex_blocks)"
      by (simp add: ex_blocks_def len_m_def)
  qed
  show "\<not> arg_with_tpe ex_cfg" "\<not> arg_with_lm ex_cfg" by (simp_all add: ex_cfg_def)
qed

section \<open>The kept nodes\<close>

text \<open>
  Claim C2, as the code has it. After every construction, \<open>traffic_data_index\<close> lists,
  in increasing order, exactly the columns \<open>j\<close> of the raw \<^verbatim>\<open>node_traffic\<close> for which
  the float64 product of the float64 mean over all slots and
  \<^verbatim>\<open>daily_slots = 24 * 60 / time_fitness\<close> exceeds 1 (an array without slots keeps
  none). Column \<open>j\<close> of the kept traffic matrix is the series of the raw column
  \<open>traffic_data_index[j]\<close> over the selected range of slots, every value rounded to
  float32; it is the raw series itself when the raw values are float32 numbers.
  \<open>station_number\<close>, the number of columns of the kept matrix, is the length of
  \<open>traffic_data_index\<close>.
\<close>

theorem traffic_data_index_keeps_active_nodes:
  assumes "init cfg ds blocks = Inr l"
  shows "traffic_data_index l =
           filter (\<lambda>j. rws (node_traffic ds) \<noteq> []
                        \<and> 1 < float64 (float64 (float_sum (column (node_traffic ds) j)
                                                  / real (len_m (node_traffic ds)))
                                        * slots_per_day ds))
                  [0..<ncols (node_traffic ds)]
         \<and> (\<forall>j < length (traffic_data_index l).
               column (traffic_data l) j =
               map float32 (column (slice_m
                    (Some (fst (resolve_data_range (arg_data_range cfg) (slots_per_day ds)
                                  (len_m (node_traffic ds)))))
                    (Some (snd (resolve_data_range (arg_data_range cfg) (slots_per_day ds)
                                  (len_m (node_traffic ds)))))
                    (node_traffic ds))
                 (traffic_data_index l ! j)))
         \<and> (\<forall>j < length (traffic_data_index l).
               (\<forall>x \<in> set (column (node_traffic ds) (traffic_data_index l ! j)). float32 x = x) \<longrightarrow>
               column (traffic_data l) j =
               column (slice_m
                    (Some (fst (resolve_data_range (arg_data_range cfg) (slots_per_day ds)
                                  (len_m (node_traffic ds)))))
                    (Some (snd (resolve_data_range (arg_data_range cfg) (slots_per_day ds)
                                  (len_m (node_traffic ds)))))
                    (node_traffic ds))
                 (traffic_data_index l ! j))
         \<and> ncols (traffic_data l) = length (traffic_data_index l)
         \<and> station_number l = length (traffic_data_index l)"
proof -
  note f = init_index [OF assms]
  from f have sl: "daily_slots l = slots_per_day ds"
    by (auto simp: daily_slots_of_def split: if_splits)
  from f have idx: "traffic_data_index l = traffic_index (node_traffic ds) (slots_per_day ds)"
    using sl by simp
  have a: "traffic_data_index l =
           filter (\<lambda>j. rws (node_traffic ds) \<noteq> []
                        \<and> 1 < float64 (float64 (float_sum (column (node_traffic ds) j)
                                                  / real (len_m (node_traffic ds)))
                                        * slots_per_day ds))
                  [0..<ncols (node_traffic ds)]"
    unfolding idx traffic_index_def
    by (rule filter_cong) (auto simp: is_active_def mean_axis0_def len_m_def)
  let ?lo = "fst (resolve_data_range (arg_data_range cfg) (slots_per_day ds) (len_m (node_traffic ds)))"
  let ?hi = "snd (resolve_data_range (arg_data_range cfg) (slots_per_day ds) (len_m (node_traffic ds)))"
  let ?rows = "py_slice (Some ?lo) (Some ?hi) (rws (node_traffic ds))"
  from f have "select_rows_cols (node_traffic ds)
                (fst (resolve_data_range (arg_data_range cfg) (daily_slots l) (len_m (node_traffic ds))))
                (snd (resolve_data_range (arg_data_range cfg) (daily_slots l) (len_m (node_traffic ds))))
                (traffic_data_index l) = Inr (traffic_data l)"
    by blast
  then have "select_rows_cols (node_traffic ds) ?lo ?hi (traffic_data_index l) = Inr (traffic_data l)"
    unfolding sl .
  then have td: "traffic_data l = \<lparr>ncols = length (traffic_data_index l),
        rws = map (\<lambda>r. map (\<lambda>j. float32 (r ! j)) (traffic_data_index l)) ?rows\<rparr>"
    by (auto simp: select_rows_cols_def split: if_splits)
  have b: "\<forall>j < length (traffic_data_index l).
               column (traffic_data l) j =
               map float32 (column (slice_m (Some ?lo) (Some ?hi) (node_traffic ds))
                              (traffic_data_index l ! j))"
    by (subst td) (simp add: column_def slice_m_def)
  have sub: "set ?rows \<subseteq> set (rws (node_traffic ds))"
    by (auto simp: py_slice_def Let_def dest: in_set_takeD in_set_dropD)
  have b': "column (traffic_data l) j =
               column (slice_m (Some ?lo) (Some ?hi) (node_traffic ds)) (traffic_data_index l ! j)"
    if j: "j < length (traffic_data_index l)"
      and r: "\<forall>x \<in> set (column (node_traffic ds) (traffic_data_index l ! j)). float32 x = x"
    for j
  proof -
    have "map float32 (column (slice_m (Some ?lo) (Some ?hi) (node_traffic ds))
                              (traffic_data_index l ! j))
            = column (slice_m (Some ?lo) (Some ?hi) (node_traffic ds)) (traffic_data_index l ! j)"
      using r sub by (auto simp: column_def slice_m_def intro!: map_idI)
    with b j show ?thesis by simp
  qed
  have c: "ncols (traffic_data l) = length (traffic_data_index l)"
    by (subst td) simp
  from f c have d: "station_number l = length (traffic_data_index l)" by simp
  from a b b' c d show ?thesis by blast
qed

theorem traffic_data_index_keeps_active_nodes_witness:
  "\<exists>l. init ex_cfg ex_ds ex_blocks = Inr l \<and> traffic_data_index l = [0]
        \<and> column (traffic_data l) 0 = [1, 2, 3, 4, 5, 6, 7, 8, 9, 10]
        \<and> station_number l = 1"
proof -
  obtain l where l: "init ex_cfg ex_ds ex_blocks = Inr l"
    using ex_init by blast
  have "traffic_index (node_traffic ex_ds) (slots_per_day ex_ds) = [0]"
    by (simp only: ex_slots ex_index)
  then have e: "filter (\<lambda>j. rws (node_traffic ex_ds) \<noteq> []
                        \<and> 1 < float64 (float64 (float_sum (column (node_traffic ex_ds) j)
                                                  / real (len_m (node_traffic ex_ds)))
                                        * slots_per_day ex_ds))
                  [0..<ncols (node_traffic ex_ds)] = [0]"
    unfolding traffic_index_def
    by (subst (asm) filter_cong [OF refl, where Q = "\<lambda>j. rws (node_traffic ex_ds) \<noteq> []
                        \<and> 1 < float64 (float64 (float_sum (column (node_traffic ex_ds) j)
                                                  / real (len_m (node_traffic ex_ds)))
                                        * slots_per_day ex_ds)"])
       (auto simp: is_active_def mean_axis0_def len_m_def)
  have s: "map float32 (column (slice_m
                    (Some (fst (resolve_data_range (arg_data_range ex_cfg) (slots_per_day ex_ds)
                                  (len_m (node_traffic ex_ds)))))
                    (Some (snd (resolve_data_range (arg_data_range ex_cfg) (slots_per_day ex_ds)
                                  (len_m (node_traffic ex_ds)))))
                    (node_traffic ex_ds)) 0) = [1, 2, 3, 4, 5, 6, 7, 8, 9, 10]"
    by (simp add: ex_ds_def ex_cfg_def column_def len_m_def slice_m_def py_slice_def slice_bound_def
        float32_numeral float32_1)
  from traffic_data_index_keeps_active_nodes [OF l] e s l
  show ?thesis by auto
qed

lemma init_traffic_data:
  assumes "init cfg ds blocks = Inr l"
  shows "daily_slots l = slots_per_day ds
       \<and> traffic_data_index l = traffic_index (node_traffic ds) (slots_per_day ds)
       \<and> traffic_data l = \<lparr>ncols = length (traffic_data_index l),
            rws = map (\<lambda>r. map (\<lambda>j. float32 (r ! j)) (traffic_data_index l)) (selected_slots cfg ds)\<rparr>"
proof -
  note f = init_index [OF assms]
  from f have sl: "daily_slots l = slots_per_day ds"
    by (auto simp: daily_slots_of_def split: if_splits)
  from f have idx: "traffic_data_index l = traffic_index (node_traffic ds) (slots_per_day ds)"
    using sl by simp
  from f have "select_rows_cols (node_traffic ds)
                (fst (resolve_data_range (arg_data_range cfg) (daily_slots l) (len_m (node_traffic ds))))
                (snd (resolve_data_range (arg_data_range cfg) (daily_slots l) (len_m (node_traffic ds))))
                (traffic_data_index l) = Inr (traffic_data l)"
    by blast
  then have td: "traffic_data l = \<lparr>ncols = length (traffic_data_index l),
        rws = map (\<lambda>r. map (\<lambda>j. float32 (r ! j)) (traffic_data_index l)) (selected_slots cfg ds)\<rparr>"
    unfolding sl selected_slots_def
    by (auto simp: select_rows_cols_def split: if_splits)
  from sl idx td show ?thesis by blast
qed

lemma float32_16777217: "float32 16777217 = 16777216"
proof -
  have b: "binade 16777217 = 24"
    by (rule binade_eq) (simp_all add: powr_realpow)
  show ?thesis
    unfolding float32_def round_to_def b
    by (simp add: powr_realpow py_round_def)
qed

lemma ex_boundary_slots: "slots_per_day ex_ds_boundary = 2267546665529201 / 2251799813685248"
  unfolding slots_per_day_def float64_def
  by (subst round_to_eval [where e = 0])
     (simp_all add: ex_ds_boundary_def py_round_def Let_def powr_neg_numeral powr_numeral)

lemma ex_boundary_index:
  "traffic_index (node_traffic ex_ds_boundary) (2267546665529201 / 2251799813685248) = [0]"
proof -
  have s: "float64 (143 / 8) = 143 / 8"
    using float64_dyadic [of 143 3] by simp
  have m: "float64 (143 / 144) = 4472324629958201 / 4503599627370496"
    unfolding float64_def
    by (subst round_to_eval [where e = "- 1"])
       (simp_all add: py_round_def Let_def powr_neg_numeral powr_numeral)
  have p: "float64 (10141204801825836433448174927401 / 10141204801825835211973625643008)
             = 4503599627370497 / 4503599627370496"
    unfolding float64_def
    by (subst round_to_eval [where e = 0])
       (simp_all add: py_round_def Let_def powr_neg_numeral powr_numeral)
  show ?thesis
    by (simp add: traffic_index_def is_active_def mean_axis0_def float_sum_def column_def
        ex_ds_boundary_def s m p)
qed

lemma ex_large_index: "traffic_index (node_traffic ex_ds_large) 2 = [0]"
  by (simp add: traffic_index_def is_active_def mean_axis0_def float_sum_def column_def ex_ds_def
      ex_ds_large_def upt_conv_Cons float64_numeral float64_0)

lemma ex_assemble18: "assemble_external ex_blocks18 = Inr (Ext (hd ex_blocks18), 1)"
  by (simp add: assemble_external_def ex_blocks18_def astype_float32_def float32_numeral float32_1)

text \<open>
  The claim as it is written fails in two ways. In \<open>ex_ds_boundary\<close> the product of the
  mean of the only node and the number of slots in a day is exactly 1, so the node is not
  above the threshold; the float64 product is \<open>1 + 2\<^sup>-\<^sup>5\<^sup>2\<close> and the loader keeps the
  node. In \<open>ex_ds_large\<close> the first count is \<open>2\<^sup>2\<^sup>4 + 1\<close>, and the kept series holds
  \<open>2\<^sup>2\<^sup>4\<close> in its place.
\<close>

theorem kept_nodes_computed_in_floats:
  "(\<exists>l. init ex_cfg ex_ds_boundary ex_blocks18 = Inr l \<and> traffic_data_index l = [0]
      \<and> sum_list (column (node_traffic ex_ds_boundary) 0) / real (len_m (node_traffic ex_ds_boundary))
            * (24 * 60 / time_fitness ex_ds_boundary) = 1)
   \<and> (\<exists>l. init ex_cfg ex_ds_large ex_blocks = Inr l \<and> traffic_data_index l = [0]
      \<and> column (node_traffic ex_ds_large) 0 = [16777217, 3, 0, 0, 0, 0, 0, 0, 0, 0]
      \<and> column (traffic_data l) 0 = [16777216, 3, 0, 0, 0, 0, 0, 0, 0, 0])"
proof -
  have "\<exists>l. init ex_cfg ex_ds_boundary ex_blocks18 = Inr l"
    by (rule ex_cfg_completes [OF _ _ ex_assemble18])
       (simp_all add: ex_ds_boundary_def ex_blocks18_def len_m_def)
  then obtain l1 where l1: "init ex_cfg ex_ds_boundary ex_blocks18 = Inr l1"
    by blast
  from init_traffic_data [OF l1] have i1: "traffic_data_index l1 = [0]"
    by (simp only: ex_boundary_slots ex_boundary_index)
  have x1: "sum_list (column (node_traffic ex_ds_boundary) 0) / real (len_m (node_traffic ex_ds_boundary))
            * (24 * 60 / time_fitness ex_ds_boundary) = 1"
    by (simp add: ex_ds_boundary_def column_def len_m_def)
  have "\<exists>l. init ex_cfg ex_ds_large ex_blocks = Inr l"
    by (rule ex_cfg_completes [OF _ _ ex_assemble])
       (simp_all add: ex_ds_large_def ex_ds_def ex_blocks_def len_m_def)
  then obtain l2 where l2: "init ex_cfg ex_ds_large ex_blocks = Inr l2"
    by blast
  have s2: "slots_per_day ex_ds_large = 2"
    by (simp add: slots_per_day_def ex_ds_large_def ex_ds_def float64_numeral)
  from init_traffic_data [OF l2] have i2: "traffic_data_index l2 = [0]"
    by (simp only: s2 ex_large_index)
  have sel: "selected_slots ex_cfg ex_ds_large = rws (node_traffic ex_ds_large)"
    by (simp add: selected_slots_def ex_cfg_def ex_ds_large_def len_m_def py_slice_def slice_bound_def)
  from init_traffic_data [OF l2]
  have "traffic_data l2 = \<lparr>ncols = length (traffic_data_index l2),
            rws = map (\<lambda>r. map (\<lambda>j. float32 (r ! j)) (traffic_data_index l2))
                    (selected_slots ex_cfg ex_ds_large)\<rparr>"
    by blast
  then have c2: "column (traffic_data l2) 0 = [16777216, 3, 0, 0, 0, 0, 0, 0, 0, 0]"
    unfolding i2 sel
    by (simp add: column_def ex_ds_large_def float32_16777217 float32_numeral float32_0)
  have r2: "column (node_traffic ex_ds_large) 0 = [16777217, 3, 0, 0, 0, 0, 0, 0, 0, 0]"
    by (simp add: column_def ex_ds_large_def)
  from l1 i1 x1 l2 i2 r2 c2 show ?thesis by blast
qed

lemma ex_half_init: "\<exists>l. init ex_cfg_half ex_ds ex_blocks = Inr l"
proof (rule init_completes)
  show "\<exists>l. init_core ex_cfg_half ex_ds ex_blocks = Inr l"
  proof (rule init_core_completes)
    show "time_fitness ex_ds \<noteq> 0" by (simp add: ex_ds_def)
    show "arg_external_lstm_len ex_cfg_half = Some 1" by (simp add: ex_cfg_half_def ex_cfg_def)
    show "(0::int) < 1" by simp
    show "0 \<le> arg_closeness_len ex_cfg_half" "0 \<le> arg_period_len ex_cfg_half"
      "0 \<le> arg_trend_len ex_cfg_half"
      by (simp_all add: ex_cfg_half_def ex_cfg_def)
    show "\<not> (arg_closeness_len ex_cfg_half = 0 \<and> arg_period_len ex_cfg_half = 0
             \<and> arg_trend_len ex_cfg_half = 0)"
      by (simp add: ex_cfg_half_def ex_cfg_def)
    show "assemble_external ex_blocks = Inr (Ext (hd ex_blocks), 1)"
      by (rule ex_assemble)
    show "0 \<le> arg_test_ratio ex_cfg_half" "arg_test_ratio ex_cfg_half \<le> 1"
      by (simp_all add: ex_cfg_half_def ex_cfg_def)
    show "2 \<le> length (py_slice
          (Some (fst (resolve_data_range (arg_data_range ex_cfg_half) (slots_per_day ex_ds) (len_m (node_traffic ex_ds)))))
          (Some (snd (resolve_data_range (arg_data_range ex_cfg_half) (slots_per_day ex_ds) (len_m (node_traffic ex_ds)))))
          (rws (node_traffic ex_ds)))"
      by (simp add: ex_cfg_half_def ex_cfg_def ex_ds_def len_m_def py_slice_def slice_bound_def py_int_def
          float64_numeral)
    show "2 \<le> len_m (hd ex_blocks)"
      by (simp add: ex_blocks_def len_m_def)
  qed
  show "\<not> arg_with_tpe ex_cfg_half" "\<not> arg_with_lm ex_cfg_half"
    by (simp_all add: ex_cfg_half_def ex_cfg_def)
qed

lemma init_station_number:
  assumes "init cfg ds blocks = Inr l"
  shows "station_number l = length (traffic_data_index l)"
proof -
  from init_index [OF assms] have
    "select_rows_cols (node_traffic ds)
       (fst (resolve_data_range (arg_data_range cfg) (daily_slots l) (len_m (node_traffic ds))))
       (snd (resolve_data_range (arg_data_range cfg) (daily_slots l) (len_m (node_traffic ds))))
       (traffic_data_index l) = Inr (traffic_data l)"
    and n: "station_number l = ncols (traffic_data l)"
    by blast+
  then have "traffic_data l = \<lparr>ncols = length (traffic_data_index l),
        rws = map (\<lambda>r. map (\<lambda>j. float32 (r ! j)) (traffic_data_index l))
          (py_slice
            (Some (fst (resolve_data_range (arg_data_range cfg) (daily_slots l) (len_m (node_traffic ds)))))
            (Some (snd (resolve_data_range (arg_data_range cfg) (daily_slots l) (len_m (node_traffic ds)))))
            (rws (node_traffic ds)))\<rparr>"
    by (auto simp: select_rows_cols_def split: if_splits)
  then have "ncols (traffic_data l) = length (traffic_data_index l)"
    by (rule ssubst) simp
  with n show ?thesis by simp
qed

section \<open>The kept nodes do not depend on the selected range\<close>

text \<open>
  Claim C10. \<open>traffic_data_index\<close> is computed from the mean over all slots of the raw
  \<^verbatim>\<open>node_traffic\<close> and from \<^verbatim>\<open>time_fitness\<close> alone: two completed constructions
  over the same dataset have the same \<open>traffic_data_index\<close> and the same
  \<open>station_number\<close>, whatever their \<^verbatim>\<open>data_range\<close>, \<^verbatim>\<open>test_ratio\<close> and other
  arguments. The filter reads slots outside the selected range: the datasets \<open>ex_ds\<close>
  and \<open>ex_ds_late\<close> agree on the slots 0 to 4 that \<^verbatim>\<open>data_range = 0.5\<close> selects
  and differ only in slot 9, and the second column is kept in one and dropped in the
  other.
\<close>

theorem traffic_data_index_ignores_range_and_ratio:
  "(\<forall>cfg1 cfg2 blocks1 blocks2 ds l1 l2.
       init cfg1 ds blocks1 = Inr l1 \<longrightarrow> init cfg2 ds blocks2 = Inr l2 \<longrightarrow>
         traffic_data_index l1 = traffic_index (node_traffic ds) (slots_per_day ds)
       \<and> traffic_data_index l1 = traffic_data_index l2
       \<and> station_number l1 = station_number l2)
   \<and> slice_m (Some 0) (Some 5) (node_traffic ex_ds) = slice_m (Some 0) (Some 5) (node_traffic ex_ds_late)
   \<and> resolve_data_range (Range_ratio (1/2)) 2 10 = (0, 5)
   \<and> traffic_index (node_traffic ex_ds) 2 = [0]
   \<and> traffic_index (node_traffic ex_ds_late) 2 = [0, 1]"
proof -
  have a: "traffic_data_index l1 = traffic_index (node_traffic ds) (slots_per_day ds)
       \<and> traffic_data_index l1 = traffic_data_index l2
       \<and> station_number l1 = station_number l2"
    if h1: "init cfg1 ds blocks1 = Inr l1" and h2: "init cfg2 ds blocks2 = Inr l2"
    for cfg1 cfg2 blocks1 blocks2 ds l1 l2
  proof -
    from init_index [OF h1] have s1: "daily_slots l1 = slots_per_day ds"
      by (auto simp: daily_slots_of_def split: if_splits)
    from init_index [OF h2] have s2: "daily_slots l2 = slots_per_day ds"
      by (auto simp: daily_slots_of_def split: if_splits)
    from init_index [OF h1] have i1: "traffic_data_index l1 = traffic_index (node_traffic ds) (daily_slots l1)"
      by blast
    from init_index [OF h2] have i2: "traffic_data_index l2 = traffic_index (node_traffic ds) (daily_slots l2)"
      by blast
    from init_station_number [OF h1] init_station_number [OF h2]
    have n: "station_number l1 = length (traffic_data_index l1)"
      "station_number l2 = length (traffic_data_index l2)" .
    from i1 i2 s1 s2 n show ?thesis by simp
  qed
  have b: "slice_m (Some 0) (Some 5) (node_traffic ex_ds) = slice_m (Some 0) (Some 5) (node_traffic ex_ds_late)"
    by (simp add: ex_ds_def ex_ds_late_def slice_m_def py_slice_def slice_bound_def)
  have c: "resolve_data_range (Range_ratio (1/2)) 2 10 = (0, 5)"
    by (simp add: py_int_def float64_numeral)
  have d: "traffic_index (node_traffic ex_ds) 2 = [0]"
    by (rule ex_index)
  have e: "traffic_index (node_traffic ex_ds_late) 2 = [0, 1]"
    by (rule ex_late_index)
  from a b c d e show ?thesis by blast
qed

theorem traffic_data_index_ignores_range_and_ratio_witness:
  "\<exists>la lb. init ex_cfg ex_ds ex_blocks = Inr la \<and> init ex_cfg_half ex_ds ex_blocks = Inr lb
     \<and> arg_data_range ex_cfg \<noteq> arg_data_range ex_cfg_half
     \<and> arg_test_ratio ex_cfg \<noteq> arg_test_ratio ex_cfg_half
     \<and> traffic_data_index la = [0] \<and> traffic_data_index lb = [0]
     \<and> station_number la = station_number lb"
proof -
  obtain la where la: "init ex_cfg ex_ds ex_blocks = Inr la"
    using ex_init by blast
  obtain lb where lb: "init ex_cfg_half ex_ds ex_blocks = Inr lb"
    using ex_half_init by blast
  have tf: "slots_per_day ex_ds = 2"
    by (rule ex_slots)
  have d: "arg_data_range ex_cfg \<noteq> arg_data_range ex_cfg_half"
    "arg_test_ratio ex_cfg \<noteq> arg_test_ratio ex_cfg_half"
    by (simp_all add: ex_cfg_def ex_cfg_half_def)
  from traffic_data_index_ignores_range_and_ratio la lb
  have "traffic_data_index la = traffic_index (node_traffic ex_ds) (slots_per_day ex_ds)
       \<and> traffic_data_index la = traffic_data_index lb
       \<and> station_number la = station_number lb
       \<and> traffic_index (node_traffic ex_ds) 2 = [0]"
    by blast
  with tf la lb d show ?thesis by auto
qed

lemma external_step_without_lstm:
  assumes "0 < len_e ext" "k \<le> 0"
  shows "external_step ext c p t k g slots n1 n2 a b \<noteq> Inr x"
  using assms
  by (auto simp: external_step_def lstm_sample_def subscript_slice_def thenE_Inr_iff
      split: prod.splits)

lemma external_step_type_error:
  assumes "0 < len_e ext" "k \<le> 0" "\<not> (c = 0 \<and> p = 0 \<and> t = 0)"
  shows "external_step ext c p t k g slots n1 n2 a b
           = Inl (TypeError ''NoneType object is not subscriptable'')"
  using assms
  by (auto simp: external_step_def lstm_sample_def subscript_slice_def move_sample_def
      ST_MoveSample_def split: prod.splits)

lemma init_core_external_step:
  assumes "init_core cfg ds blocks = Inr l"
  shows "\<exists>ext d k g slots n1 n2 a b x.
           assemble_external blocks = Inr (ext, d) \<and> arg_external_lstm_len cfg = Some k
         \<and> external_step ext (arg_closeness_len cfg) (arg_period_len cfg) (arg_trend_len cfg)
              k g slots n1 n2 a b = Inr x"
  using assms
  apply (clarsimp simp: init_core_def thenE_Inr_iff Let_def int_of_arg_def
      split: if_splits prod.splits option.splits)
  apply blast?
  done

lemma init_core_type_error:
  assumes tf: "time_fitness ds \<noteq> 0"
      and lstm: "arg_external_lstm_len cfg = Some k" "k \<le> 0"
      and lens: "0 \<le> arg_closeness_len cfg" "0 \<le> arg_period_len cfg" "0 \<le> arg_trend_len cfg"
      and some: "\<not> (arg_closeness_len cfg = 0 \<and> arg_period_len cfg = 0 \<and> arg_trend_len cfg = 0)"
      and ext: "assemble_external blocks = Inr (Ext m, d)"
      and ratio: "0 \<le> arg_test_ratio cfg" "arg_test_ratio cfg \<le> 1"
      and rows: "2 \<le> length (py_slice
          (Some (fst (resolve_data_range (arg_data_range cfg) (slots_per_day ds) (len_m (node_traffic ds)))))
          (Some (snd (resolve_data_range (arg_data_range cfg) (slots_per_day ds) (len_m (node_traffic ds)))))
          (rws (node_traffic ds)))"
      and erows: "2 \<le> len_m m"
  shows "init_core cfg ds blocks = Inl (TypeError ''NoneType object is not subscriptable'')"
proof -
  define slots where "slots = slots_per_day ds"
  have dsl: "daily_slots_of ds = Inr slots"
    using tf by (simp add: daily_slots_of_def slots_def)
  let ?c = "arg_closeness_len cfg" and ?p = "arg_period_len cfg" and ?t = "arg_trend_len cfg"
  let ?r = "arg_test_ratio cfg"
  let ?rng = "resolve_data_range (arg_data_range cfg) slots (len_m (node_traffic ds))"
  let ?idx = "traffic_index (node_traffic ds) slots"
  define traffic where "traffic = \<lparr>ncols = length ?idx,
          rws = map (\<lambda>r. map (\<lambda>j. float32 (r ! j)) ?idx) (py_slice (Some (fst ?rng)) (Some (snd ?rng)) (rws (node_traffic ds)))\<rparr>"
  have sel: "select_rows_cols (node_traffic ds) (fst ?rng) (snd ?rng) ?idx = Inr traffic"
    by (simp add: select_rows_cols_index traffic_def)
  have "2 \<le> length (rws traffic)" using rows by (simp add: traffic_def slots_def)
  from split_m_two [OF ratio this] obtain train0 test0 where
    sp: "split_m traffic [1 - ?r, ?r] = Inr (train0, test0)" and
    nc: "ncols train0 = ncols test0" by auto
  have "2 \<le> length (rws m)" using erows by (simp add: len_m_def)
  from split_m_two [OF ratio this] obtain e1 e2 where
    spe: "split_m m [1 - ?r, ?r] = Inr (e1, e2)" and
    nce: "ncols e1 = ncols e2" by auto
  let ?nrm = "normalize_step (arg_normalize cfg) train0 test0"
  let ?cut = "truncate_train (arg_train_data_length cfg) slots (norm_train ?nrm) (Ext e1)"
  obtain e1' where cut2: "snd ?cut = Ext e1'" and nce': "ncols e1' = ncols e1"
    using truncate_train_shape by blast
  have n1: "ncols (fst ?cut) = ncols (norm_test ?nrm)"
    using nc by (simp add: truncate_train_shape normalize_step_ncols)
  have n2: "ncols e1' = ncols e2"
    using nce nce' by simp
  have "\<exists>u v. expand_test (expand_count slots ?c ?p ?t) (fst ?cut) (norm_test ?nrm) (Ext e1') (Ext e2)
           = Inr (u, Ext v)"
    using n1 n2 by (rule expand_test_Inr)
  then obtain test1 ef1 where
    ex: "expand_test (expand_count slots ?c ?p ?t) (fst ?cut) (norm_test ?nrm) (snd ?cut) (Ext e2)
           = Inr (test1, Ext ef1)"
    unfolding cut2 by blast
  obtain w1 where w1: "move_sample (ST_MoveSample ?c ?p ?t 1 slots) (fst ?cut) = Inr w1"
    using move_sample_Inr [OF some] by blast
  obtain w2 where w2: "move_sample (ST_MoveSample ?c ?p ?t 1 slots) test1 = Inr w2"
    using move_sample_Inr [OF some] by blast
  obtain c1 c2 c3 c4 where w1': "w1 = (c1, c2, c3, c4)"
    by (cases w1) auto
  obtain d1 d2 d3 d4 where w2': "w2 = (d1, d2, d3, d4)"
    by (cases w2) auto
  have "0 < len_e (Ext m)" using erows by simp
  from external_step_type_error [OF this lstm(2) some]
  have x: "external_step (Ext m) ?c ?p ?t k (arg_target_length cfg) slots
      (max (length c1) (max (length c2) (length c3)))
      (max (length d1) (max (length d2) (length d3))) (snd ?cut) (Ext ef1)
        = Inl (TypeError ''NoneType object is not subscriptable'')" .
  show ?thesis
    using lstm lens ratio
    by (simp add: init_core_def dsl int_of_arg_def sel ext sp spe ex w1 w2 w1' w2' x Let_def)
qed

section \<open>External features without a recent-history length\<close>

text \<open>
  Claim C9. When the external feature array has rows and \<^verbatim>\<open>external_lstm_len\<close> is 0
  (or negative, or \<^verbatim>\<open>None\<close>), no construction completes. With \<^verbatim>\<open>None\<close> the
  conversion \<^verbatim>\<open>int(external_lstm_len)\<close> of line 109 fails; otherwise, when the external
  step is reached (the history lengths are then not all 0, or the traffic sampler would
  have failed before), \<^verbatim>\<open>train_lstm_ef\<close> is still \<^verbatim>\<open>None\<close> at line 310 and its
  subscription raises TypeError.
\<close>

theorem external_features_need_lstm_len:
  assumes "assemble_external blocks = Inr (ext, d)" and "0 < len_e ext"
      and "arg_external_lstm_len cfg = None \<or> (\<exists>k\<le>0. arg_external_lstm_len cfg = Some k)"
  shows "(\<exists>e. init cfg ds blocks = Inl e)
       \<and> (\<forall>k c p t g slots n1 n2 a b. k \<le> 0 \<longrightarrow> \<not> (c = 0 \<and> p = 0 \<and> t = 0) \<longrightarrow>
            external_step ext c p t k g slots n1 n2 a b
              = Inl (TypeError ''NoneType object is not subscriptable''))
       \<and> (time_fitness ds \<noteq> 0 \<and> arg_external_lstm_len cfg \<noteq> None
            \<and> 0 \<le> arg_closeness_len cfg \<and> 0 \<le> arg_period_len cfg \<and> 0 \<le> arg_trend_len cfg
            \<and> \<not> (arg_closeness_len cfg = 0 \<and> arg_period_len cfg = 0 \<and> arg_trend_len cfg = 0)
            \<and> 0 \<le> arg_test_ratio cfg \<and> arg_test_ratio cfg \<le> 1
            \<and> 2 \<le> length (py_slice
                 (Some (fst (resolve_data_range (arg_data_range cfg) (slots_per_day ds)
                               (len_m (node_traffic ds)))))
                 (Some (snd (resolve_data_range (arg_data_range cfg) (slots_per_day ds)
                               (len_m (node_traffic ds)))))
                 (rws (node_traffic ds)))
            \<and> 2 \<le> len_e ext
          \<longrightarrow> init cfg ds blocks = Inl (TypeError ''NoneType object is not subscriptable''))"
proof -
  have "init_core cfg ds blocks \<noteq> Inr l" for l
  proof
    assume "init_core cfg ds blocks = Inr l"
    from init_core_external_step [OF this] assms(1) obtain k g slots n1 n2 a b x where
      k: "arg_external_lstm_len cfg = Some k" and
      x: "external_step ext (arg_closeness_len cfg) (arg_period_len cfg) (arg_trend_len cfg)
              k g slots n1 n2 a b = Inr x"
      by auto
    from k assms(3) have "k \<le> 0" by auto
    from external_step_without_lstm [OF assms(2) this] x show False by blast
  qed
  then have "init cfg ds blocks \<noteq> Inr l" for l
    by (auto simp: init_def thenE_Inr_iff)
  then have fails: "\<exists>e. init cfg ds blocks = Inl e"
    by (cases "init cfg ds blocks") auto
  have reached: "init cfg ds blocks = Inl (TypeError ''NoneType object is not subscriptable'')"
    if tf: "time_fitness ds \<noteq> 0" and given: "arg_external_lstm_len cfg \<noteq> None"
      and lens: "0 \<le> arg_closeness_len cfg" "0 \<le> arg_period_len cfg" "0 \<le> arg_trend_len cfg"
      and some: "\<not> (arg_closeness_len cfg = 0 \<and> arg_period_len cfg = 0 \<and> arg_trend_len cfg = 0)"
      and ratio: "0 \<le> arg_test_ratio cfg" "arg_test_ratio cfg \<le> 1"
      and rows: "2 \<le> length (py_slice
                 (Some (fst (resolve_data_range (arg_data_range cfg) (slots_per_day ds)
                               (len_m (node_traffic ds)))))
                 (Some (snd (resolve_data_range (arg_data_range cfg) (slots_per_day ds)
                               (len_m (node_traffic ds)))))
                 (rws (node_traffic ds)))"
      and erows: "2 \<le> len_e ext"
  proof -
    from given assms(3) obtain k where k: "arg_external_lstm_len cfg = Some k" "k \<le> 0"
      by auto
    from erows obtain m where m: "ext = Ext m" "2 \<le> len_m m"
      by (cases ext) auto
    from assms(1) m have e: "assemble_external blocks = Inr (Ext m, d)" by simp
    from init_core_type_error [OF tf k lens some e ratio rows m(2)]
    show ?thesis by (simp add: init_def)
  qed
  from fails reached external_step_type_error [OF assms(2)] show ?thesis
    by blast
qed

theorem external_features_need_lstm_len_witness:
  "assemble_external ex_blocks = Inr (Ext (hd ex_blocks), 1) \<and> 0 < len_e (Ext (hd ex_blocks))
   \<and> arg_external_lstm_len ex_cfg_no_lstm = Some 0
   \<and> init ex_cfg_no_lstm ex_ds ex_blocks = Inl (TypeError ''NoneType object is not subscriptable'')"
proof -
  have a: "assemble_external ex_blocks = Inr (Ext (hd ex_blocks), 1)"
    by (rule ex_assemble)
  have b: "0 < len_e (Ext (hd ex_blocks))"
    by (simp add: ex_blocks_def len_m_def)
  have c: "arg_external_lstm_len ex_cfg_no_lstm = Some 0"
    by (simp add: ex_cfg_no_lstm_def)
  have d: "arg_external_lstm_len ex_cfg_no_lstm = None
           \<or> (\<exists>k\<le>0. arg_external_lstm_len ex_cfg_no_lstm = Some k)"
    by (simp add: c)
  have e: "time_fitness ex_ds \<noteq> 0 \<and> arg_external_lstm_len ex_cfg_no_lstm \<noteq> None
            \<and> 0 \<le> arg_closeness_len ex_cfg_no_lstm \<and> 0 \<le> arg_period_len ex_cfg_no_lstm
            \<and> 0 \<le> arg_trend_len ex_cfg_no_lstm
            \<and> \<not> (arg_closeness_len ex_cfg_no_lstm = 0 \<and> arg_period_len ex_cfg_no_lstm = 0
                  \<and> arg_trend_len ex_cfg_no_lstm = 0)
            \<and> 0 \<le> arg_test_ratio ex_cfg_no_lstm \<and> arg_test_ratio ex_cfg_no_lstm \<le> 1
            \<and> 2 \<le> length (py_slice
                 (Some (fst (resolve_data_range (arg_data_range ex_cfg_no_lstm) (slots_per_day ex_ds)
                               (len_m (node_traffic ex_ds)))))
                 (Some (snd (resolve_data_range (arg_data_range ex_cfg_no_lstm) (slots_per_day ex_ds)
                               (len_m (node_traffic ex_ds)))))
                 (rws (node_traffic ex_ds)))
            \<and> 2 \<le> len_e (Ext (hd ex_blocks))"
    by (simp add: ex_cfg_no_lstm_def ex_cfg_def ex_ds_def ex_blocks_def len_m_def py_slice_def
        slice_bound_def)
  from external_features_need_lstm_len [OF a b d, of ex_ds] e
  have "init ex_cfg_no_lstm ex_ds ex_blocks = Inl (TypeError ''NoneType object is not subscriptable'')"
    by blast
  with a b c show ?thesis by simp
qed

lemma concatenate_last_other:
  "concatenate_last ms \<noteq> Inl (ValueError ''test_ratio '')"
  by (induction ms rule: concatenate_last.induct) (auto simp: thenE_Inl_iff hstack2_def)

lemma assemble_external_other:
  "assemble_external blocks \<noteq> Inl (ValueError ''test_ratio '')"
  by (auto simp: assemble_external_def thenE_Inl_iff concatenate_last_other)

lemma split_data_other: "split_data xs rs \<noteq> Inl (ValueError ''test_ratio '')"
  by (auto simp: split_data_def)

lemma unpack2_other: "unpack2 ps \<noteq> Inl (ValueError ''test_ratio '')"
  by (auto simp: unpack2_def split: list.splits)

lemma split_m_other: "split_m m rs \<noteq> Inl (ValueError ''test_ratio '')"
  by (auto simp: split_m_def thenE_Inl_iff split_data_other unpack2_other)

lemma split_e_other: "split_e e rs \<noteq> Inl (ValueError ''test_ratio '')"
  by (cases e) (auto simp: thenE_Inl_iff split_data_other unpack2_other split_m_other)

lemma vstack_m_other: "vstack_m a b \<noteq> Inl (ValueError ''test_ratio '')"
  by (auto simp: vstack_m_def)

lemma expand_test_other: "expand_test n a b x y \<noteq> Inl (ValueError ''test_ratio '')"
  by (auto simp: expand_test_def vstack_e_def thenE_Inl_iff vstack_m_other Let_def)

lemma move_sample_other: "move_sample s m \<noteq> Inl (ValueError ''test_ratio '')"
  by (auto simp: move_sample_def)

lemma lstm_sample_other: "lstm_sample k slots a b \<noteq> Inl (ValueError ''test_ratio '')"
  by (auto simp: lstm_sample_def thenE_Inl_iff move_sample_other split: prod.splits)

lemma subscript_slice_other: "subscript_slice lo hi v \<noteq> Inl (ValueError ''test_ratio '')"
  by (auto simp: subscript_slice_def split: option.splits)

lemma external_step_other:
  "external_step ext c p t k g slots n1 n2 a b \<noteq> Inl (ValueError ''test_ratio '')"
  by (auto simp: external_step_def thenE_Inl_iff move_sample_other lstm_sample_other
      subscript_slice_other split: prod.splits)

lemma zipE_other:
  assumes "\<And>x y. f x y \<noteq> Inl (ValueError ''test_ratio '')"
  shows "zipE f xs ys \<noteq> Inl (ValueError ''test_ratio '')"
  using assms
  by (induction f xs ys rule: zipE.induct) (auto simp: thenE_Inl_iff)

lemma concatenate_last4_other: "concatenate_last4 a b \<noteq> Inl (ValueError ''test_ratio '')"
  unfolding concatenate_last4_def
  by (intro zipE_other) simp

lemma attach_tpe_other: "attach_tpe len tpe nodes a \<noteq> Inl (ValueError ''test_ratio '')"
  by (simp add: attach_tpe_def concatenate_last4_other)

lemma py_range_other: "py_range a b c \<noteq> Inl (ValueError ''test_ratio '')"
  by (auto simp: py_range_def)

lemma tpe_step_other: "tpe_step cfg l \<noteq> Inl (ValueError ''test_ratio '')"
  by (auto simp: tpe_step_def thenE_Inl_iff attach_tpe_other py_range_other Let_def)

lemma mapE_other:
  assumes "\<And>x. f x \<noteq> Inl (ValueError ''test_ratio '')"
  shows "mapE f xs \<noteq> Inl (ValueError ''test_ratio '')"
  using assms by (induction xs) (auto simp: thenE_Inl_iff)

lemma take_rows_other: "take_rows m idx \<noteq> Inl (ValueError ''test_ratio '')"
  by (auto simp: take_rows_def)

lemma take_cols_other: "take_cols m idx \<noteq> Inl (ValueError ''test_ratio '')"
  by (auto simp: take_cols_def)

lemma take_items_other: "take_items xs idx \<noteq> Inl (ValueError ''test_ratio '')"
  by (auto simp: take_items_def)

lemma attr_other: "attr v \<noteq> Inl (ValueError ''test_ratio '')"
  by (auto simp: attr_def split: option.splits)

lemma add_m_other: "add_m a b \<noteq> Inl (ValueError ''test_ratio '')"
  by (auto simp: add_m_def)

lemma interaction_adjacent_other: "interaction_adjacent a x \<noteq> Inl (ValueError ''test_ratio '')"
  by (auto simp: interaction_adjacent_def thenE_Inl_iff add_m_other)

lemma build_graph_other: "build_graph l g \<noteq> Inl (ValueError ''test_ratio '')"
  by (cases g)
     (auto simp: thenE_Inl_iff take_items_other attr_other mapE_other take_rows_other
        take_cols_other split_data_other unpack2_other add_m_other interaction_adjacent_other
        Let_def split: prod.splits)

lemma graph_loop_other: "graph_loop l gs acc \<noteq> Inl (ValueError ''test_ratio '')"
  by (induction gs arbitrary: acc) (auto simp: thenE_Inl_iff build_graph_other split: prod.splits)

lemma np_array_other: "np_array ms \<noteq> Inl (ValueError ''test_ratio '')"
  by (auto simp: np_array_def)

lemma lm_step_other: "lm_step cfg l \<noteq> Inl (ValueError ''test_ratio '')"
  by (auto simp: lm_step_def thenE_Inl_iff graph_loop_other np_array_other Let_def
      split: prod.splits)

lemma init_core_ratio_error:
  assumes "init_core cfg ds blocks = Inl (ValueError ''test_ratio '')"
  shows "arg_test_ratio cfg > 1 \<or> arg_test_ratio cfg < 0"
  using assms
  by (auto simp: init_core_def thenE_Inl_iff daily_slots_of_def int_of_arg_def
      select_rows_cols_def assemble_external_other split_m_other split_e_other
      expand_test_other move_sample_other external_step_other Let_def
      split: if_splits prod.splits option.splits)

lemma init_core_Inr_ratio:
  assumes "init_core cfg ds blocks = Inr l"
  shows "0 \<le> arg_test_ratio cfg \<and> arg_test_ratio cfg \<le> 1"
  using assms
  by (auto simp: init_core_def thenE_Inr_iff Let_def split: if_splits prod.splits)

section \<open>The check of the test ratio\<close>

text \<open>
  Claim C8. The constructor ends with \<^verbatim>\<open>ValueError('test_ratio ')\<close>, the error that
  names the parameter, only if \<^verbatim>\<open>test_ratio\<close> is greater than 1 or less than 0; with
  such a ratio no construction returns a loader; and with such a ratio the error is this
  ValueError whenever the statements before line 219 complete, that is, when
  \<^verbatim>\<open>time_fitness\<close> is not 0, \<^verbatim>\<open>external_lstm_len\<close> is a number, the three history
  lengths pass their assertions and the external feature blocks can be concatenated.
  Nothing is asked of the traffic data: the check comes before the arrays are split,
  normalised or sampled, so a dataset that could not be split fails in the same way.
\<close>

theorem test_ratio_out_of_range_fails:
  "(init cfg ds blocks = Inl (ValueError ''test_ratio '')
      \<longrightarrow> arg_test_ratio cfg > 1 \<or> arg_test_ratio cfg < 0)
   \<and> (arg_test_ratio cfg > 1 \<or> arg_test_ratio cfg < 0 \<longrightarrow> (\<exists>e. init cfg ds blocks = Inl e))
   \<and> (time_fitness ds \<noteq> 0 \<and> arg_external_lstm_len cfg \<noteq> None
        \<and> 0 \<le> arg_closeness_len cfg \<and> 0 \<le> arg_period_len cfg \<and> 0 \<le> arg_trend_len cfg
        \<and> (\<exists>x. assemble_external blocks = Inr x)
        \<and> (arg_test_ratio cfg > 1 \<or> arg_test_ratio cfg < 0)
      \<longrightarrow> init cfg ds blocks = Inl (ValueError ''test_ratio ''))"
proof -
  have a: "arg_test_ratio cfg > 1 \<or> arg_test_ratio cfg < 0"
    if "init cfg ds blocks = Inl (ValueError ''test_ratio '')"
  proof -
    from that have "init_core cfg ds blocks = Inl (ValueError ''test_ratio '')"
      by (auto simp: init_def thenE_Inl_iff tpe_step_other lm_step_other)
    then show ?thesis by (rule init_core_ratio_error)
  qed
  have b: "\<exists>e. init cfg ds blocks = Inl e"
    if bad: "arg_test_ratio cfg > 1 \<or> arg_test_ratio cfg < 0"
  proof -
    have "init_core cfg ds blocks \<noteq> Inr l" for l
      using init_core_Inr_ratio [of cfg ds blocks l] bad by auto
    then have "init cfg ds blocks \<noteq> Inr l" for l
      by (auto simp: init_def thenE_Inr_iff)
    then show ?thesis
      by (cases "init cfg ds blocks") auto
  qed
  have c: "init cfg ds blocks = Inl (ValueError ''test_ratio '')"
    if "time_fitness ds \<noteq> 0" "arg_external_lstm_len cfg \<noteq> None"
      "0 \<le> arg_closeness_len cfg" "0 \<le> arg_period_len cfg" "0 \<le> arg_trend_len cfg"
      "\<exists>x. assemble_external blocks = Inr x"
      "arg_test_ratio cfg > 1 \<or> arg_test_ratio cfg < 0"
    using that
    by (auto simp: init_def init_core_def daily_slots_of_def int_of_arg_def
        select_rows_cols_index Let_def)
  from a b c show ?thesis by blast
qed

theorem test_ratio_out_of_range_fails_witness:
  "arg_test_ratio ex_cfg_bad_ratio = 2
   \<and> init ex_cfg_bad_ratio ex_ds ex_blocks = Inl (ValueError ''test_ratio '')"
proof -
  have "time_fitness ex_ds \<noteq> 0 \<and> arg_external_lstm_len ex_cfg_bad_ratio \<noteq> None
        \<and> 0 \<le> arg_closeness_len ex_cfg_bad_ratio \<and> 0 \<le> arg_period_len ex_cfg_bad_ratio
        \<and> 0 \<le> arg_trend_len ex_cfg_bad_ratio
        \<and> (\<exists>x. assemble_external ex_blocks = Inr x)
        \<and> (arg_test_ratio ex_cfg_bad_ratio > 1 \<or> arg_test_ratio ex_cfg_bad_ratio < 0)"
    by (simp add: ex_ds_def ex_cfg_bad_ratio_def ex_cfg_def assemble_external_def ex_blocks_def)
  with test_ratio_out_of_range_fails [of ex_cfg_bad_ratio ex_ds ex_blocks]
  have "init ex_cfg_bad_ratio ex_ds ex_blocks = Inl (ValueError ''test_ratio '')"
    by blast
  then show ?thesis by (simp add: ex_cfg_bad_ratio_def)
qed

lemma fst_truncate_train:
  "fst (truncate_train len slots a e) = fst (truncate_train len slots a NoExt)"
  by (cases len) simp_all

lemma normalize_step_train:
  "norm_train (normalize_step f a b) = (if f then min_max_normal (Normalizer a) a else a)
   \<and> fitted (normalize_step f a b) = (if f then Some (Normalizer a) else None)
   \<and> norm_test (normalize_step f a b) = (if f then min_max_normal (Normalizer a) b else b)"
  by (simp add: normalize_step_def Let_def)

lemma init_core_train_data:
  assumes "init_core cfg ds blocks = Inr l"
  shows "\<exists>traffic train0 test0.
           select_rows_cols (node_traffic ds)
                (fst (resolve_data_range (arg_data_range cfg) (daily_slots l) (len_m (node_traffic ds))))
                (snd (resolve_data_range (arg_data_range cfg) (daily_slots l) (len_m (node_traffic ds))))
                (traffic_data_index l) = Inr traffic
         \<and> split_m traffic [1 - arg_test_ratio cfg, arg_test_ratio cfg] = Inr (train0, test0)
         \<and> train_data l = fst (truncate_train (arg_train_data_length cfg) (daily_slots l)
                                (norm_train (normalize_step (arg_normalize cfg) train0 test0)) NoExt)
         \<and> normalizer l = fitted (normalize_step (arg_normalize cfg) train0 test0)"
  using assms
  apply (clarsimp simp: init_core_def thenE_Inr_iff Let_def split: if_splits prod.splits)
  apply (subst fst_truncate_train)
  apply blast
  done

lemma init_train_data:
  assumes "init cfg ds blocks = Inr l"
  shows "train_data l =
           fst (truncate_train (arg_train_data_length cfg) (slots_per_day ds)
                 (norm_train (normalize_step (arg_normalize cfg)
                    \<lparr>ncols = length (traffic_data_index l),
                     rws = map (\<lambda>r. map (\<lambda>j. float32 (r ! j)) (traffic_data_index l))
                              (take (train_count cfg ds) (selected_slots cfg ds))\<rparr>
                    \<lparr>ncols = 0, rws = []\<rparr>)) NoExt)
       \<and> normalizer l =
           fitted (normalize_step (arg_normalize cfg)
                    \<lparr>ncols = length (traffic_data_index l),
                     rws = map (\<lambda>r. map (\<lambda>j. float32 (r ! j)) (traffic_data_index l))
                              (take (train_count cfg ds) (selected_slots cfg ds))\<rparr>
                    \<lparr>ncols = 0, rws = []\<rparr>)"
proof -
  from assms obtain l0 l1 where c: "init_core cfg ds blocks = Inr l0"
    and t: "tpe_step cfg l0 = Inr l1" and m: "lm_step cfg l1 = Inr l"
    by (rule init_Inr_steps)
  from tpe_step_keeps [OF t] lm_step_keeps [OF m]
  have keep: "train_data l = train_data l0" "normalizer l = normalizer l0"
    "traffic_data_index l = traffic_data_index l0" "daily_slots l = daily_slots l0"
    by simp_all
  from init_index [OF assms] have sl: "daily_slots l = slots_per_day ds"
    by (auto simp: daily_slots_of_def split: if_splits)
  from init_core_train_data [OF c] obtain traffic train0 test0 where
    sel: "select_rows_cols (node_traffic ds)
                (fst (resolve_data_range (arg_data_range cfg) (daily_slots l0) (len_m (node_traffic ds))))
                (snd (resolve_data_range (arg_data_range cfg) (daily_slots l0) (len_m (node_traffic ds))))
                (traffic_data_index l0) = Inr traffic"
    and sp: "split_m traffic [1 - arg_test_ratio cfg, arg_test_ratio cfg] = Inr (train0, test0)"
    and td: "train_data l0 = fst (truncate_train (arg_train_data_length cfg) (daily_slots l0)
                                (norm_train (normalize_step (arg_normalize cfg) train0 test0)) NoExt)"
    and nz: "normalizer l0 = fitted (normalize_step (arg_normalize cfg) train0 test0)"
    by blast
  have s0: "daily_slots l0 = slots_per_day ds"
    using keep sl by simp
  from sel have tr: "traffic = \<lparr>ncols = length (traffic_data_index l0),
        rws = map (\<lambda>r. map (\<lambda>j. float32 (r ! j)) (traffic_data_index l0)) (selected_slots cfg ds)\<rparr>"
    unfolding s0 selected_slots_def
    by (auto simp: select_rows_cols_def split: if_splits)
  have len: "length (rws traffic) = length (selected_slots cfg ds)"
    by (subst tr) simp
  from split_m_Inr [OF sp] have
    "train0 = \<lparr>ncols = ncols traffic,
               rws = take (train_count cfg ds) (rws traffic)\<rparr>"
    by (simp add: train_count_def len)
  then have t0: "train0 = \<lparr>ncols = length (traffic_data_index l0),
        rws = map (\<lambda>r. map (\<lambda>j. float32 (r ! j)) (traffic_data_index l0))
                 (take (train_count cfg ds) (selected_slots cfg ds))\<rparr>"
    by (subst (asm) tr, subst (asm) tr) (simp add: take_map)
  show ?thesis
    unfolding keep td nz s0 t0
    by (simp add: normalize_step_train)
qed

lemma init_train_data_ncols:
  assumes "init cfg ds blocks = Inr l"
  shows "ncols (train_data l) = length (traffic_data_index l)"
proof -
  from init_train_data [OF assms] show ?thesis
    by (simp add: truncate_train_shape normalize_step_ncols)
qed

lemma ex_completes:
  assumes "time_fitness ds = 720" "2 \<le> length (rws (node_traffic ds))"
  shows "\<exists>l. init ex_cfg ds ex_blocks = Inr l"
proof (rule init_completes)
  show "\<exists>l. init_core ex_cfg ds ex_blocks = Inr l"
  proof (rule init_core_completes)
    show "time_fitness ds \<noteq> 0" using assms by simp
    show "arg_external_lstm_len ex_cfg = Some 1" by (simp add: ex_cfg_def)
    show "(0::int) < 1" by simp
    show "0 \<le> arg_closeness_len ex_cfg" "0 \<le> arg_period_len ex_cfg" "0 \<le> arg_trend_len ex_cfg"
      by (simp_all add: ex_cfg_def)
    show "\<not> (arg_closeness_len ex_cfg = 0 \<and> arg_period_len ex_cfg = 0 \<and> arg_trend_len ex_cfg = 0)"
      by (simp add: ex_cfg_def)
    show "assemble_external ex_blocks = Inr (Ext (hd ex_blocks), 1)"
      by (rule ex_assemble)
    show "0 \<le> arg_test_ratio ex_cfg" "arg_test_ratio ex_cfg \<le> 1"
      by (simp_all add: ex_cfg_def)
    show "2 \<le> length (py_slice
          (Some (fst (resolve_data_range (arg_data_range ex_cfg) (slots_per_day ds) (len_m (node_traffic ds)))))
          (Some (snd (resolve_data_range (arg_data_range ex_cfg) (slots_per_day ds) (len_m (node_traffic ds)))))
          (rws (node_traffic ds)))"
      using assms by (simp add: ex_cfg_def len_m_def py_slice_def slice_bound_def)
    show "2 \<le> len_m (hd ex_blocks)"
      by (simp add: ex_blocks_def len_m_def)
  qed
  show "\<not> arg_with_tpe ex_cfg" "\<not> arg_with_lm ex_cfg" by (simp_all add: ex_cfg_def)
qed

section \<open>Normalisation and the test partition\<close>

text \<open>
  Claim C4, as the code has it. With \<^verbatim>\<open>normalize=True\<close> the normalizer is built from
  the train partition alone and the same normalizer rescales the train and the test
  partition. Let two datasets have the same \<^verbatim>\<open>time_fitness\<close> and the same raw rows in
  the train partition of the selected range, so that they differ at most in other
  slots, and let both constructions keep the same nodes (the same
  \<open>traffic_data_index\<close>). Then both constructions have the same train data and the same
  normalizer.
\<close>

theorem normalizer_fitted_on_train_only:
  "normalize_step True train test =
      \<lparr>fitted = Some (Normalizer train),
       norm_train = min_max_normal (Normalizer train) train,
       norm_test = min_max_normal (Normalizer train) test\<rparr>
   \<and> (\<forall>cfg ds1 ds2 blocks1 blocks2 l1 l2.
        init cfg ds1 blocks1 = Inr l1 \<longrightarrow> init cfg ds2 blocks2 = Inr l2 \<longrightarrow>
        time_fitness ds1 = time_fitness ds2 \<longrightarrow>
        take (train_count cfg ds1) (selected_slots cfg ds1)
          = take (train_count cfg ds2) (selected_slots cfg ds2) \<longrightarrow>
        traffic_data_index l1 = traffic_data_index l2 \<longrightarrow>
        train_data l1 = train_data l2 \<and> normalizer l1 = normalizer l2)"
proof -
  have a: "normalize_step True train test =
      \<lparr>fitted = Some (Normalizer train),
       norm_train = min_max_normal (Normalizer train) train,
       norm_test = min_max_normal (Normalizer train) test\<rparr>"
    by (simp add: normalize_step_def Let_def)
  have b: "train_data l1 = train_data l2 \<and> normalizer l1 = normalizer l2"
    if h1: "init cfg ds1 blocks1 = Inr l1" and h2: "init cfg ds2 blocks2 = Inr l2"
      and tf: "time_fitness ds1 = time_fitness ds2"
      and tr: "take (train_count cfg ds1) (selected_slots cfg ds1)
                 = take (train_count cfg ds2) (selected_slots cfg ds2)"
      and ix: "traffic_data_index l1 = traffic_data_index l2"
    for cfg ds1 ds2 blocks1 blocks2 l1 l2
  proof -
    have sl: "slots_per_day ds1 = slots_per_day ds2"
      by (simp add: slots_per_day_def tf)
    from init_train_data [OF h1] init_train_data [OF h2] show ?thesis
      unfolding sl tr ix by simp
  qed
  from a b show ?thesis by blast
qed

theorem normalizer_fitted_on_train_only_witness:
  "\<exists>la lb. init ex_cfg ex_ds ex_blocks = Inr la \<and> init ex_cfg ex_ds_other_test ex_blocks = Inr lb
     \<and> arg_normalize ex_cfg
     \<and> node_traffic ex_ds \<noteq> node_traffic ex_ds_other_test
     \<and> take (train_count ex_cfg ex_ds) (selected_slots ex_cfg ex_ds)
          = take (train_count ex_cfg ex_ds_other_test) (selected_slots ex_cfg ex_ds_other_test)
     \<and> traffic_data_index la = traffic_data_index lb
     \<and> train_data la = train_data lb \<and> normalizer la = normalizer lb"
proof -
  obtain la where la: "init ex_cfg ex_ds ex_blocks = Inr la"
    using ex_init by blast
  have "\<exists>l. init ex_cfg ex_ds_other_test ex_blocks = Inr l"
    by (rule ex_completes) (simp_all add: ex_ds_other_test_def ex_ds_def)
  then obtain lb where lb: "init ex_cfg ex_ds_other_test ex_blocks = Inr lb"
    by blast
  have tf: "time_fitness ex_ds = time_fitness ex_ds_other_test"
    by (simp add: ex_ds_other_test_def)
  have tr: "take (train_count ex_cfg ex_ds) (selected_slots ex_cfg ex_ds)
          = take (train_count ex_cfg ex_ds_other_test) (selected_slots ex_cfg ex_ds_other_test)"
    by (simp add: train_count_def selected_slots_def ex_cfg_def ex_ds_def ex_ds_other_test_def
        len_m_def py_slice_def slice_bound_def py_round_def)
  have ia: "traffic_index (node_traffic ex_ds) (slots_per_day ex_ds) = [0]"
    by (simp only: ex_slots ex_index)
  have ib: "traffic_index (node_traffic ex_ds_other_test) (slots_per_day ex_ds_other_test) = [0]"
    by (simp only: ex_other_slots ex_other_index)
  from init_index [OF la] have sa: "daily_slots la = slots_per_day ex_ds"
    by (auto simp: daily_slots_of_def split: if_splits)
  from init_index [OF lb] have sb: "daily_slots lb = slots_per_day ex_ds_other_test"
    by (auto simp: daily_slots_of_def split: if_splits)
  from init_index [OF la] have "traffic_data_index la = traffic_index (node_traffic ex_ds) (daily_slots la)"
    by blast
  then have xa: "traffic_data_index la = [0]" unfolding sa ia .
  from init_index [OF lb]
  have "traffic_data_index lb = traffic_index (node_traffic ex_ds_other_test) (daily_slots lb)"
    by blast
  then have xb: "traffic_data_index lb = [0]" unfolding sb ib .
  have ix: "traffic_data_index la = traffic_data_index lb"
    using xa xb by simp
  have d: "node_traffic ex_ds \<noteq> node_traffic ex_ds_other_test"
    by (simp add: ex_ds_def ex_ds_other_test_def)
  from normalizer_fitted_on_train_only la lb tf tr ix
  have "train_data la = train_data lb \<and> normalizer la = normalizer lb"
    by blast
  with la lb tr ix d show ?thesis
    by (auto simp: ex_cfg_def)
qed

text \<open>
  The claim as it is written fails: \<open>ex_ds\<close> and \<open>ex_ds_late\<close> have the same eight
  train slots and differ only in the last slot, which belongs to the test partition.
  The second node is inactive in the first dataset and active in the second, because
  the activity filter averages over all slots; so the train data of the two
  constructions have one and two columns.
\<close>

theorem train_data_depends_on_test_slot:
  "\<exists>la lb. init ex_cfg ex_ds ex_blocks = Inr la \<and> init ex_cfg ex_ds_late ex_blocks = Inr lb
     \<and> arg_normalize ex_cfg
     \<and> time_fitness ex_ds = time_fitness ex_ds_late
     \<and> train_count ex_cfg ex_ds = 8 \<and> train_count ex_cfg ex_ds_late = 8
     \<and> take 9 (rws (node_traffic ex_ds)) = take 9 (rws (node_traffic ex_ds_late))
     \<and> length (rws (node_traffic ex_ds)) = 10 \<and> length (rws (node_traffic ex_ds_late)) = 10
     \<and> ncols (train_data la) = 1 \<and> ncols (train_data lb) = 2
     \<and> train_data la \<noteq> train_data lb"
proof -
  obtain la where la: "init ex_cfg ex_ds ex_blocks = Inr la"
    using ex_init by blast
  have "\<exists>l. init ex_cfg ex_ds_late ex_blocks = Inr l"
    by (rule ex_completes) (simp_all add: ex_ds_late_def ex_ds_def)
  then obtain lb where lb: "init ex_cfg ex_ds_late ex_blocks = Inr lb"
    by blast
  have ia: "traffic_index (node_traffic ex_ds) (slots_per_day ex_ds) = [0]"
    by (simp only: ex_slots ex_index)
  have ib: "traffic_index (node_traffic ex_ds_late) (slots_per_day ex_ds_late) = [0, 1]"
    by (simp only: ex_late_slots ex_late_index)
  from init_index [OF la] have sa: "daily_slots la = slots_per_day ex_ds"
    by (auto simp: daily_slots_of_def split: if_splits)
  from init_index [OF lb] have sb: "daily_slots lb = slots_per_day ex_ds_late"
    by (auto simp: daily_slots_of_def split: if_splits)
  from init_index [OF la] have "traffic_data_index la = traffic_index (node_traffic ex_ds) (daily_slots la)"
    by blast
  then have xa: "traffic_data_index la = [0]" unfolding sa ia .
  from init_index [OF lb]
  have "traffic_data_index lb = traffic_index (node_traffic ex_ds_late) (daily_slots lb)"
    by blast
  then have xb: "traffic_data_index lb = [0, 1]" unfolding sb ib .
  have na: "ncols (train_data la) = 1"
    using init_train_data_ncols [OF la] xa by simp
  have nb: "ncols (train_data lb) = 2"
    using init_train_data_ncols [OF lb] xb by simp
  have ne: "train_data la \<noteq> train_data lb"
    using na nb by auto
  have c: "train_count ex_cfg ex_ds = 8" "train_count ex_cfg ex_ds_late = 8"
    by (simp_all add: train_count_def selected_slots_def ex_cfg_def ex_ds_def ex_ds_late_def
        len_m_def py_slice_def slice_bound_def py_round_def)
  have r: "take 9 (rws (node_traffic ex_ds)) = take 9 (rws (node_traffic ex_ds_late))"
    "length (rws (node_traffic ex_ds)) = 10" "length (rws (node_traffic ex_ds_late)) = 10"
    "time_fitness ex_ds = time_fitness ex_ds_late"
    by (simp_all add: ex_ds_def ex_ds_late_def)
  from la lb na nb ne c r show ?thesis
    by (auto simp: ex_cfg_def)
qed

lemma init_core_stages:
  assumes "init_core cfg ds blocks = Inr l"
  shows "\<exists>traffic ext d train0 test0 ef0 tef0 test1 tef1 wc wp wt wy vc vp vt vy x.
           select_rows_cols (node_traffic ds)
                (fst (resolve_data_range (arg_data_range cfg) (daily_slots l) (len_m (node_traffic ds))))
                (snd (resolve_data_range (arg_data_range cfg) (daily_slots l) (len_m (node_traffic ds))))
                (traffic_data_index l) = Inr traffic
         \<and> assemble_external blocks = Inr (ext, d)
         \<and> split_m traffic [1 - arg_test_ratio cfg, arg_test_ratio cfg] = Inr (train0, test0)
         \<and> split_e ext [1 - arg_test_ratio cfg, arg_test_ratio cfg] = Inr (ef0, tef0)
         \<and> train_data l = fst (truncate_train (arg_train_data_length cfg) (daily_slots l)
                                (norm_train (normalize_step (arg_normalize cfg) train0 test0)) ef0)
         \<and> expand_test (expand_count (daily_slots l) (arg_closeness_len cfg) (arg_period_len cfg)
                           (arg_trend_len cfg))
              (train_data l) (norm_test (normalize_step (arg_normalize cfg) train0 test0))
              (snd (truncate_train (arg_train_data_length cfg) (daily_slots l)
                                (norm_train (normalize_step (arg_normalize cfg) train0 test0)) ef0))
              tef0 = Inr (test1, tef1)
         \<and> test_data l = test1
         \<and> move_sample (ST_MoveSample (arg_closeness_len cfg) (arg_period_len cfg)
                          (arg_trend_len cfg) 1 (daily_slots l)) (train_data l)
               = Inr (wc, wp, wt, wy)
         \<and> move_sample (ST_MoveSample (arg_closeness_len cfg) (arg_period_len cfg)
                          (arg_trend_len cfg) 1 (daily_slots l)) test1
               = Inr (vc, vp, vt, vy)
         \<and> train_closeness l = wc \<and> train_period l = wp \<and> train_trend l = wt \<and> train_y l = wy
         \<and> test_closeness l = vc \<and> test_period l = vp \<and> test_trend l = vt \<and> test_y l = vy
         \<and> train_sequence_len l = max (length wc) (max (length wp) (length wt))
         \<and> test_sequence_len l = max (length vc) (max (length vp) (length vt))
         \<and> external_step ext (arg_closeness_len cfg) (arg_period_len cfg) (arg_trend_len cfg)
              (external_lstm_len l) (arg_target_length cfg) (daily_slots l)
              (train_sequence_len l) (test_sequence_len l)
              (snd (truncate_train (arg_train_data_length cfg) (daily_slots l)
                                (norm_train (normalize_step (arg_normalize cfg) train0 test0)) ef0))
              tef1 = Inr x
         \<and> train_ef l = r_train_ef x \<and> test_ef l = r_test_ef x
         \<and> closeness_len l = arg_closeness_len cfg \<and> period_len l = arg_period_len cfg
         \<and> trend_len l = arg_trend_len cfg
         \<and> 0 \<le> arg_closeness_len cfg \<and> 0 \<le> arg_period_len cfg \<and> 0 \<le> arg_trend_len cfg
         \<and> station_number l = ncols traffic \<and> traffic_data l = traffic \<and> dataset l = ds
         \<and> train_test_ratio l = [1 - arg_test_ratio cfg, arg_test_ratio cfg]"
  using assms
  apply (clarsimp simp: init_core_def thenE_Inr_iff Let_def int_of_arg_def
      split: if_splits prod.splits option.splits)
  apply blast?
  done


lemma py_slice_length_cong:
  "length xs = length ys \<Longrightarrow> length (py_slice lo hi xs) = length (py_slice lo hi ys)"
  by (simp add: py_slice_def Let_def)



lemma min_max_normal_len: "length (rws (min_max_normal nz m)) = length (rws m)"
  by (simp add: min_max_normal_def)

lemma normalize_step_len:
  "length (rws (norm_train (normalize_step f a b))) = length (rws a)
   \<and> length (rws (norm_test (normalize_step f a b))) = length (rws b)"
  by (simp add: normalize_step_def Let_def min_max_normal_len)

lemma truncate_train_len:
  assumes "length (rws a) = length (rws e)"
  shows "\<exists>e'. snd (truncate_train len slots a (Ext e)) = Ext e'
            \<and> length (rws (fst (truncate_train len slots a (Ext e)))) = length (rws e')
            \<and> ncols e' = ncols e"
  using assms
  by (cases len) (auto simp: slice_m_def intro: py_slice_length_cong)





lemma init_stages:
  assumes "init cfg ds blocks = Inr l"
  shows "\<exists>train0 test0 ext d ef0 tef0 tef1 x.
           split_m (traffic_data l) [1 - arg_test_ratio cfg, arg_test_ratio cfg] = Inr (train0, test0)
         \<and> assemble_external blocks = Inr (ext, d)
         \<and> split_e ext [1 - arg_test_ratio cfg, arg_test_ratio cfg] = Inr (ef0, tef0)
         \<and> train_data l = fst (truncate_train (arg_train_data_length cfg) (slots_per_day ds)
                                (norm_train (normalize_step (arg_normalize cfg) train0 test0)) ef0)
         \<and> expand_test (expand_count (slots_per_day ds) (arg_closeness_len cfg) (arg_period_len cfg)
                           (arg_trend_len cfg))
              (train_data l) (norm_test (normalize_step (arg_normalize cfg) train0 test0))
              (snd (truncate_train (arg_train_data_length cfg) (slots_per_day ds)
                                (norm_train (normalize_step (arg_normalize cfg) train0 test0)) ef0))
              tef0 = Inr (test_data l, tef1)
         \<and> external_step ext (arg_closeness_len cfg) (arg_period_len cfg) (arg_trend_len cfg)
              (external_lstm_len l) (arg_target_length cfg) (slots_per_day ds)
              (train_sequence_len l) (test_sequence_len l)
              (snd (truncate_train (arg_train_data_length cfg) (slots_per_day ds)
                                (norm_train (normalize_step (arg_normalize cfg) train0 test0)) ef0))
              tef1 = Inr x
         \<and> train_ef l = r_train_ef x \<and> test_ef l = r_test_ef x
         \<and> 0 \<le> arg_closeness_len cfg \<and> 0 \<le> arg_period_len cfg \<and> 0 \<le> arg_trend_len cfg"
proof -
  from assms obtain l0 l1 where c: "init_core cfg ds blocks = Inr l0"
    and t: "tpe_step cfg l0 = Inr l1" and m: "lm_step cfg l1 = Inr l"
    by (rule init_Inr_steps)
  from tpe_step_keeps [OF t] lm_step_keeps [OF m]
  have keep: "traffic_data l = traffic_data l0" "train_data l = train_data l0"
    "test_data l = test_data l0" "train_ef l = train_ef l0" "test_ef l = test_ef l0"
    "external_lstm_len l = external_lstm_len l0"
    "train_sequence_len l = train_sequence_len l0" "test_sequence_len l = test_sequence_len l0"
    by simp_all
  from init_core_index [OF c] have sl: "daily_slots l0 = slots_per_day ds"
    by (auto simp: daily_slots_of_def split: if_splits)
  from init_core_stages [OF c]
  obtain traffic ext d train0 test0 ef0 tef0 test1 tef1 x where
    "assemble_external blocks = Inr (ext, d)"
    "split_m traffic [1 - arg_test_ratio cfg, arg_test_ratio cfg] = Inr (train0, test0)"
    "split_e ext [1 - arg_test_ratio cfg, arg_test_ratio cfg] = Inr (ef0, tef0)"
    "train_data l0 = fst (truncate_train (arg_train_data_length cfg) (daily_slots l0)
                                (norm_train (normalize_step (arg_normalize cfg) train0 test0)) ef0)"
    "expand_test (expand_count (daily_slots l0) (arg_closeness_len cfg) (arg_period_len cfg)
                           (arg_trend_len cfg))
              (train_data l0) (norm_test (normalize_step (arg_normalize cfg) train0 test0))
              (snd (truncate_train (arg_train_data_length cfg) (daily_slots l0)
                                (norm_train (normalize_step (arg_normalize cfg) train0 test0)) ef0))
              tef0 = Inr (test1, tef1)"
    "test_data l0 = test1"
    "external_step ext (arg_closeness_len cfg) (arg_period_len cfg) (arg_trend_len cfg)
              (external_lstm_len l0) (arg_target_length cfg) (daily_slots l0)
              (train_sequence_len l0) (test_sequence_len l0)
              (snd (truncate_train (arg_train_data_length cfg) (daily_slots l0)
                                (norm_train (normalize_step (arg_normalize cfg) train0 test0)) ef0))
              tef1 = Inr x"
    "train_ef l0 = r_train_ef x" "test_ef l0 = r_test_ef x"
    "0 \<le> arg_closeness_len cfg" "0 \<le> arg_period_len cfg" "0 \<le> arg_trend_len cfg"
    "traffic_data l0 = traffic"
    by blast
  then show ?thesis
    unfolding keep sl by blast
qed

lemma expand_test_rows:
  assumes "expand_test k a b (Ext e) (Ext f) = Inr (u, v)"
      and "k \<le> int (len_m a)" "len_m e = len_m a"
  shows "u = \<lparr>ncols = ncols a, rws = last_rows (nat k) (rws a) @ rws b\<rparr>
       \<and> v = Ext \<lparr>ncols = ncols e, rws = last_rows (nat k) (rws e) @ rws f\<rparr>"
proof -
  have t: "py_slice (Some (int (length (rws a)) - k)) None (rws a) = last_rows (nat k) (rws a)"
    using assms(2) by (simp add: py_slice_last_rows len_m_def)
  have "k \<le> int (length (rws e))"
    using assms(2,3) by (simp add: len_m_def)
  then have "py_slice (Some (int (length (rws e)) - k)) None (rws e) = last_rows (nat k) (rws e)"
    by (rule py_slice_last_rows)
  then have e: "py_slice (Some (int (length (rws a)) - k)) None (rws e) = last_rows (nat k) (rws e)"
    using assms(3) by (simp add: len_m_def)
  from assms(1) show ?thesis
    by (auto simp: expand_test_def vstack_m_def vstack_e_def slice_m_def len_m_def thenE_Inr_iff
        Let_def t e split: if_splits)
qed

lemma py_int_of_int: "py_int (of_int z) = z"
  by (simp add: py_int_def)

lemma expand_count_whole:
  assumes "0 \<le> n" "0 \<le> p" "0 \<le> t" "n * p < 2 ^ 53" "n * 7 * t < 2 ^ 53"
  shows "of_int (expand_count (of_int n) c p t) = max_lookback (ST_MoveSample c p t g (of_int n))"
proof -
  have "\<bar>n * p\<bar> < 2 ^ 53" using assms by simp
  then have "float64 (of_int (n * p)) = of_int (n * p)"
    by (rule float64_int)
  then have a: "py_int (float64 (of_int n * of_int p)) = n * p"
    using py_int_of_int [of "n * p"] by simp
  have b: "py_int (float64 (float64 (of_int n * 7) * of_int t)) = n * 7 * t"
  proof (cases "t = 0")
    case True
    then show ?thesis by (simp add: float64_0 py_int_def)
  next
    case False
    with assms(3) have t1: "1 \<le> t" by simp
    have "n * 7 * 1 \<le> n * 7 * t"
      using assms(1) t1 by (intro mult_left_mono) simp_all
    with assms(5) have "\<bar>n * 7\<bar> < 2 ^ 53" using assms(1) by simp
    then have "float64 (of_int (n * 7)) = of_int (n * 7)"
      by (rule float64_int)
    then have s: "float64 (of_int n * 7) = of_int (n * 7)" by simp
    have "\<bar>n * 7 * t\<bar> < 2 ^ 53" using assms by simp
    then have "float64 (of_int (n * 7 * t)) = of_int (n * 7 * t)"
      by (rule float64_int)
    then have "float64 (of_int (n * 7) * of_int t) = of_int (n * 7 * t)" by simp
    then show ?thesis
      unfolding s by (simp only: py_int_of_int)
  qed
  have "of_int (expand_count (of_int n) c p t)
          = (of_int (max (n * p) (max (n * 7 * t) c)) :: real)"
    unfolding expand_count_def a b ..
  also have "\<dots> = max (of_int (n * p)) (max (of_int (n * 7 * t)) (of_int c))"
    by (simp only: of_int_max)
  also have "\<dots> = max (of_int c) (max (of_int (n * p)) (of_int (n * 7 * t)))"
    by (simp only: max.commute max.left_commute)
  also have "\<dots> = max (of_int c) (max (of_int p * of_int n) (of_int t * 7 * of_int n))"
    by (simp add: mult.commute mult.left_commute)
  finally show ?thesis
    by (simp add: max_lookback_def ST_MoveSample_def)
qed

lemma expand_count_nonneg: "0 \<le> c \<Longrightarrow> 0 \<le> expand_count slots c p t"
  by (simp add: expand_count_def max_def)

lemma length_last_rows: "k \<le> length xs \<Longrightarrow> length (last_rows k xs) = k"
  by (simp add: last_rows_def)

lemma init_expansion:
  assumes i: "init cfg ds blocks = Inr l"
      and ext: "assemble_external blocks = Inr (Ext m, d)"
      and al: "len_m m = length (selected_slots cfg ds)"
      and enough: "expand_count (slots_per_day ds) (arg_closeness_len cfg) (arg_period_len cfg)
                      (arg_trend_len cfg) \<le> int (len_m (train_data l))"
  shows "\<exists>train0 test0 e0 f0 e1 x.
           split_m (traffic_data l) [1 - arg_test_ratio cfg, arg_test_ratio cfg] = Inr (train0, test0)
         \<and> split_m m [1 - arg_test_ratio cfg, arg_test_ratio cfg] = Inr (e0, f0)
         \<and> train_data l = fst (truncate_train (arg_train_data_length cfg) (slots_per_day ds)
                                (norm_train (normalize_step (arg_normalize cfg) train0 test0)) (Ext e0))
         \<and> snd (truncate_train (arg_train_data_length cfg) (slots_per_day ds)
                                (norm_train (normalize_step (arg_normalize cfg) train0 test0)) (Ext e0))
              = Ext e1
         \<and> len_m e1 = len_m (train_data l)
         \<and> test_data l =
              \<lparr>ncols = ncols (train_data l),
               rws = last_rows (nat (expand_count (slots_per_day ds) (arg_closeness_len cfg)
                                       (arg_period_len cfg) (arg_trend_len cfg)))
                       (rws (train_data l))
                     @ rws (norm_test (normalize_step (arg_normalize cfg) train0 test0))\<rparr>
         \<and> len_m (test_data l) =
              len_m test0 + nat (expand_count (slots_per_day ds) (arg_closeness_len cfg)
                                   (arg_period_len cfg) (arg_trend_len cfg))
         \<and> external_step (Ext m) (arg_closeness_len cfg) (arg_period_len cfg) (arg_trend_len cfg)
              (external_lstm_len l) (arg_target_length cfg) (slots_per_day ds)
              (train_sequence_len l) (test_sequence_len l) (Ext e1)
              (Ext \<lparr>ncols = ncols e1,
                    rws = last_rows (nat (expand_count (slots_per_day ds) (arg_closeness_len cfg)
                                            (arg_period_len cfg) (arg_trend_len cfg)))
                            (rws e1)
                          @ rws f0\<rparr>) = Inr x
         \<and> train_ef l = r_train_ef x \<and> test_ef l = r_test_ef x"
proof -
  let ?r = "arg_test_ratio cfg"
  let ?k = "expand_count (slots_per_day ds) (arg_closeness_len cfg) (arg_period_len cfg)
              (arg_trend_len cfg)"
  from init_stages [OF i]
  obtain train0 test0 ext' d' ef0 tef0 tef1 x where
    sp: "split_m (traffic_data l) [1 - ?r, ?r] = Inr (train0, test0)"
    and as: "assemble_external blocks = Inr (ext', d')"
    and spe': "split_e ext' [1 - ?r, ?r] = Inr (ef0, tef0)"
    and td: "train_data l = fst (truncate_train (arg_train_data_length cfg) (slots_per_day ds)
                                (norm_train (normalize_step (arg_normalize cfg) train0 test0)) ef0)"
    and ex': "expand_test ?k
              (train_data l) (norm_test (normalize_step (arg_normalize cfg) train0 test0))
              (snd (truncate_train (arg_train_data_length cfg) (slots_per_day ds)
                                (norm_train (normalize_step (arg_normalize cfg) train0 test0)) ef0))
              tef0 = Inr (test_data l, tef1)"
    and xs': "external_step ext' (arg_closeness_len cfg) (arg_period_len cfg) (arg_trend_len cfg)
              (external_lstm_len l) (arg_target_length cfg) (slots_per_day ds)
              (train_sequence_len l) (test_sequence_len l)
              (snd (truncate_train (arg_train_data_length cfg) (slots_per_day ds)
                                (norm_train (normalize_step (arg_normalize cfg) train0 test0)) ef0))
              tef1 = Inr x"
    and ef: "train_ef l = r_train_ef x" "test_ef l = r_test_ef x"
    and nn: "0 \<le> arg_closeness_len cfg"
    by blast
  from as ext have ee: "ext' = Ext m" by simp
  from spe' obtain e0 f0 where e12: "ef0 = Ext e0" "tef0 = Ext f0"
    and spm: "split_m m [1 - ?r, ?r] = Inr (e0, f0)"
    unfolding ee by (auto simp: thenE_Inr_iff)
  from init_traffic_data [OF i] have "length (rws (traffic_data l)) = length (selected_slots cfg ds)"
    by (metis (no_types, lifting) length_map matrix.select_convs(2))
  with al have lm: "length (rws m) = length (rws (traffic_data l))"
    by (simp add: len_m_def)
  from split_m_Inr [OF sp] split_m_Inr [OF spm] lm
  have l0: "length (rws train0) = length (rws e0)" "length (rws test0) = length (rws f0)"
    by simp_all
  let ?nt = "norm_train (normalize_step (arg_normalize cfg) train0 test0)"
  let ?ns = "norm_test (normalize_step (arg_normalize cfg) train0 test0)"
  have "length (rws ?nt) = length (rws e0)"
    using l0 by (simp add: normalize_step_len)
  from truncate_train_len [OF this, of "arg_train_data_length cfg" "slots_per_day ds"]
  obtain e1 where cut: "snd (truncate_train (arg_train_data_length cfg) (slots_per_day ds) ?nt (Ext e0)) = Ext e1"
    and l1: "length (rws (train_data l)) = length (rws e1)"
    unfolding td e12 by blast
  have le: "len_m e1 = len_m (train_data l)"
    using l1 by (simp add: len_m_def)
  from ex' have ex: "expand_test ?k (train_data l) ?ns (Ext e1) (Ext f0) = Inr (test_data l, tef1)"
    unfolding e12 cut .
  from expand_test_rows [OF ex enough le]
  have u: "test_data l = \<lparr>ncols = ncols (train_data l),
                          rws = last_rows (nat ?k) (rws (train_data l)) @ rws ?ns\<rparr>"
    and v: "tef1 = Ext \<lparr>ncols = ncols e1, rws = last_rows (nat ?k) (rws e1) @ rws f0\<rparr>"
    by simp_all
  have k0: "0 \<le> ?k" using nn by (rule expand_count_nonneg)
  with enough have "nat ?k \<le> length (rws (train_data l))"
    by (simp add: len_m_def)
  then have "length (last_rows (nat ?k) (rws (train_data l))) = nat ?k"
    by (rule length_last_rows)
  moreover have "length (rws ?ns) = length (rws test0)"
    by (simp add: normalize_step_len)
  ultimately have "length (last_rows (nat ?k) (rws (train_data l)) @ rws ?ns)
                     = length (rws test0) + nat ?k"
    by simp
  then have len: "len_m (test_data l) = len_m test0 + nat ?k"
    by (subst u) (simp add: len_m_def)
  from xs' have xs: "external_step (Ext m) (arg_closeness_len cfg) (arg_period_len cfg)
              (arg_trend_len cfg) (external_lstm_len l) (arg_target_length cfg) (slots_per_day ds)
              (train_sequence_len l) (test_sequence_len l) (Ext e1)
              (Ext \<lparr>ncols = ncols e1, rws = last_rows (nat ?k) (rws e1) @ rws f0\<rparr>) = Inr x"
    unfolding ee e12 cut v .
  from td have td': "train_data l = fst (truncate_train (arg_train_data_length cfg) (slots_per_day ds)
                                ?nt (Ext e0))"
    unfolding e12 .
  from sp spm td' cut le u len xs ef show ?thesis by blast
qed

lemma init_traffic_len:
  assumes "init cfg ds blocks = Inr l"
  shows "length (rws (traffic_data l)) = length (selected_slots cfg ds)"
proof -
  from init_traffic_data [OF assms]
  have "traffic_data l = \<lparr>ncols = length (traffic_data_index l),
            rws = map (\<lambda>r. map (\<lambda>j. float32 (r ! j)) (traffic_data_index l)) (selected_slots cfg ds)\<rparr>"
    by blast
  then show ?thesis
    by (rule ssubst) simp
qed

lemma init_train_len_all:
  assumes "init cfg ds blocks = Inr l" "arg_train_data_length cfg = Length_all"
  shows "len_m (train_data l) = min (train_count cfg ds) (length (selected_slots cfg ds))"
proof -
  from init_train_data [OF assms(1)]
  have "train_data l =
           fst (truncate_train (arg_train_data_length cfg) (slots_per_day ds)
                 (norm_train (normalize_step (arg_normalize cfg)
                    \<lparr>ncols = length (traffic_data_index l),
                     rws = map (\<lambda>r. map (\<lambda>j. float32 (r ! j)) (traffic_data_index l))
                              (take (train_count cfg ds) (selected_slots cfg ds))\<rparr>
                    \<lparr>ncols = 0, rws = []\<rparr>)) NoExt)"
    by blast
  then show ?thesis
    unfolding assms(2) by (simp add: len_m_def normalize_step_len min.commute)
qed

lemma range_all_completes:
  assumes "time_fitness ds \<noteq> 0" "2 \<le> length (rws (node_traffic ds))"
      and "assemble_external blocks = Inr (Ext m, d)" "2 \<le> len_m m"
      and "arg_data_range cfg = Range_all" "arg_external_lstm_len cfg = Some k" "0 < k"
      and "0 \<le> arg_closeness_len cfg" "0 \<le> arg_period_len cfg" "0 \<le> arg_trend_len cfg"
      and "\<not> (arg_closeness_len cfg = 0 \<and> arg_period_len cfg = 0 \<and> arg_trend_len cfg = 0)"
      and "0 \<le> arg_test_ratio cfg" "arg_test_ratio cfg \<le> 1"
      and "\<not> arg_with_tpe cfg" "\<not> arg_with_lm cfg"
  shows "\<exists>l. init cfg ds blocks = Inr l"
proof (rule init_completes)
  show "\<exists>l. init_core cfg ds blocks = Inr l"
  proof (rule init_core_completes)
    show "2 \<le> length (py_slice
          (Some (fst (resolve_data_range (arg_data_range cfg) (slots_per_day ds) (len_m (node_traffic ds)))))
          (Some (snd (resolve_data_range (arg_data_range cfg) (slots_per_day ds) (len_m (node_traffic ds)))))
          (rws (node_traffic ds)))"
      using assms(2) unfolding assms(5) by (simp add: len_m_def py_slice_def slice_bound_def)
  qed (rule assms)+
qed (rule assms)+

lemma selected_slots_all:
  "arg_data_range cfg = Range_all \<Longrightarrow> selected_slots cfg ds = rws (node_traffic ds)"
  by (simp add: selected_slots_def len_m_def py_slice_def slice_bound_def)

section \<open>Expansion of the test partition\<close>

text \<open>
  Claim C1, as the code has it. Let a construction complete, with an external feature
  array that has one row for every selected traffic slot, and let the train partition,
  after the optional truncation, have at least \<open>k\<close> rows, where
  \<open>k = max(int(daily_slots * period_len), int(daily_slots * 7 * trend_len),
  closeness_len)\<close> with float products. Then the test partition of the traffic data that
  the loader holds is the last \<open>k\<close> rows of its train partition followed by the test
  partition as it was after the normalisation, so it has \<open>k\<close> rows more; and the external
  step of lines 281 to 311 receives the last \<open>k\<close> rows of the train partition of the
  external features followed by their test partition. When \<^verbatim>\<open>daily_slots\<close> is a whole
  number \<open>n\<close> (with \<open>n * period_len\<close> and \<open>n * 7 * trend_len\<close> below \<open>2\<^sup>5\<^sup>3\<close>), \<open>k\<close> is
  the \<open>max_lookback\<close> of the sampler that the loader builds for the traffic data.
\<close>

theorem test_partition_borrows_lookback:
  assumes "init cfg ds blocks = Inr l"
      and "assemble_external blocks = Inr (Ext m, d)"
      and "len_m m = length (selected_slots cfg ds)"
      and "expand_count (slots_per_day ds) (arg_closeness_len cfg) (arg_period_len cfg)
                      (arg_trend_len cfg) \<le> int (len_m (train_data l))"
  shows "(\<exists>train0 test0 e0 f0 e1 x.
           split_m (traffic_data l) [1 - arg_test_ratio cfg, arg_test_ratio cfg] = Inr (train0, test0)
         \<and> split_m m [1 - arg_test_ratio cfg, arg_test_ratio cfg] = Inr (e0, f0)
         \<and> train_data l = fst (truncate_train (arg_train_data_length cfg) (slots_per_day ds)
                                (norm_train (normalize_step (arg_normalize cfg) train0 test0)) (Ext e0))
         \<and> snd (truncate_train (arg_train_data_length cfg) (slots_per_day ds)
                                (norm_train (normalize_step (arg_normalize cfg) train0 test0)) (Ext e0))
              = Ext e1
         \<and> len_m e1 = len_m (train_data l)
         \<and> test_data l =
              \<lparr>ncols = ncols (train_data l),
               rws = last_rows (nat (expand_count (slots_per_day ds) (arg_closeness_len cfg)
                                       (arg_period_len cfg) (arg_trend_len cfg)))
                       (rws (train_data l))
                     @ rws (norm_test (normalize_step (arg_normalize cfg) train0 test0))\<rparr>
         \<and> len_m (test_data l) =
              len_m test0 + nat (expand_count (slots_per_day ds) (arg_closeness_len cfg)
                                   (arg_period_len cfg) (arg_trend_len cfg))
         \<and> external_step (Ext m) (arg_closeness_len cfg) (arg_period_len cfg) (arg_trend_len cfg)
              (external_lstm_len l) (arg_target_length cfg) (slots_per_day ds)
              (train_sequence_len l) (test_sequence_len l) (Ext e1)
              (Ext \<lparr>ncols = ncols e1,
                    rws = last_rows (nat (expand_count (slots_per_day ds) (arg_closeness_len cfg)
                                            (arg_period_len cfg) (arg_trend_len cfg)))
                            (rws e1)
                          @ rws f0\<rparr>) = Inr x
         \<and> train_ef l = r_train_ef x \<and> test_ef l = r_test_ef x)
       \<and> (\<forall>n. slots_per_day ds = of_int n \<and> 0 \<le> n
                \<and> n * arg_period_len cfg < 2 ^ 53 \<and> n * 7 * arg_trend_len cfg < 2 ^ 53 \<longrightarrow>
              of_int (expand_count (slots_per_day ds) (arg_closeness_len cfg) (arg_period_len cfg)
                        (arg_trend_len cfg))
                = max_lookback (ST_MoveSample (arg_closeness_len cfg) (arg_period_len cfg)
                                  (arg_trend_len cfg) 1 (slots_per_day ds)))"
proof -
  from init_stages [OF assms(1)]
  have nn: "0 \<le> arg_period_len cfg" "0 \<le> arg_trend_len cfg"
    by blast+
  have w: "of_int (expand_count (slots_per_day ds) (arg_closeness_len cfg) (arg_period_len cfg)
                        (arg_trend_len cfg))
                = max_lookback (ST_MoveSample (arg_closeness_len cfg) (arg_period_len cfg)
                                  (arg_trend_len cfg) 1 (slots_per_day ds))"
    if "slots_per_day ds = of_int n" "0 \<le> n" "n * arg_period_len cfg < 2 ^ 53"
      "n * 7 * arg_trend_len cfg < 2 ^ 53" for n
    unfolding that(1) using that(2) nn that(3,4) by (rule expand_count_whole)
  from init_expansion [OF assms] w show ?thesis by blast
qed

theorem test_partition_borrows_lookback_witness:
  "\<exists>l test0. init ex_cfg ex_ds ex_blocks = Inr l
     \<and> expand_count (slots_per_day ex_ds) (arg_closeness_len ex_cfg) (arg_period_len ex_cfg)
          (arg_trend_len ex_cfg) = 2
     \<and> max_lookback (ST_MoveSample (arg_closeness_len ex_cfg) (arg_period_len ex_cfg)
          (arg_trend_len ex_cfg) 1 (slots_per_day ex_ds)) = 2
     \<and> len_m (train_data l) = 8 \<and> len_m test0 = 2
     \<and> rws (test_data l) = last_rows 2 (rws (train_data l)) @ rws test0
     \<and> len_m (test_data l) = 4"
proof -
  obtain l where l: "init ex_cfg ex_ds ex_blocks = Inr l"
    using ex_init by blast
  have ra: "arg_data_range ex_cfg = Range_all" and la: "arg_train_data_length ex_cfg = Length_all"
    by (simp_all add: ex_cfg_def)
  have sel: "length (selected_slots ex_cfg ex_ds) = 10"
    by (simp add: selected_slots_all [OF ra] ex_ds_def)
  have tc: "train_count ex_cfg ex_ds = 8"
    unfolding train_count_def sel by (simp add: ex_cfg_def py_round_def)
  have tl: "len_m (train_data l) = 8"
    using init_train_len_all [OF l la] by (simp add: sel tc)
  have k: "expand_count (slots_per_day ex_ds) (arg_closeness_len ex_cfg) (arg_period_len ex_cfg)
          (arg_trend_len ex_cfg) = 2"
    by (simp add: ex_slots ex_cfg_def expand_count_def py_int_def float64_numeral float64_0)
  have ml: "max_lookback (ST_MoveSample (arg_closeness_len ex_cfg) (arg_period_len ex_cfg)
          (arg_trend_len ex_cfg) 1 (slots_per_day ex_ds)) = 2"
    by (simp add: ex_slots ex_cfg_def max_lookback_def ST_MoveSample_def)
  have al: "len_m (hd ex_blocks) = length (selected_slots ex_cfg ex_ds)"
    by (simp add: sel ex_blocks_def len_m_def)
  have en: "expand_count (slots_per_day ex_ds) (arg_closeness_len ex_cfg) (arg_period_len ex_cfg)
                      (arg_trend_len ex_cfg) \<le> int (len_m (train_data l))"
    by (simp add: k tl)
  from test_partition_borrows_lookback [OF l ex_assemble al en]
  obtain train0 test0 where
    sp: "split_m (traffic_data l) [1 - arg_test_ratio ex_cfg, arg_test_ratio ex_cfg] = Inr (train0, test0)"
    and td: "test_data l =
              \<lparr>ncols = ncols (train_data l),
               rws = last_rows (nat (expand_count (slots_per_day ex_ds) (arg_closeness_len ex_cfg)
                                       (arg_period_len ex_cfg) (arg_trend_len ex_cfg)))
                       (rws (train_data l))
                     @ rws (norm_test (normalize_step (arg_normalize ex_cfg) train0 test0))\<rparr>"
    and ln: "len_m (test_data l) =
              len_m test0 + nat (expand_count (slots_per_day ex_ds) (arg_closeness_len ex_cfg)
                                   (arg_period_len ex_cfg) (arg_trend_len ex_cfg))"
    by blast
  have "length (rws (traffic_data l)) = 10"
    using init_traffic_len [OF l] unfolding sel .
  with split_m_Inr [OF sp] have t0: "len_m test0 = 2"
    by (simp add: len_m_def ex_cfg_def py_round_def)
  let ?t = "norm_test (normalize_step (arg_normalize ex_cfg) train0 test0)"
  have t1: "len_m ?t = 2"
    using t0 by (simp add: len_m_def normalize_step_len)
  have r: "rws (test_data l) = last_rows 2 (rws (train_data l)) @ rws ?t"
    by (subst td) (simp add: k)
  have n: "len_m (test_data l) = 4"
    using ln by (simp add: t0 k)
  from l k ml tl t1 r n show ?thesis by blast
qed

lemma ex_960_slots: "slots_per_day ex_ds_960 = 3 / 2"
  using float64_dyadic [of 3 1] by (simp add: slots_per_day_def ex_ds_960_def ex_ds_def)

text \<open>
  The claim as it is written fails when the slots of a day are not a whole number: with
  960 minutes in a slot \<^verbatim>\<open>daily_slots\<close> is 1.5, and with \<^verbatim>\<open>period_len = 3\<close> the claim's
  \<open>max_lookback\<close> is 4.5. The train partition has 8 rows and the test partition 2; the
  loader borrows \<open>int(4.5) = 4\<close> rows, so that the expanded test partition has 6 rows.
\<close>

theorem expansion_truncates_lookback:
  "\<exists>l. init ex_cfg_period3 ex_ds_960 ex_blocks = Inr l
     \<and> max_lookback (ST_MoveSample (arg_closeness_len ex_cfg_period3) (arg_period_len ex_cfg_period3)
          (arg_trend_len ex_cfg_period3) 1 (slots_per_day ex_ds_960)) = 9 / 2
     \<and> len_m (train_data l) = 8
     \<and> length (selected_slots ex_cfg_period3 ex_ds_960) - train_count ex_cfg_period3 ex_ds_960 = 2
     \<and> len_m (test_data l) = 6
     \<and> real (len_m (test_data l))
          \<noteq> 2 + max_lookback (ST_MoveSample (arg_closeness_len ex_cfg_period3)
                   (arg_period_len ex_cfg_period3) (arg_trend_len ex_cfg_period3) 1
                   (slots_per_day ex_ds_960))"
proof -
  have "\<exists>l. init ex_cfg_period3 ex_ds_960 ex_blocks = Inr l"
    by (rule range_all_completes [OF _ _ ex_assemble, where k = 1])
       (simp_all add: ex_cfg_period3_def ex_cfg_def ex_ds_960_def ex_ds_def ex_blocks_def len_m_def)
  then obtain l where l: "init ex_cfg_period3 ex_ds_960 ex_blocks = Inr l"
    by blast
  have ra: "arg_data_range ex_cfg_period3 = Range_all"
    and la: "arg_train_data_length ex_cfg_period3 = Length_all"
    by (simp_all add: ex_cfg_period3_def ex_cfg_def)
  have sel: "length (selected_slots ex_cfg_period3 ex_ds_960) = 10"
    by (simp add: selected_slots_all [OF ra] ex_ds_960_def ex_ds_def)
  have tc: "train_count ex_cfg_period3 ex_ds_960 = 8"
    unfolding train_count_def sel by (simp add: ex_cfg_period3_def ex_cfg_def py_round_def)
  have tl: "len_m (train_data l) = 8"
    using init_train_len_all [OF l la] by (simp add: sel tc)
  have f1: "float64 (9 / 2) = 9 / 2"
    using float64_dyadic [of 9 1] by simp
  have f2: "float64 (21 / 2) = 21 / 2"
    using float64_dyadic [of 21 1] by simp
  have k: "expand_count (slots_per_day ex_ds_960) (arg_closeness_len ex_cfg_period3)
          (arg_period_len ex_cfg_period3) (arg_trend_len ex_cfg_period3) = 4"
    by (simp add: ex_960_slots ex_cfg_period3_def ex_cfg_def expand_count_def py_int_def
        f1 f2 float64_0)
  have ml: "max_lookback (ST_MoveSample (arg_closeness_len ex_cfg_period3) (arg_period_len ex_cfg_period3)
          (arg_trend_len ex_cfg_period3) 1 (slots_per_day ex_ds_960)) = 9 / 2"
    by (simp add: ex_960_slots ex_cfg_period3_def ex_cfg_def max_lookback_def ST_MoveSample_def)
  have al: "len_m (hd ex_blocks) = length (selected_slots ex_cfg_period3 ex_ds_960)"
    by (simp add: sel ex_blocks_def len_m_def)
  have en: "expand_count (slots_per_day ex_ds_960) (arg_closeness_len ex_cfg_period3)
              (arg_period_len ex_cfg_period3) (arg_trend_len ex_cfg_period3)
              \<le> int (len_m (train_data l))"
    by (simp add: k tl)
  from init_expansion [OF l ex_assemble al en]
  obtain train0 test0 where
    sp: "split_m (traffic_data l) [1 - arg_test_ratio ex_cfg_period3, arg_test_ratio ex_cfg_period3]
           = Inr (train0, test0)"
    and ln: "len_m (test_data l) =
              len_m test0 + nat (expand_count (slots_per_day ex_ds_960) (arg_closeness_len ex_cfg_period3)
                                   (arg_period_len ex_cfg_period3) (arg_trend_len ex_cfg_period3))"
    by blast
  have "length (rws (traffic_data l)) = 10"
    using init_traffic_len [OF l] unfolding sel .
  with split_m_Inr [OF sp] have t0: "len_m test0 = 2"
    by (simp add: len_m_def ex_cfg_period3_def ex_cfg_def py_round_def)
  have n: "len_m (test_data l) = 6"
    using ln by (simp add: t0 k)
  have d: "length (selected_slots ex_cfg_period3 ex_ds_960) - train_count ex_cfg_period3 ex_ds_960 = 2"
    by (simp add: sel tc)
  have ne: "real (len_m (test_data l))
          \<noteq> 2 + max_lookback (ST_MoveSample (arg_closeness_len ex_cfg_period3)
                   (arg_period_len ex_cfg_period3) (arg_trend_len ex_cfg_period3) 1
                   (slots_per_day ex_ds_960))"
    unfolding ml n by simp
  from l ml tl d n ne show ?thesis by blast
qed




section \<open>The raw external features after the re-slicing\<close>





section \<open>Truncation of the train partition\<close>

text \<open>
  Claim C7. With \<^verbatim>\<open>train_data_length = '0'\<close> the docstring and the claim ask for the
  latest \<open>0 * daily_slots = 0\<close> rows of the train partition. Lines 234 and 235 take the
  slice \<^verbatim>\<open>[-int(0 * daily_slots):]\<close>, that is \<^verbatim>\<open>[-0:]\<close>, which is the whole array:
  the construction completes and its train data are the 8 rows of the split train
  partition.
\<close>

theorem zero_days_keep_whole_train_partition:
  "\<exists>l. init ex_cfg_zero_days ex_ds ex_blocks = Inr l
     \<and> arg_train_data_length ex_cfg_zero_days = Length_days 0
     \<and> py_int (float64 (of_int 0 * slots_per_day ex_ds)) = 0
     \<and> train_count ex_cfg_zero_days ex_ds = 8
     \<and> len_m (train_data l) = 8"
proof -
  have "\<exists>l. init ex_cfg_zero_days ex_ds ex_blocks = Inr l"
    by (rule range_all_completes [OF _ _ ex_assemble, where k = 1])
       (simp_all add: ex_cfg_zero_days_def ex_cfg_def ex_ds_def ex_blocks_def len_m_def)
  then obtain l where l: "init ex_cfg_zero_days ex_ds ex_blocks = Inr l"
    by blast
  have ra: "arg_data_range ex_cfg_zero_days = Range_all"
    and la: "arg_train_data_length ex_cfg_zero_days = Length_days 0"
    by (simp_all add: ex_cfg_zero_days_def ex_cfg_def)
  have sel: "length (selected_slots ex_cfg_zero_days ex_ds) = 10"
    by (simp add: selected_slots_all [OF ra] ex_ds_def)
  have tc: "train_count ex_cfg_zero_days ex_ds = 8"
    unfolding train_count_def sel by (simp add: ex_cfg_zero_days_def ex_cfg_def py_round_def)
  have z: "py_int (float64 (of_int 0 * slots_per_day ex_ds)) = 0"
    by (simp add: float64_0 py_int_def)
  from init_train_data [OF l]
  have "train_data l =
           fst (truncate_train (arg_train_data_length ex_cfg_zero_days) (slots_per_day ex_ds)
                 (norm_train (normalize_step (arg_normalize ex_cfg_zero_days)
                    \<lparr>ncols = length (traffic_data_index l),
                     rws = map (\<lambda>r. map (\<lambda>j. float32 (r ! j)) (traffic_data_index l))
                              (take (train_count ex_cfg_zero_days ex_ds)
                                 (selected_slots ex_cfg_zero_days ex_ds))\<rparr>
                    \<lparr>ncols = 0, rws = []\<rparr>)) NoExt)"
    by blast
  then have "len_m (train_data l) = min 8 (length (selected_slots ex_cfg_zero_days ex_ds))"
    unfolding la tc
    by (simp add: len_m_def slice_m_def py_slice_def slice_bound_def float64_0 py_int_def
        normalize_step_len min.commute)
  then have n: "len_m (train_data l) = 8"
    unfolding sel by simp
  from l la z tc n show ?thesis by blast
qed

lemma item_valid:
  assumes "- int (length xs) \<le> i" "i < int (length xs)"
  shows "item xs i = Inr (xs ! position (length xs) i)"
  using assms by (simp add: item_def position_def Let_def)

lemma item_last:
  assumes "xs \<noteq> []"
  shows "item xs (- 1) = Inr (last xs)"
proof -
  from assms have l: "1 \<le> length xs"
    by (cases xs) simp_all
  then have "nat (int (length xs) + - 1) = length xs - 1"
    by linarith
  with l assms show ?thesis
    by (simp add: item_def Let_def last_conv_nth)
qed

lemma mapE_Inr:
  assumes "\<And>x. x \<in> set xs \<Longrightarrow> f x = Inr (g x)"
  shows "mapE f xs = Inr (map g xs)"
  using assms by (induction xs) simp_all

lemma position_less:
  assumes "- int n \<le> i" "i < int n"
  shows "position n i < n"
  using assms by (auto simp: position_def)

lemma series_shape:
  assumes sh: "has_shape a n s k" and nd: "- int s \<le> node" "node < int s" and j: "j < k"
  shows "series a node (int j) = Inr (map (\<lambda>row. last (row ! position s node ! j)) a)"
  unfolding series_def
proof (rule mapE_Inr)
  fix row assume "row \<in> set a"
  with sh have r: "length row = s"
    and w: "\<And>w. w \<in> set row \<Longrightarrow> length w = k \<and> (\<forall>c \<in> set w. c \<noteq> [])"
    by (auto simp: has_shape_def list_all_iff)
  from nd r have i1: "item row node = Inr (row ! position s node)"
    using item_valid [of row node] by simp
  have "position s node < length row"
    using position_less [OF nd] r by simp
  then have mem: "row ! position s node \<in> set row" by simp
  from w [OF mem] have lw: "length (row ! position s node) = k"
    and ch: "\<forall>c \<in> set (row ! position s node). c \<noteq> []" by simp_all
  from j lw have i2: "item (row ! position s node) (int j) = Inr (row ! position s node ! j)"
    using item_valid [of "row ! position s node" "int j"] by (simp add: position_def)
  from j lw ch have "row ! position s node ! j \<noteq> []" by simp
  then have i3: "item (row ! position s node ! j) (- 1) = Inr (last (row ! position s node ! j))"
    by (rule item_last)
  show "thenE (item row node) (\<lambda>w. thenE (item w (int j)) (\<lambda>channels. item channels (- 1)))
          = Inr (last (row ! position s node ! j))"
    by (simp add: i1 i2 i3)
qed

lemma set_column_valid:
  assumes "pos < length h" "length v = n"
  shows "set_column n h (int pos) v = Inr (h[pos := v])"
  using assms by (simp add: set_column_def broadcast_def Let_def)

lemma assign_loop_append:
  "assign_loop n src off (ks @ ks') h = thenE (assign_loop n src off ks h) (assign_loop n src off ks')"
proof (induction ks arbitrary: h)
  case Nil
  show ?case by simp
next
  case (Cons k ks)
  show ?case
  proof (cases "src k")
    case (Inl e)
    then show ?thesis by simp
  next
    case (Inr v)
    show ?thesis
    proof (cases "set_column n h (off + int k) v")
      case (Inl e)
      then show ?thesis using Inr by simp
    next
      case r: (Inr h')
      then show ?thesis using Inr Cons.IH [of h'] by simp
    qed
  qed
qed

lemma update_middle:
  assumes "off + m < length h" "length ys = m"
  shows "(take off h @ ys @ drop (off + m) h)[off + m := v]
           = take off h @ (ys @ [v]) @ drop (off + Suc m) h"
proof -
  from assms have o: "off \<le> length h" by simp
  have l1: "length (take off h) = off" using o by simp
  from assms have d: "drop (off + m) h = h ! (off + m) # drop (off + Suc m) h"
    by (simp add: Cons_nth_drop_Suc)
  have "(take off h @ ys @ drop (off + m) h)[off + m := v]
          = take off h @ ((ys @ drop (off + m) h)[m := v])"
    using l1 by (simp add: list_update_append)
  also have "(ys @ drop (off + m) h)[m := v] = ys @ ((drop (off + m) h)[0 := v])"
    using assms(2) by (simp add: list_update_append)
  also have "(drop (off + m) h)[0 := v] = v # drop (off + Suc m) h"
    by (subst d) simp
  finally show ?thesis by simp
qed

lemma assign_loop_upt:
  assumes src: "\<And>k. k < m \<Longrightarrow> src k = Inr (f k) \<and> length (f k) = n"
      and fit: "off + m \<le> length h"
  shows "assign_loop n src (int off) [0..<m] h
           = Inr (take off h @ map f [0..<m] @ drop (off + m) h)"
  using assms
proof (induction m)
  case 0
  show ?case by simp
next
  case (Suc m)
  have ih: "assign_loop n src (int off) [0..<m] h
              = Inr (take off h @ map f [0..<m] @ drop (off + m) h)"
    using Suc.prems by (intro Suc.IH) auto
  from Suc.prems(1) [of m] have sm: "src m = Inr (f m)" and lf: "length (f m) = n"
    by simp_all
  let ?g = "take off h @ map f [0..<m] @ drop (off + m) h"
  have lg: "length ?g = length h"
    using Suc.prems(2) by simp
  have pos: "off + m < length ?g"
    using Suc.prems(2) lg by simp
  have sc: "set_column n ?g (int off + int m) (f m) = Inr (?g[off + m := f m])"
    using set_column_valid [OF pos lf] by simp
  have up: "?g[off + m := f m] = take off h @ map f [0..<Suc m] @ drop (off + Suc m) h"
    using update_middle [of off m h "map f [0..<m]" "f m"] Suc.prems(2) by simp
  have "assign_loop n src (int off) [0..<Suc m] h
          = thenE (assign_loop n src (int off) [0..<m] h) (assign_loop n src (int off) [m])"
    by (simp add: assign_loop_append)
  also have "\<dots> = assign_loop n src (int off) [m] ?g"
    by (simp add: ih)
  also have "\<dots> = Inr (?g[off + m := f m])"
    by (simp add: sm sc)
  finally show ?case
    by (simp only: up)
qed

lemma node_history_columns:
  assumes nn: "0 \<le> c" "0 \<le> p" "0 \<le> t"
      and sc: "0 < c \<Longrightarrow> has_shape closeness n s (nat c)"
      and sp: "0 < p \<Longrightarrow> has_shape period n s (nat p)"
      and st: "0 < t \<Longrightarrow> has_shape trend n s (nat t)"
      and nd: "- int s \<le> node" "node < int s"
  shows "node_history n c p t closeness period trend node =
           Inr (map (\<lambda>j. map (\<lambda>row. last (row ! position s node ! j)) closeness) [0..<nat c]
                @ map (\<lambda>j. map (\<lambda>row. last (row ! position s node ! j)) period) [0..<nat p]
                @ map (\<lambda>j. map (\<lambda>row. last (row ! position s node ! j)) trend) [0..<nat t])"
proof -
  let ?C = "nat c" and ?P = "nat p" and ?T = "nat t"
  let ?f = "\<lambda>a j. map (\<lambda>row. last (row ! position s node ! j)) a"
  let ?z = "replicate n (0::real)"
  have K: "nat (c + p + t) = ?C + ?P + ?T" using nn by simp
  have s1: "series closeness node (int k) = Inr (?f closeness k) \<and> length (?f closeness k) = n"
    if "k < ?C" for k
  proof -
    from that have "0 < c" by simp
    from sc [OF this] have sh: "has_shape closeness n s ?C" .
    from series_shape [OF sh nd that] sh show ?thesis
      by (simp add: has_shape_def)
  qed
  have s2: "series period node (int k) = Inr (?f period k) \<and> length (?f period k) = n"
    if "k < ?P" for k
  proof -
    from that have "0 < p" by simp
    from sp [OF this] have sh: "has_shape period n s ?P" .
    from series_shape [OF sh nd that] sh show ?thesis
      by (simp add: has_shape_def)
  qed
  have s3: "series trend node (int k) = Inr (?f trend k) \<and> length (?f trend k) = n"
    if "k < ?T" for k
  proof -
    from that have "0 < t" by simp
    from st [OF this] have sh: "has_shape trend n s ?T" .
    from series_shape [OF sh nd that] sh show ?thesis
      by (simp add: has_shape_def)
  qed
  let ?h0 = "replicate (?C + ?P + ?T) ?z"
  let ?h1 = "map (?f closeness) [0..<?C] @ replicate (?P + ?T) ?z"
  let ?h2 = "map (?f closeness) [0..<?C] @ map (?f period) [0..<?P] @ replicate ?T ?z"
  let ?h3 = "map (?f closeness) [0..<?C] @ map (?f period) [0..<?P] @ map (?f trend) [0..<?T]"
  have "assign_loop n (\<lambda>k. series closeness node (int k)) (int 0) [0..<?C] ?h0
          = Inr (take 0 ?h0 @ map (?f closeness) [0..<?C] @ drop (0 + ?C) ?h0)"
    by (rule assign_loop_upt) (use s1 in simp_all)
  then have l1: "assign_loop n (\<lambda>k. series closeness node (int k)) 0 [0..<?C] ?h0 = Inr ?h1"
    by (simp add: add.assoc)
  have "assign_loop n (\<lambda>k. series period node (int k)) (int ?C) [0..<?P] ?h1
          = Inr (take ?C ?h1 @ map (?f period) [0..<?P] @ drop (?C + ?P) ?h1)"
    by (rule assign_loop_upt) (use s2 in simp_all)
  then have l2: "assign_loop n (\<lambda>k. series period node (int k)) c [0..<?P] ?h1 = Inr ?h2"
    using nn by simp
  have "assign_loop n (\<lambda>k. series trend node (int k)) (int (?C + ?P)) [0..<?T] ?h2
          = Inr (take (?C + ?P) ?h2 @ map (?f trend) [0..<?T] @ drop (?C + ?P + ?T) ?h2)"
    by (rule assign_loop_upt) (use s3 in simp_all)
  then have l3: "assign_loop n (\<lambda>k. series trend node (int k)) (c + p) [0..<?T] ?h2 = Inr ?h3"
    using nn by simp
  show ?thesis
    unfolding node_history_def K
    by (simp only: l1 l2 l3 thenE.simps)
qed

lemma make_concat_value:
  assumes nn: "0 \<le> closeness_len l" "0 \<le> period_len l" "0 \<le> trend_len l"
      and sc: "0 < closeness_len l \<Longrightarrow>
                 has_shape (if is_train then train_closeness l else test_closeness l)
                   (length (if is_train then train_y l else test_y l)) (station_number l)
                   (nat (closeness_len l))"
      and sp: "0 < period_len l \<Longrightarrow>
                 has_shape (if is_train then train_period l else test_period l)
                   (length (if is_train then train_y l else test_y l)) (station_number l)
                   (nat (period_len l))"
      and st: "0 < trend_len l \<Longrightarrow>
                 has_shape (if is_train then train_trend l else test_trend l)
                   (length (if is_train then train_y l else test_y l)) (station_number l)
                   (nat (trend_len l))"
      and nd: "node = All_nodes
               \<or> (\<exists>k. node = Node k \<and> - int (station_number l) \<le> k \<and> k < int (station_number l))"
  shows "make_concat l node is_train =
           Inr (map (\<lambda>r. map (\<lambda>i.
                   map (\<lambda>j. [last ((if is_train then train_closeness l else test_closeness l) ! r ! i ! j)])
                       [0..<nat (closeness_len l)]
                 @ map (\<lambda>j. [last ((if is_train then train_period l else test_period l) ! r ! i ! j)])
                       [0..<nat (period_len l)]
                 @ map (\<lambda>j. [last ((if is_train then train_trend l else test_trend l) ! r ! i ! j)])
                       [0..<nat (trend_len l)])
                 (case node of All_nodes \<Rightarrow> [0..<station_number l]
                             | Node k \<Rightarrow> [position (station_number l) k]))
                 [0..<length (if is_train then train_y l else test_y l)])"
proof -
  let ?n = "length (if is_train then train_y l else test_y l)"
  let ?cl = "if is_train then train_closeness l else test_closeness l"
  let ?pe = "if is_train then train_period l else test_period l"
  let ?tr = "if is_train then train_trend l else test_trend l"
  let ?S = "station_number l"
  let ?c = "closeness_len l" and ?p = "period_len l" and ?t = "trend_len l"
  let ?nodes = "case node of All_nodes \<Rightarrow> map int [0..<?S] | Node k \<Rightarrow> [k]"
  let ?G = "\<lambda>nd. map (\<lambda>j. map (\<lambda>row. last (row ! position ?S nd ! j)) ?cl) [0..<nat ?c]
                @ map (\<lambda>j. map (\<lambda>row. last (row ! position ?S nd ! j)) ?pe) [0..<nat ?p]
                @ map (\<lambda>j. map (\<lambda>row. last (row ! position ?S nd ! j)) ?tr) [0..<nat ?t]"
  have valid: "- int ?S \<le> x \<and> x < int ?S" if "x \<in> set ?nodes" for x
    using that nd by (auto split: node_arg.splits)
  have hist: "mapE (node_history ?n ?c ?p ?t ?cl ?pe ?tr) ?nodes = Inr (map ?G ?nodes)"
  proof (rule mapE_Inr)
    fix x assume "x \<in> set ?nodes"
    from valid [OF this] have v: "- int ?S \<le> x" "x < int ?S" by simp_all
    show "node_history ?n ?c ?p ?t ?cl ?pe ?tr x = Inr (?G x)"
      by (rule node_history_columns [OF nn sc sp st v])
  qed
  have lc: "0 < ?c \<Longrightarrow> length ?cl = ?n" using sc by (simp add: has_shape_def)
  have lp: "0 < ?p \<Longrightarrow> length ?pe = ?n" using sp by (simp add: has_shape_def)
  have lt: "0 < ?t \<Longrightarrow> length ?tr = ?n" using st by (simp add: has_shape_def)
  have nodes: "map (position ?S) ?nodes
                 = (case node of All_nodes \<Rightarrow> [0..<?S] | Node k \<Rightarrow> [position ?S k])"
    by (cases node) (simp_all add: position_def map_idI)
  have row: "map (\<lambda>col. [col ! r]) (?G x)
               = map (\<lambda>j. [last (?cl ! r ! position ?S x ! j)]) [0..<nat ?c]
                 @ map (\<lambda>j. [last (?pe ! r ! position ?S x ! j)]) [0..<nat ?p]
                 @ map (\<lambda>j. [last (?tr ! r ! position ?S x ! j)]) [0..<nat ?t]"
    if r: "r < ?n" for r x
  proof -
    have a: "map (\<lambda>col. [col ! r]) (map (\<lambda>j. map (\<lambda>row. last (row ! position ?S x ! j)) ?cl) [0..<nat ?c])
               = map (\<lambda>j. [last (?cl ! r ! position ?S x ! j)]) [0..<nat ?c]"
    proof (cases "0 < ?c")
      case True
      from lc [OF this] r have "r < length ?cl" by simp
      then show ?thesis by (simp add: comp_def)
    next
      case False
      then show ?thesis by simp
    qed
    have b: "map (\<lambda>col. [col ! r]) (map (\<lambda>j. map (\<lambda>row. last (row ! position ?S x ! j)) ?pe) [0..<nat ?p])
               = map (\<lambda>j. [last (?pe ! r ! position ?S x ! j)]) [0..<nat ?p]"
    proof (cases "0 < ?p")
      case True
      from lp [OF this] r have "r < length ?pe" by simp
      then show ?thesis by (simp add: comp_def)
    next
      case False
      then show ?thesis by simp
    qed
    have c: "map (\<lambda>col. [col ! r]) (map (\<lambda>j. map (\<lambda>row. last (row ! position ?S x ! j)) ?tr) [0..<nat ?t])
               = map (\<lambda>j. [last (?tr ! r ! position ?S x ! j)]) [0..<nat ?t]"
    proof (cases "0 < ?t")
      case True
      from lt [OF this] r have "r < length ?tr" by simp
      then show ?thesis by (simp add: comp_def)
    next
      case False
      then show ?thesis by simp
    qed
    show ?thesis
      by (simp only: map_append a b c)
  qed
  have n: "(if is_train then length (train_y l) else length (test_y l)) = ?n"
    by simp
  have neg: "\<not> ?c + ?p + ?t < 0"
    using nn by simp
  have "make_concat l node is_train
          = Inr (map (\<lambda>r. map (\<lambda>h. map (\<lambda>col. [col ! r]) h) (map ?G ?nodes)) [0..<?n])"
    unfolding make_concat_def Let_def n
    by (simp only: neg if_False hist thenE.simps)
  also have "map (\<lambda>r. map (\<lambda>h. map (\<lambda>col. [col ! r]) h) (map ?G ?nodes)) [0..<?n]
          = map (\<lambda>r. map (\<lambda>i.
                   map (\<lambda>j. [last (?cl ! r ! i ! j)]) [0..<nat ?c]
                 @ map (\<lambda>j. [last (?pe ! r ! i ! j)]) [0..<nat ?p]
                 @ map (\<lambda>j. [last (?tr ! r ! i ! j)]) [0..<nat ?t])
                 (map (position ?S) ?nodes)) [0..<?n]"
  proof (rule map_cong [OF refl])
    fix r assume "r \<in> set [0..<?n]"
    then have r: "r < ?n" by simp
    have "map (\<lambda>h. map (\<lambda>col. [col ! r]) h) (map ?G ?nodes)
            = map (\<lambda>x. map (\<lambda>col. [col ! r]) (?G x)) ?nodes"
      by (simp only: map_map o_def)
    also have "\<dots> = map (\<lambda>x.
                   map (\<lambda>j. [last (?cl ! r ! position ?S x ! j)]) [0..<nat ?c]
                 @ map (\<lambda>j. [last (?pe ! r ! position ?S x ! j)]) [0..<nat ?p]
                 @ map (\<lambda>j. [last (?tr ! r ! position ?S x ! j)]) [0..<nat ?t]) ?nodes"
      by (rule map_cong [OF refl]) (rule row [OF r])
    also have "\<dots> = map (\<lambda>i.
                   map (\<lambda>j. [last (?cl ! r ! i ! j)]) [0..<nat ?c]
                 @ map (\<lambda>j. [last (?pe ! r ! i ! j)]) [0..<nat ?p]
                 @ map (\<lambda>j. [last (?tr ! r ! i ! j)]) [0..<nat ?t])
                 (map (position ?S) ?nodes)"
      by (simp only: map_map o_def)
    finally show "map (\<lambda>h. map (\<lambda>col. [col ! r]) h) (map ?G ?nodes)
            = map (\<lambda>i.
                   map (\<lambda>j. [last (?cl ! r ! i ! j)]) [0..<nat ?c]
                 @ map (\<lambda>j. [last (?pe ! r ! i ! j)]) [0..<nat ?p]
                 @ map (\<lambda>j. [last (?tr ! r ! i ! j)]) [0..<nat ?t])
                 (map (position ?S) ?nodes)" .
  qed
  finally show ?thesis
    by (simp only: nodes)
qed

lemma move_sample_shapes:
  assumes "move_sample (ST_MoveSample c p t g slots) m = Inr (wc, wp, wt, wy)" "0 < g"
  shows "(0 < c \<longrightarrow> has_shape wc (length wy) (ncols m) (nat c))
       \<and> (0 < p \<longrightarrow> has_shape wp (length wy) (ncols m) (nat p))
       \<and> (0 < t \<longrightarrow> has_shape wt (length wy) (ncols m) (nat t))"
  using assms
  by (auto simp: move_sample_def ST_MoveSample_def has_shape_def list_all_iff
      closeness_window_def period_window_def trend_window_def split: if_splits)

lemma expand_test_ncols:
  assumes "expand_test n a b e f = Inr (u, v)"
  shows "ncols u = ncols a"
  using assms
  by (auto simp: expand_test_def vstack_m_def thenE_Inr_iff slice_m_def Let_def split: if_splits)

lemma init_core_shapes:
  assumes c: "init_core cfg ds blocks = Inr l"
  shows "(0 < closeness_len l \<longrightarrow>
            has_shape (train_closeness l) (length (train_y l)) (station_number l) (nat (closeness_len l))
          \<and> has_shape (test_closeness l) (length (test_y l)) (station_number l) (nat (closeness_len l)))
       \<and> (0 < period_len l \<longrightarrow>
            has_shape (train_period l) (length (train_y l)) (station_number l) (nat (period_len l))
          \<and> has_shape (test_period l) (length (test_y l)) (station_number l) (nat (period_len l)))
       \<and> (0 < trend_len l \<longrightarrow>
            has_shape (train_trend l) (length (train_y l)) (station_number l) (nat (trend_len l))
          \<and> has_shape (test_trend l) (length (test_y l)) (station_number l) (nat (trend_len l)))
       \<and> 0 \<le> closeness_len l \<and> 0 \<le> period_len l \<and> 0 \<le> trend_len l"
proof -
  let ?c = "arg_closeness_len cfg" and ?p = "arg_period_len cfg" and ?t = "arg_trend_len cfg"
  from init_core_stages [OF c]
  obtain traffic train0 test0 ef0 tef0 test1 tef1 wc wp wt wy vc vp vt vy where
    sp: "split_m traffic [1 - arg_test_ratio cfg, arg_test_ratio cfg] = Inr (train0, test0)"
    and td: "train_data l = fst (truncate_train (arg_train_data_length cfg) (daily_slots l)
                                (norm_train (normalize_step (arg_normalize cfg) train0 test0)) ef0)"
    and ex: "expand_test (expand_count (daily_slots l) ?c ?p ?t)
              (train_data l) (norm_test (normalize_step (arg_normalize cfg) train0 test0))
              (snd (truncate_train (arg_train_data_length cfg) (daily_slots l)
                                (norm_train (normalize_step (arg_normalize cfg) train0 test0)) ef0))
              tef0 = Inr (test1, tef1)"
    and w: "move_sample (ST_MoveSample ?c ?p ?t 1 (daily_slots l)) (train_data l) = Inr (wc, wp, wt, wy)"
    and v: "move_sample (ST_MoveSample ?c ?p ?t 1 (daily_slots l)) test1 = Inr (vc, vp, vt, vy)"
    and f: "train_closeness l = wc" "train_period l = wp" "train_trend l = wt" "train_y l = wy"
      "test_closeness l = vc" "test_period l = vp" "test_trend l = vt" "test_y l = vy"
      "closeness_len l = ?c" "period_len l = ?p" "trend_len l = ?t"
    and nn: "0 \<le> ?c" "0 \<le> ?p" "0 \<le> ?t"
    and sn: "station_number l = ncols traffic"
    by blast
  from split_m_Inr [OF sp] have "ncols train0 = ncols traffic" by simp
  then have n1: "ncols (train_data l) = station_number l"
    unfolding td sn by (simp add: truncate_train_shape normalize_step_ncols)
  from expand_test_ncols [OF ex] n1 have n2: "ncols test1 = station_number l" by simp
  have one: "(0::int) < 1" by simp
  from move_sample_shapes [OF w one] move_sample_shapes [OF v one] nn
  show ?thesis
    unfolding f n1 n2 by simp
qed

lemma init_shapes_without_tpe:
  assumes i: "init cfg ds blocks = Inr l" and off: "\<not> arg_with_tpe cfg"
  shows "(0 < closeness_len l \<longrightarrow>
            has_shape (train_closeness l) (length (train_y l)) (station_number l) (nat (closeness_len l))
          \<and> has_shape (test_closeness l) (length (test_y l)) (station_number l) (nat (closeness_len l)))
       \<and> (0 < period_len l \<longrightarrow>
            has_shape (train_period l) (length (train_y l)) (station_number l) (nat (period_len l))
          \<and> has_shape (test_period l) (length (test_y l)) (station_number l) (nat (period_len l)))
       \<and> (0 < trend_len l \<longrightarrow>
            has_shape (train_trend l) (length (train_y l)) (station_number l) (nat (trend_len l))
          \<and> has_shape (test_trend l) (length (test_y l)) (station_number l) (nat (trend_len l)))
       \<and> 0 \<le> closeness_len l \<and> 0 \<le> period_len l \<and> 0 \<le> trend_len l"
proof -
  from i obtain l0 l1 where c: "init_core cfg ds blocks = Inr l0"
    and t: "tpe_step cfg l0 = Inr l1" and m: "lm_step cfg l1 = Inr l"
    by (rule init_Inr_steps)
  from t off have l1: "l1 = l0\<lparr>tpe_dim := None\<rparr>"
    by (simp add: tpe_step_def)
  note k = lm_step_keeps [OF m]
  have e: "train_closeness l = train_closeness l0" "train_period l = train_period l0"
    "train_trend l = train_trend l0" "test_closeness l = test_closeness l0"
    "test_period l = test_period l0" "test_trend l = test_trend l0"
    "train_y l = train_y l0" "test_y l = test_y l0" "station_number l = station_number l0"
    "closeness_len l = closeness_len l0" "period_len l = period_len l0" "trend_len l = trend_len l0"
    using k by (simp_all add: l1)
  show ?thesis
    unfolding e by (rule init_core_shapes [OF c])
qed

section \<open>The concatenated history\<close>

text \<open>
  Claim C6. Let the window arrays of the chosen partition have the documented shape
  \<open>[len(y), station_number, length, channels]\<close> (asked only of a window whose length
  is positive), and let \<^verbatim>\<open>node\<close> be \<^verbatim>\<open>'all'\<close> or an index that Python accepts for
  \<open>station_number\<close> nodes. Then, for both values of \<^verbatim>\<open>is_train\<close>, \<^verbatim>\<open>make_concat\<close>
  returns an array of shape
  \<open>[len(y), number of selected nodes, closeness_len + period_len + trend_len, 1]\<close>,
  and its entry at row \<open>r\<close>, selected node \<open>i\<close> and position \<open>j\<close> is
  \<open>concat_entry\<close>: the closeness entries in their order, then the period entries,
  then the trend entries, each copied from the last channel of the window array at the
  same row and node.
\<close>

theorem make_concat_layout:
  assumes "0 \<le> closeness_len l" "0 \<le> period_len l" "0 \<le> trend_len l"
      and "0 < closeness_len l \<Longrightarrow>
                 has_shape (if is_train then train_closeness l else test_closeness l)
                   (length (if is_train then train_y l else test_y l)) (station_number l)
                   (nat (closeness_len l))"
      and "0 < period_len l \<Longrightarrow>
                 has_shape (if is_train then train_period l else test_period l)
                   (length (if is_train then train_y l else test_y l)) (station_number l)
                   (nat (period_len l))"
      and "0 < trend_len l \<Longrightarrow>
                 has_shape (if is_train then train_trend l else test_trend l)
                   (length (if is_train then train_y l else test_y l)) (station_number l)
                   (nat (trend_len l))"
      and "node = All_nodes
               \<or> (\<exists>k. node = Node k \<and> - int (station_number l) \<le> k \<and> k < int (station_number l))"
  shows "\<exists>h. make_concat l node is_train = Inr h
           \<and> length h = length (if is_train then train_y l else test_y l)
           \<and> (\<forall>r < length (if is_train then train_y l else test_y l).
                length (h ! r)
                  = length (case node of All_nodes \<Rightarrow> [0..<station_number l]
                                      | Node k \<Rightarrow> [position (station_number l) k])
              \<and> (\<forall>i < length (case node of All_nodes \<Rightarrow> [0..<station_number l]
                                          | Node k \<Rightarrow> [position (station_number l) k]).
                   length (h ! r ! i) = nat (closeness_len l + period_len l + trend_len l)
                 \<and> (\<forall>j < nat (closeness_len l + period_len l + trend_len l).
                      h ! r ! i ! j =
                        [concat_entry (if is_train then train_closeness l else test_closeness l)
                           (if is_train then train_period l else test_period l)
                           (if is_train then train_trend l else test_trend l)
                           (nat (closeness_len l)) (nat (period_len l)) r
                           ((case node of All_nodes \<Rightarrow> [0..<station_number l]
                                        | Node k \<Rightarrow> [position (station_number l) k]) ! i) j])))"
proof -
  let ?n = "length (if is_train then train_y l else test_y l)"
  let ?cl = "if is_train then train_closeness l else test_closeness l"
  let ?pe = "if is_train then train_period l else test_period l"
  let ?tr = "if is_train then train_trend l else test_trend l"
  let ?C = "nat (closeness_len l)" and ?P = "nat (period_len l)" and ?T = "nat (trend_len l)"
  let ?nodes = "case node of All_nodes \<Rightarrow> [0..<station_number l]
                           | Node k \<Rightarrow> [position (station_number l) k]"
  let ?row = "\<lambda>r i. map (\<lambda>j. [last (?cl ! r ! i ! j)]) [0..<?C]
                 @ map (\<lambda>j. [last (?pe ! r ! i ! j)]) [0..<?P]
                 @ map (\<lambda>j. [last (?tr ! r ! i ! j)]) [0..<?T]"
  let ?h = "map (\<lambda>r. map (?row r) ?nodes) [0..<?n]"
  have v: "make_concat l node is_train = Inr ?h"
    by (rule make_concat_value [OF assms])
  have K: "nat (closeness_len l + period_len l + trend_len l) = ?C + ?P + ?T"
    using assms(1-3) by simp
  have e: "?row r i ! j = [concat_entry ?cl ?pe ?tr ?C ?P r i j]" if "j < ?C + ?P + ?T" for r i j
  proof -
    consider "j < ?C" | "?C \<le> j" "j < ?C + ?P" | "?C + ?P \<le> j" by linarith
    then show ?thesis
    proof cases
      case 1
      then show ?thesis by (simp add: nth_append concat_entry_def)
    next
      case 2
      then have "j - ?C < ?P" by simp
      with 2 show ?thesis by (simp add: nth_append concat_entry_def)
    next
      case 3
      with that have a: "j - ?C - ?P < ?T" "\<not> j < ?C" "\<not> j - ?C < ?P" "\<not> j < ?C + ?P"
        by simp_all
      then show ?thesis
        by (simp add: nth_append concat_entry_def)
    qed
  qed
  have "length ?h = ?n" by simp
  moreover have "length (?h ! r) = length ?nodes
      \<and> (\<forall>i < length ?nodes. length (?h ! r ! i) = ?C + ?P + ?T
            \<and> (\<forall>j < ?C + ?P + ?T. ?h ! r ! i ! j = [concat_entry ?cl ?pe ?tr ?C ?P r (?nodes ! i) j]))"
    if "r < ?n" for r
    using that e by simp
  ultimately show ?thesis
    unfolding K using v by blast
qed

theorem make_concat_layout_witness:
  "\<exists>l h. init ex_cfg ex_ds ex_blocks = Inr l
     \<and> closeness_len l = 2 \<and> period_len l = 1 \<and> trend_len l = 0 \<and> station_number l = 1
     \<and> has_shape (train_closeness l) (length (train_y l)) 1 2
     \<and> has_shape (train_period l) (length (train_y l)) 1 1
     \<and> make_concat l All_nodes True = Inr h
     \<and> length h = length (train_y l)"
proof -
  obtain l where l: "init ex_cfg ex_ds ex_blocks = Inr l"
    using ex_init by blast
  have off: "\<not> arg_with_tpe ex_cfg" by (simp add: ex_cfg_def)
  note sh = init_shapes_without_tpe [OF l off]
  from l obtain l0 l1 where c: "init_core ex_cfg ex_ds ex_blocks = Inr l0"
    and t: "tpe_step ex_cfg l0 = Inr l1" and m: "lm_step ex_cfg l1 = Inr l"
    by (rule init_Inr_steps)
  from init_core_stages [OF c] tpe_step_keeps [OF t] lm_step_keeps [OF m]
  have lens: "closeness_len l = 2" "period_len l = 1" "trend_len l = 0"
    by (auto simp: ex_cfg_def)
  have ia: "traffic_index (node_traffic ex_ds) (slots_per_day ex_ds) = [0]"
    by (simp only: ex_slots ex_index)
  from init_index [OF l] have "daily_slots l = slots_per_day ex_ds"
    by (auto simp: daily_slots_of_def split: if_splits)
  moreover from init_index [OF l]
  have "traffic_data_index l = traffic_index (node_traffic ex_ds) (daily_slots l)"
    by blast
  ultimately have "traffic_data_index l = [0]" using ia by simp
  with init_station_number [OF l] have S: "station_number l = 1" by simp
  have h1: "0 \<le> closeness_len l" "0 \<le> period_len l" "0 \<le> trend_len l"
    using lens by simp_all
  have h2: "0 < closeness_len l \<Longrightarrow>
                 has_shape (if True then train_closeness l else test_closeness l)
                   (length (if True then train_y l else test_y l)) (station_number l)
                   (nat (closeness_len l))"
    using sh by simp
  have h3: "0 < period_len l \<Longrightarrow>
                 has_shape (if True then train_period l else test_period l)
                   (length (if True then train_y l else test_y l)) (station_number l)
                   (nat (period_len l))"
    using sh by simp
  have h4: "0 < trend_len l \<Longrightarrow>
                 has_shape (if True then train_trend l else test_trend l)
                   (length (if True then train_y l else test_y l)) (station_number l)
                   (nat (trend_len l))"
    using sh by simp
  have h5: "All_nodes = All_nodes
               \<or> (\<exists>k. All_nodes = Node k \<and> - int (station_number l) \<le> k \<and> k < int (station_number l))"
    by simp
  from make_concat_layout [OF h1 h2 h3 h4 h5]
  obtain h where h: "make_concat l All_nodes True = Inr h" "length h = length (train_y l)"
    by auto
  from sh lens S have s1: "has_shape (train_closeness l) (length (train_y l)) 1 2"
    and s2: "has_shape (train_period l) (length (train_y l)) 1 1"
    by simp_all
  from l lens S s1 s2 h show ?thesis by blast
qed

end
